theory Spec2Isabelle
  imports Complex_Main "HOL-Library.Monad_Syntax"
begin

section \<open>Numbers\<close>

text \<open>
  The simulation in \<^verbatim>\<open>script.js\<close> computes with JavaScript numbers, which are binary64
  floating-point numbers: every arithmetic operation returns the exact result rounded to
  the nearest number of the format, ties to even. The embedding takes the rounding as a
  parameter \<open>rd\<close> of every function that computes. \<open>binary64\<close> is the rounding of the
  program; \<open>exact\<close> rounds nothing and gives the arithmetic of the reals, in which the
  properties that speak of exact arithmetic are stated. A \<^verbatim>\<open>Float32Array\<close> rounds what is
  stored in it to binary32 (\<open>fround\<close>, the function of \<^verbatim>\<open>Math.fround\<close>).

  \<open>round_to p emin\<close> rounds to \<open>p\<close> significant bits with the least exponent \<open>emin\<close>
  (below it the spacing stays that of the subnormal numbers). The exponent has no upper
  bound: a result too large for the format, which JavaScript turns into an infinity, is
  outside the model. The other values that are not reals are kept visible: the result of
  \<^verbatim>\<open>parseFloat\<close> is a \<open>jsnum\<close>, which may be \<open>NaN\<close> (a field that reads \<^verbatim>\<open>Infinity\<close> is
  outside the model), and an operation whose JavaScript result would not be a finite
  number (a division by zero, which gives an infinity or NaN, and a read outside a typed
  array, which gives \<^verbatim>\<open>undefined\<close>) returns \<open>None\<close>. JavaScript raises no exception at these
  places; \<open>None\<close> only records that a value left the reals.
\<close>

type_synonym rounding = "real \<Rightarrow> real"

text \<open>The nearest integer, a tie going to the even one.\<close>

definition rne :: "real \<Rightarrow> int" where
  "rne y =
     (if y - of_int \<lfloor>y\<rfloor> < 1 / 2 then \<lfloor>y\<rfloor>
      else if 1 / 2 < y - of_int \<lfloor>y\<rfloor> then \<lfloor>y\<rfloor> + 1
      else if even \<lfloor>y\<rfloor> then \<lfloor>y\<rfloor> else \<lfloor>y\<rfloor> + 1)"

text \<open>The spacing of the numbers of the format around \<open>x\<close>.\<close>

definition ulp :: "nat \<Rightarrow> int \<Rightarrow> real \<Rightarrow> real" where
  "ulp p emin x = 2 powr of_int (max \<lfloor>log 2 \<bar>x\<bar>\<rfloor> emin - int p + 1)"

definition round_to :: "nat \<Rightarrow> int \<Rightarrow> rounding" where
  "round_to p emin x = (if x = 0 then 0 else of_int (rne (x / ulp p emin x)) * ulp p emin x)"

definition binary64 :: rounding where
  "binary64 = round_to 53 (- 1022)"

definition fround :: rounding where
  "fround = round_to 24 (- 126)"

definition exact :: rounding where
  "exact x = x"

definition js_add :: "rounding \<Rightarrow> real \<Rightarrow> real \<Rightarrow> real" where
  "js_add rd a b = rd (a + b)"

definition js_sub :: "rounding \<Rightarrow> real \<Rightarrow> real \<Rightarrow> real" where
  "js_sub rd a b = rd (a - b)"

definition js_mul :: "rounding \<Rightarrow> real \<Rightarrow> real \<Rightarrow> real" where
  "js_mul rd a b = rd (a * b)"

definition js_div :: "rounding \<Rightarrow> real \<Rightarrow> real \<Rightarrow> real option" where
  "js_div rd a b = (if b = 0 then None else Some (rd (a / b)))"

definition js_sqrt :: "rounding \<Rightarrow> real \<Rightarrow> real" where
  "js_sqrt rd a = rd (sqrt a)"

datatype jsnum = NaN | Num real

text \<open>\<^verbatim>\<open>a || b\<close> on numbers: \<open>NaN\<close> and \<open>0\<close> are falsy, and \<open>b\<close> is evaluated only then.
  Here \<open>b\<close> may draw random numbers, so it takes and returns the position in the stream.\<close>

definition js_or :: "jsnum \<Rightarrow> (nat \<Rightarrow> real \<times> nat) \<Rightarrow> nat \<Rightarrow> real \<times> nat" where
  "js_or a b k = (case a of NaN \<Rightarrow> b k | Num v \<Rightarrow> if v = 0 then b k else (v, k))"

section \<open>Vectors\<close>

text \<open>\<^verbatim>\<open>THREE.Vector3\<close> and the methods of it that the simulation calls, as three.js
  defines them, each component computed on its own: \<^verbatim>\<open>lengthSq()\<close> is
  \<^verbatim>\<open>x * x + y * y + z * z\<close>, \<^verbatim>\<open>length()\<close> its \<^verbatim>\<open>Math.sqrt\<close>, \<^verbatim>\<open>divideScalar(s)\<close> is
  \<^verbatim>\<open>multiplyScalar(1 / s)\<close> and \<^verbatim>\<open>normalize()\<close> is \<^verbatim>\<open>divideScalar(length() || 1)\<close>.
  The type is also given the exact addition and subtraction of vectors, in which the
  properties are stated.\<close>

datatype vec3 = Vector3 (vec_x: real) (vec_y: real) (vec_z: real)

instantiation vec3 :: ab_group_add
begin

definition zero_vec3 :: vec3 where
  "zero_vec3 = Vector3 0 0 0"

definition plus_vec3 :: "vec3 \<Rightarrow> vec3 \<Rightarrow> vec3" where
  "plus_vec3 a b = Vector3 (vec_x a + vec_x b) (vec_y a + vec_y b) (vec_z a + vec_z b)"

definition uminus_vec3 :: "vec3 \<Rightarrow> vec3" where
  "uminus_vec3 a = Vector3 (- vec_x a) (- vec_y a) (- vec_z a)"

definition minus_vec3 :: "vec3 \<Rightarrow> vec3 \<Rightarrow> vec3" where
  "minus_vec3 a b = Vector3 (vec_x a - vec_x b) (vec_y a - vec_y b) (vec_z a - vec_z b)"

instance
  by standard (simp_all add: zero_vec3_def plus_vec3_def uminus_vec3_def minus_vec3_def)

end

definition addV :: "rounding \<Rightarrow> vec3 \<Rightarrow> vec3 \<Rightarrow> vec3" where
  "addV rd a b =
     Vector3 (js_add rd (vec_x a) (vec_x b)) (js_add rd (vec_y a) (vec_y b))
       (js_add rd (vec_z a) (vec_z b))"

definition subVectors :: "rounding \<Rightarrow> vec3 \<Rightarrow> vec3 \<Rightarrow> vec3" where
  "subVectors rd a b =
     Vector3 (js_sub rd (vec_x a) (vec_x b)) (js_sub rd (vec_y a) (vec_y b))
       (js_sub rd (vec_z a) (vec_z b))"

definition multiplyScalar :: "rounding \<Rightarrow> vec3 \<Rightarrow> real \<Rightarrow> vec3" where
  "multiplyScalar rd v s =
     Vector3 (js_mul rd (vec_x v) s) (js_mul rd (vec_y v) s) (js_mul rd (vec_z v) s)"

definition divideScalar :: "rounding \<Rightarrow> vec3 \<Rightarrow> real \<Rightarrow> vec3 option" where
  "divideScalar rd v s = do { r \<leftarrow> js_div rd 1 s; Some (multiplyScalar rd v r) }"

definition lengthSq :: "rounding \<Rightarrow> vec3 \<Rightarrow> real" where
  "lengthSq rd v =
     js_add rd (js_add rd (js_mul rd (vec_x v) (vec_x v)) (js_mul rd (vec_y v) (vec_y v)))
       (js_mul rd (vec_z v) (vec_z v))"

definition lengthV :: "rounding \<Rightarrow> vec3 \<Rightarrow> real" where
  "lengthV rd v =
     js_sqrt rd
       (js_add rd (js_add rd (js_mul rd (vec_x v) (vec_x v)) (js_mul rd (vec_y v) (vec_y v)))
          (js_mul rd (vec_z v) (vec_z v)))"

definition normalizeV :: "rounding \<Rightarrow> vec3 \<Rightarrow> vec3 option" where
  "normalizeV rd v = divideScalar rd v (if lengthV rd v = 0 then 1 else lengthV rd v)"

section \<open>Constants and the body record\<close>

text \<open>The literals \<^verbatim>\<open>9.8\<close> and \<^verbatim>\<open>0.1\<close> denote the numbers of the format nearest to them;
  the other constants are integers, which the format holds exactly.\<close>

definition G :: "rounding \<Rightarrow> real" where
  "G rd = rd 9.8"

definition default_mass :: real where
  "default_mass = 300"

definition default_trail_length :: nat where
  "default_trail_length = 800"

definition default_speed_mutiplier :: real where
  "default_speed_mutiplier = 12"

definition dt :: "rounding \<Rightarrow> real" where
  "dt rd = rd 0.1"

text \<open>One element of \<^verbatim>\<open>bodies\<close>. \<open>position\<close> is \<^verbatim>\<open>mesh.position\<close>, \<open>displayPositions\<close> is
  the array of the trail line's position attribute; the other fields carry the names of
  the source. \<open>trailPoints\<close> and \<open>displayPositions\<close> are \<^verbatim>\<open>Float32Array\<close>s. The sphere's radius
  and colour only reach the renderer and are left out.\<close>

record body =
  position :: vec3
  velocity :: vec3
  mass :: real
  trailPoints :: "real list"
  trailIndex :: nat
  trailPointsCount :: nat
  displayPositions :: "real list"

text \<open>The seven input fields of body \<open>i\<close>, each already passed through \<^verbatim>\<open>parseFloat\<close>.\<close>

record controls =
  b_posX :: jsnum
  b_posY :: jsnum
  b_posZ :: jsnum
  b_velX :: jsnum
  b_velY :: jsnum
  b_velZ :: jsnum
  b_mass :: jsnum

section \<open>createBodiesFromControls\<close>

text \<open>\<^verbatim>\<open>Math.random()\<close>: the generator is a stream \<open>rnd\<close> of numbers and the position
  \<open>k\<close> of the next draw. \<^verbatim>\<open>Math.PI\<close> is \<open>rd pi\<close>, and \<^verbatim>\<open>Math.sin\<close>, \<^verbatim>\<open>Math.cos\<close> and
  \<^verbatim>\<open>Math.acos\<close> are taken to round the exact value (the language leaves their accuracy
  to the implementation; no property below depends on them).\<close>

definition math_random :: "(nat \<Rightarrow> real) \<Rightarrow> nat \<Rightarrow> real \<times> nat" where
  "math_random rnd k = (rnd k, Suc k)"

definition randomOffset :: "rounding \<Rightarrow> (nat \<Rightarrow> real) \<Rightarrow> nat \<Rightarrow> real \<times> nat" where
  "randomOffset rd rnd k =
     (let (r, k1) = math_random rnd k in (js_mul rd (js_sub rd r 0.5) 20, k1))"

definition randomSpeed :: "rounding \<Rightarrow> (nat \<Rightarrow> real) \<Rightarrow> nat \<Rightarrow> real \<times> nat" where
  "randomSpeed rd rnd k =
     (let (r, k1) = math_random rnd k
      in (js_add rd (js_mul rd r default_speed_mutiplier) 0.5, k1))"

definition randomDirection :: "rounding \<Rightarrow> (nat \<Rightarrow> real) \<Rightarrow> nat \<Rightarrow> vec3 \<times> nat" where
  "randomDirection rd rnd k =
     (let (r1, k1) = math_random rnd k;
          theta = js_mul rd (js_mul rd r1 (rd pi)) 2;
          (r2, k2) = math_random rnd k1;
          phi = rd (arccos (js_sub rd (js_mul rd r2 2) 1))
      in (Vector3 (js_mul rd (rd (sin phi)) (rd (cos theta)))
            (js_mul rd (rd (sin phi)) (rd (sin theta))) (rd (cos phi)), k2))"

definition shifted :: "rounding \<Rightarrow> real \<Rightarrow> (nat \<Rightarrow> real \<times> nat) \<Rightarrow> nat \<Rightarrow> real \<times> nat" where
  "shifted rd c f k = (let (r, k1) = f k in (js_add rd c r, k1))"

definition scaled :: "rounding \<Rightarrow> real \<Rightarrow> (nat \<Rightarrow> real \<times> nat) \<Rightarrow> nat \<Rightarrow> real \<times> nat" where
  "scaled rd c f k = (let (r, k1) = f k in (js_mul rd c r, k1))"

text \<open>The body of the loop \<^verbatim>\<open>for (let i = 1; i <= 3; i++)\<close>: the body pushed for \<open>i\<close>.\<close>

definition createBody ::
  "rounding \<Rightarrow> (nat \<Rightarrow> controls) \<Rightarrow> (nat \<Rightarrow> real) \<Rightarrow> nat \<Rightarrow> nat \<Rightarrow> body \<times> nat" where
  "createBody rd ctl rnd i k0 =
     (let (posX, k1) = js_or (b_posX (ctl i))
            (if i = 1 then shifted rd (- 50) (randomOffset rd rnd)
             else if i = 2 then shifted rd 50 (randomOffset rd rnd)
             else randomOffset rd rnd) k0;
          (posY, k2) = js_or (b_posY (ctl i))
            (if i = 3 then shifted rd 50 (randomOffset rd rnd) else randomOffset rd rnd) k1;
          (posZ, k3) = js_or (b_posZ (ctl i)) (randomOffset rd rnd) k2;
          (dir, k4) = randomDirection rd rnd k3;
          (velX, k5) = js_or (b_velX (ctl i)) (scaled rd (vec_x dir) (randomSpeed rd rnd)) k4;
          (velY, k6) = js_or (b_velY (ctl i)) (scaled rd (vec_y dir) (randomSpeed rd rnd)) k5;
          (velZ, k7) = js_or (b_velZ (ctl i)) (scaled rd (vec_z dir) (randomSpeed rd rnd)) k6;
          (m, k8) = js_or (b_mass (ctl i)) (\<lambda>k. (default_mass, k)) k7
      in (\<lparr> position = Vector3 posX posY posZ,
            velocity = Vector3 velX velY velZ,
            mass = m,
            trailPoints = replicate (default_trail_length * 3) 0,
            trailIndex = 0,
            trailPointsCount = 0,
            displayPositions = replicate (default_trail_length * 3) 0 \<rparr>, k8))"

fun createLoop ::
  "rounding \<Rightarrow> (nat \<Rightarrow> controls) \<Rightarrow> (nat \<Rightarrow> real) \<Rightarrow> nat list \<Rightarrow> body list \<Rightarrow> nat \<Rightarrow>
   body list \<times> nat" where
  "createLoop rd ctl rnd [] bodies k = (bodies, k)"
| "createLoop rd ctl rnd (i # is) bodies k =
     (let (b, k1) = createBody rd ctl rnd i k in createLoop rd ctl rnd is (bodies @ [b]) k1)"

text \<open>The old \<^verbatim>\<open>bodies\<close> are dropped (\<^verbatim>\<open>bodies = []\<close>) whatever they were, so the new
  list does not depend on them.\<close>

definition createBodiesFromControls ::
  "rounding \<Rightarrow> (nat \<Rightarrow> controls) \<Rightarrow> (nat \<Rightarrow> real) \<Rightarrow> nat \<Rightarrow> body list \<times> nat" where
  "createBodiesFromControls rd ctl rnd k = createLoop rd ctl rnd [1, 2, 3] [] k"

section \<open>updatePhysics\<close>

text \<open>The inner loop over \<open>j\<close>, for body \<open>i\<close>: the list holds the values of \<open>j\<close> still to
  run, \<open>totalForce\<close> is the accumulator. \<open>distanceSq\<close> is the number the program computes,
  and it is this number that is compared with 1.\<close>

fun forceLoop :: "rounding \<Rightarrow> body list \<Rightarrow> nat \<Rightarrow> nat list \<Rightarrow> vec3 \<Rightarrow> vec3 option" where
  "forceLoop rd bodies i [] totalForce = Some totalForce"
| "forceLoop rd bodies i (j # js) totalForce =
     (if i = j then forceLoop rd bodies i js totalForce
      else
        let bodyA = bodies ! i;
            bodyB = bodies ! j;
            diff = subVectors rd (position bodyB) (position bodyA);
            distanceSq = lengthSq rd diff
        in if distanceSq < 1 then forceLoop rd bodies i js totalForce
           else do {
             forceMagnitude \<leftarrow>
               js_div rd (js_mul rd (js_mul rd (G rd) (mass bodyA)) (mass bodyB)) distanceSq;
             forceDirection \<leftarrow> normalizeV rd diff;
             forceLoop rd bodies i js
               (addV rd totalForce (multiplyScalar rd forceDirection forceMagnitude))
           })"

text \<open>The outer loop over \<open>i\<close>: \<^verbatim>\<open>bodyA.velocity\<close> is updated in place, so the bodies
  after \<open>i\<close> see the list with the new velocity of \<open>i\<close>.\<close>

fun velocityLoop :: "rounding \<Rightarrow> nat list \<Rightarrow> body list \<Rightarrow> body list option" where
  "velocityLoop rd [] bodies = Some bodies"
| "velocityLoop rd (i # is) bodies =
     do {
       totalForce \<leftarrow> forceLoop rd bodies i [0..<length bodies] (Vector3 0 0 0);
       acceleration \<leftarrow> divideScalar rd totalForce (mass (bodies ! i));
       velocityLoop rd is
         (bodies[i := (bodies ! i)\<lparr>velocity :=
            addV rd (velocity (bodies ! i)) (multiplyScalar rd acceleration (dt rd))\<rparr>])
     }"

text \<open>A \<^verbatim>\<open>Float32Array\<close> rounds the number written to it to binary32 and ignores a write
  outside its range, as list update does; a read outside gives \<^verbatim>\<open>undefined\<close>.\<close>

definition f32_set :: "real list \<Rightarrow> nat \<Rightarrow> real \<Rightarrow> real list" where
  "f32_set a n v = a[n := fround v]"

definition f32_get :: "real list \<Rightarrow> nat \<Rightarrow> real option" where
  "f32_get a n = (if n < length a then Some (a ! n) else None)"

text \<open>The loop over \<open>k\<close> that copies the trail into the display array.\<close>

fun copyLoop :: "body \<Rightarrow> nat list \<Rightarrow> real list \<Rightarrow> real list option" where
  "copyLoop b [] displayPos = Some displayPos"
| "copyLoop b (k # ks) displayPos =
     (let sourceIdx =
            (if trailPointsCount b = default_trail_length
             then (trailIndex b + k) mod default_trail_length
             else k)
      in do {
        px \<leftarrow> f32_get (trailPoints b) (sourceIdx * 3);
        py \<leftarrow> f32_get (trailPoints b) (sourceIdx * 3 + 1);
        pz \<leftarrow> f32_get (trailPoints b) (sourceIdx * 3 + 2);
        copyLoop b ks
          (f32_set (f32_set (f32_set displayPos (k * 3) px) (k * 3 + 1) py) (k * 3 + 2) pz)
      })"

text \<open>The callback of \<^verbatim>\<open>bodies.forEach\<close>.\<close>

definition updateBody :: "rounding \<Rightarrow> body \<Rightarrow> body option" where
  "updateBody rd b =
     (let p = addV rd (position b) (multiplyScalar rd (velocity b) (dt rd));
          b1 = b\<lparr> position := p,
                 trailPoints :=
                   f32_set (f32_set (f32_set (trailPoints b) (trailIndex b * 3) (vec_x p))
                     (trailIndex b * 3 + 1) (vec_y p)) (trailIndex b * 3 + 2) (vec_z p) \<rparr>;
          b2 = b1\<lparr> trailIndex := (trailIndex b1 + 1) mod default_trail_length \<rparr>;
          b3 = (if trailPointsCount b2 < default_trail_length
                then b2\<lparr> trailPointsCount := trailPointsCount b2 + 1 \<rparr> else b2)
      in do {
        d \<leftarrow> copyLoop b3 [0..<trailPointsCount b3] (displayPositions b3);
        Some (b3\<lparr> displayPositions := d \<rparr>)
      })"

fun forEachBody :: "rounding \<Rightarrow> body list \<Rightarrow> body list option" where
  "forEachBody rd [] = Some []"
| "forEachBody rd (b # bs) =
     do { b' \<leftarrow> updateBody rd b; bs' \<leftarrow> forEachBody rd bs; Some (b' # bs') }"

definition updatePhysics :: "rounding \<Rightarrow> body list \<Rightarrow> body list option" where
  "updatePhysics rd bodies =
     do { bodies1 \<leftarrow> velocityLoop rd [0..<length bodies] bodies; forEachBody rd bodies1 }"

text \<open>\<open>n\<close> frames of \<^verbatim>\<open>animate\<close>, each calling \<^verbatim>\<open>updatePhysics\<close> once.\<close>

fun steps :: "rounding \<Rightarrow> nat \<Rightarrow> body list \<Rightarrow> body list option" where
  "steps rd 0 bodies = Some bodies"
| "steps rd (Suc n) bodies = do { bs \<leftarrow> steps rd n bodies; updatePhysics rd bs }"

section \<open>Notions used to state the properties\<close>

text \<open>The pull of \<open>b\<close> on \<open>a\<close> as the specification words it, in exact arithmetic: the
  magnitude \<open>G * mass a * mass b / distanceSq\<close> times the unit vector from \<open>a\<close> to \<open>b\<close>;
  \<open>pairForce\<close> adds the rule that a pair closer than one unit contributes nothing.\<close>

definition attraction :: "body \<Rightarrow> body \<Rightarrow> vec3" where
  "attraction a b =
     multiplyScalar exact
       (multiplyScalar exact (position b - position a)
          (1 / lengthV exact (position b - position a)))
       (G exact * mass a * mass b / lengthSq exact (position b - position a))"

definition pairForce :: "body \<Rightarrow> body \<Rightarrow> vec3" where
  "pairForce a b = (if lengthSq exact (position b - position a) < 1 then 0 else attraction a b)"

text \<open>What an iteration of the inner loop that does not skip its pair adds to
  \<^verbatim>\<open>totalForce\<close>: \<^verbatim>\<open>forceDirection.multiplyScalar(forceMagnitude)\<close>, in the arithmetic of
  the rounding \<open>rd\<close>.\<close>

definition forceTerm :: "rounding \<Rightarrow> body \<Rightarrow> body \<Rightarrow> vec3" where
  "forceTerm rd bodyA bodyB =
     (let diff = subVectors rd (position bodyB) (position bodyA);
          distanceSq = lengthSq rd diff;
          forceMagnitude = rd (js_mul rd (js_mul rd (G rd) (mass bodyA)) (mass bodyB) / distanceSq);
          len = lengthV rd diff;
          forceDirection = multiplyScalar rd diff (rd (1 / (if len = 0 then 1 else len)))
      in multiplyScalar rd forceDirection forceMagnitude)"

text \<open>The force the inner loop ends with for body \<open>i\<close> (the loop always ends with one),
  and the velocity the outer loop gives \<open>i\<close> from it.\<close>

definition totalForceOn :: "rounding \<Rightarrow> body list \<Rightarrow> nat \<Rightarrow> vec3" where
  "totalForceOn rd bodies i =
     the (forceLoop rd bodies i [0..<length bodies] (Vector3 0 0 0))"

definition newVelocity :: "rounding \<Rightarrow> body list \<Rightarrow> nat \<Rightarrow> vec3" where
  "newVelocity rd bodies i =
     addV rd (velocity (bodies ! i))
       (multiplyScalar rd
          (multiplyScalar rd (totalForceOn rd bodies i) (rd (1 / mass (bodies ! i)))) (dt rd))"

definition sameGeometry :: "body list \<Rightarrow> body list \<Rightarrow> bool" where
  "sameGeometry bs bs0 \<longleftrightarrow>
     length bs = length bs0 \<and>
     (\<forall>j<length bs. position (bs ! j) = position (bs0 ! j) \<and> mass (bs ! j) = mass (bs0 ! j))"

definition momentum :: "body list \<Rightarrow> vec3" where
  "momentum bodies = (\<Sum>b\<leftarrow>bodies. multiplyScalar exact (velocity b) (mass b))"

text \<open>The slot the copy loop reads for display position \<open>k\<close>.\<close>

definition sourceIdx :: "body \<Rightarrow> nat \<Rightarrow> nat" where
  "sourceIdx b k =
     (if trailPointsCount b = default_trail_length
      then (trailIndex b + k) mod default_trail_length else k)"

text \<open>The state of a trail that every reachable body has: both arrays have
  \<open>default_trail_length * 3\<close> elements, the write index is inside the buffer and the
  count does not exceed the capacity.\<close>

definition trail_ok :: "body \<Rightarrow> bool" where
  "trail_ok b \<longleftrightarrow>
     length (trailPoints b) = default_trail_length * 3 \<and>
     length (displayPositions b) = default_trail_length * 3 \<and>
     trailIndex b < default_trail_length \<and>
     trailPointsCount b \<le> default_trail_length"

definition bodies_ok :: "body list \<Rightarrow> bool" where
  "bodies_ok bodies \<longleftrightarrow> (\<forall>b\<in>set bodies. mass b \<noteq> 0 \<and> trail_ok b)"

text \<open>A position as a \<^verbatim>\<open>Float32Array\<close> holds it.\<close>

definition froundV :: "vec3 \<Rightarrow> vec3" where
  "froundV v = Vector3 (fround (vec_x v)) (fround (vec_y v)) (fround (vec_z v))"

text \<open>The trail reader: the copy loop of \<^verbatim>\<open>updatePhysics\<close> run on the body's buffer, and
  the first \<open>trailPointsCount\<close> points of the display array it fills (the draw range).\<close>

definition pointAt :: "real list \<Rightarrow> nat \<Rightarrow> vec3 option" where
  "pointAt a k =
     do { px \<leftarrow> f32_get a (k * 3); py \<leftarrow> f32_get a (k * 3 + 1); pz \<leftarrow> f32_get a (k * 3 + 2);
          Some (Vector3 px py pz) }"

definition readTrail :: "body \<Rightarrow> vec3 list option" where
  "readTrail b =
     do { d \<leftarrow> copyLoop b [0..<trailPointsCount b] (displayPositions b);
          those (map (pointAt d) [0..<trailPointsCount b]) }"

definition slot :: "real list \<Rightarrow> nat \<Rightarrow> vec3" where
  "slot a k = Vector3 (a ! (k * 3)) (a ! (k * 3 + 1)) (a ! (k * 3 + 2))"

text \<open>The position of body \<open>i\<close> at the end of step \<open>s\<close>, and what the trail reader returns
  for body \<open>i\<close> after \<open>n\<close> steps.\<close>

definition positionAfter :: "rounding \<Rightarrow> nat \<Rightarrow> body list \<Rightarrow> nat \<Rightarrow> vec3 option" where
  "positionAfter rd s bodies i = map_option (\<lambda>bs. position (bs ! i)) (steps rd s bodies)"

definition trailAfter :: "rounding \<Rightarrow> nat \<Rightarrow> body list \<Rightarrow> nat \<Rightarrow> vec3 list option" where
  "trailAfter rd n bodies i = do { bs \<leftarrow> steps rd n bodies; readTrail (bs ! i) }"

text \<open>What the callback of \<^verbatim>\<open>forEach\<close> does to a body before it copies the trail.\<close>

definition recordPoint :: "rounding \<Rightarrow> body \<Rightarrow> body" where
  "recordPoint rd b =
     b\<lparr> position := addV rd (position b) (multiplyScalar rd (velocity b) (dt rd)),
        trailPoints := (trailPoints b)
          [trailIndex b * 3 :=
             fround (vec_x (addV rd (position b) (multiplyScalar rd (velocity b) (dt rd)))),
           trailIndex b * 3 + 1 :=
             fround (vec_y (addV rd (position b) (multiplyScalar rd (velocity b) (dt rd)))),
           trailIndex b * 3 + 2 :=
             fround (vec_z (addV rd (position b) (multiplyScalar rd (velocity b) (dt rd))))],
        trailIndex := (trailIndex b + 1) mod default_trail_length,
        trailPointsCount :=
          (if trailPointsCount b < default_trail_length then trailPointsCount b + 1
           else trailPointsCount b) \<rparr>"

text \<open>The ring buffer of \<open>b\<close> holds the history \<open>hist\<close> of stored points (oldest first):
  the write index and the count follow its length, and each of the last
  \<open>default_trail_length\<close> points sits in the slot of its number modulo the capacity.\<close>

definition recorded :: "body \<Rightarrow> vec3 list \<Rightarrow> bool" where
  "recorded b hist \<longleftrightarrow>
     trail_ok b \<and>
     trailIndex b = length hist mod default_trail_length \<and>
     trailPointsCount b = min (length hist) default_trail_length \<and>
     (\<forall>s<length hist. length hist \<le> s + default_trail_length \<longrightarrow>
        slot (trailPoints b) (s mod default_trail_length) = hist ! s)"

text \<open>All bodies of a list at one position, with one velocity.\<close>

definition allAt :: "vec3 \<Rightarrow> vec3 \<Rightarrow> body list \<Rightarrow> bool" where
  "allAt p v bodies \<longleftrightarrow> (\<forall>b\<in>set bodies. position b = p \<and> velocity b = v)"

subsection \<open>Concrete inputs\<close>

definition restingBody :: "vec3 \<Rightarrow> real \<Rightarrow> body" where
  "restingBody p m =
     \<lparr> position = p, velocity = Vector3 0 0 0, mass = m,
       trailPoints = replicate (default_trail_length * 3) 0,
       trailIndex = 0, trailPointsCount = 0,
       displayPositions = replicate (default_trail_length * 3) 0 \<rparr>"

definition twoBodyScenario :: "body list" where
  "twoBodyScenario = [restingBody (Vector3 (- 50) 0 0) 300, restingBody (Vector3 50 0 0) 300]"

definition threeBodies :: "body list" where
  "threeBodies =
     [restingBody (Vector3 (- 50) 0 0) 300, restingBody (Vector3 50 0 0) 200,
      restingBody (Vector3 0 50 0) 100]"

definition coincident :: "body list" where
  "coincident = [restingBody (Vector3 1 2 3) 300, restingBody (Vector3 1 2 3) 300]"

definition controlsA :: "nat \<Rightarrow> controls" where
  "controlsA i =
     \<lparr> b_posX = Num 10, b_posY = Num 20, b_posZ = Num 30,
       b_velX = Num 1, b_velY = Num 2, b_velZ = Num 3,
       b_mass = (if i = 1 then Num (- 5) else if i = 2 then Num 0 else NaN) \<rparr>"

definition controlsSame :: "nat \<Rightarrow> controls" where
  "controlsSame i =
     \<lparr> b_posX = Num 10, b_posY = Num 20, b_posZ = Num 30,
       b_velX = Num 1, b_velY = Num 2, b_velZ = Num 3, b_mass = Num 300 \<rparr>"

text \<open>Bodies 1 and 2 a little less than one unit apart: the difference of their positions
  is \<open>(1 - 1 / 2 ^ 53, 7 / 2 ^ 29, 0)\<close>. Body 3 is where body 1 is.\<close>

definition controlsNear :: "nat \<Rightarrow> controls" where
  "controlsNear i =
     \<lparr> b_posX = (if i = 2 then Num (4503599627370495 / 9007199254740992) else Num (- (1 / 2))),
       b_posY = (if i = 2 then Num (1 / 67108864) else Num (1 / 536870912)),
       b_posZ = Num 1,
       b_velX = Num 1, b_velY = Num 1, b_velZ = Num 1,
       b_mass = Num 300 \<rparr>"

definition rnd0 :: "nat \<Rightarrow> real" where
  "rnd0 k = 1 / 2"

definition sameBodies :: "body list" where
  "sameBodies = fst (createBodiesFromControls binary64 controlsSame rnd0 0)"

definition nearBodies :: "body list" where
  "nearBodies = fst (createBodiesFromControls binary64 controlsNear rnd0 0)"

section \<open>Rounding\<close>

lemma rne_of_int: "rne (of_int n) = n"
  by (simp add: rne_def)

lemma rne_floor: "\<lfloor>y\<rfloor> \<le> rne y" "rne y \<le> \<lfloor>y\<rfloor> + 1"
  by (simp_all add: rne_def)

lemma rne_lower:
  assumes "of_int m \<le> y"
  shows "m \<le> rne y"
proof -
  from assms have "m \<le> \<lfloor>y\<rfloor>" by (simp add: le_floor_iff)
  with rne_floor(1) [of y] show ?thesis by simp
qed

lemma rne_upper:
  assumes "y \<le> of_int m"
  shows "rne y \<le> m"
proof -
  have f: "\<lfloor>y\<rfloor> \<le> m" using floor_mono [OF assms] by simp
  show ?thesis
  proof (cases "\<lfloor>y\<rfloor> = m")
    case True
    with assms have "y - of_int \<lfloor>y\<rfloor> \<le> 0" by simp
    then show ?thesis using True by (simp add: rne_def)
  next
    case False
    with f have "\<lfloor>y\<rfloor> + 1 \<le> m" by simp
    with rne_floor(2) [of y] show ?thesis by simp
  qed
qed

lemma round_to_zero: "round_to p emin 0 = 0"
  by (simp add: round_to_def)

lemma ulp_positive: "0 < ulp p emin x"
  by (simp add: ulp_def)

text \<open>Rounding when the exponent of the argument is known.\<close>

lemma round_to_by_ulp:
  assumes "2 powr of_int e \<le> \<bar>x\<bar>" and "\<bar>x\<bar> < 2 powr of_int (e + 1)"
    and "u = 2 powr of_int (max e emin - int p + 1)" and "rne (x / u) = n"
  shows "round_to p emin x = of_int n * u"
proof -
  have "0 < (2::real) powr of_int e" by simp
  with assms(1) have x: "x \<noteq> 0" "0 < \<bar>x\<bar>" by auto
  have "\<lfloor>log 2 \<bar>x\<bar>\<rfloor> = e"
    using x assms(1,2) by (subst floor_log_eq_powr_iff) simp_all
  with assms(3,4) x show ?thesis by (simp add: round_to_def ulp_def)
qed

lemma two_powr_diff: "2 powr of_int (int a - int b) = (2::real) ^ a / 2 ^ b"
  by (simp add: powr_diff powr_realpow)

lemma round_to_eval:
  assumes "0 < p" and "emin \<le> int a - int b + int p - 1"
    and "2 ^ (p - 1) * (2 ^ a / 2 ^ b) \<le> \<bar>x\<bar>" and "\<bar>x\<bar> < 2 ^ p * (2 ^ a / 2 ^ b)"
    and "rne (x / (2 ^ a / 2 ^ b)) = n"
  shows "round_to p emin x = of_int n * (2 ^ a / 2 ^ b)"
proof -
  let ?e = "int a - int b + int p - 1"
  let ?u = "(2::real) ^ a / 2 ^ b"
  have "max ?e emin - int p + 1 = int a - int b"
    using assms(2) by simp
  then have u: "2 powr of_int (max ?e emin - int p + 1) = ?u"
    by (simp only: two_powr_diff)
  have pm: "(2::real) powr of_int (int p - 1) = 2 ^ (p - 1)"
    using assms(1) two_powr_diff [of "p - 1" 0] by simp
  have "(2::real) powr of_int ?e = 2 powr of_int (int p - 1) * 2 powr of_int (int a - int b)"
    by (simp add: powr_add [symmetric] algebra_simps)
  then have lo: "(2::real) powr of_int ?e = 2 ^ (p - 1) * ?u"
    by (simp only: pm two_powr_diff)
  have "(2::real) powr of_int (?e + 1) = 2 powr of_int (int p) * 2 powr of_int (int a - int b)"
    by (simp add: powr_add [symmetric] algebra_simps)
  then have hi: "(2::real) powr of_int (?e + 1) = 2 ^ p * ?u"
    by (simp only: two_powr_diff) (simp add: powr_realpow)
  show ?thesis
    by (rule round_to_by_ulp [where e = ?e])
      (simp_all only: lo hi u assms)
qed

text \<open>A number of the format is rounded to itself.\<close>

lemma round_to_fixed:
  assumes "x = of_int n * 2 powr of_int k" and "\<bar>n\<bar> < 2 ^ p" and "emin - int p + 1 \<le> k"
  shows "round_to p emin x = x"
proof (cases "n = 0")
  case True
  with assms(1) show ?thesis by (simp add: round_to_def)
next
  case False
  then have x0: "x \<noteq> 0" "0 < \<bar>x\<bar>" using assms(1) by simp_all
  let ?e = "max \<lfloor>log 2 \<bar>x\<bar>\<rfloor> emin"
  have "\<bar>x\<bar> = of_int \<bar>n\<bar> * 2 powr of_int k"
    using assms(1) by (simp add: abs_mult)
  also have "\<dots> < 2 ^ p * 2 powr of_int k"
  proof -
    from assms(2) have "real_of_int \<bar>n\<bar> < real_of_int (2 ^ p)" by (simp only: of_int_less_iff)
    then show ?thesis by simp
  qed
  also have "\<dots> = 2 powr (of_int (int p + k))"
    by (simp add: powr_add powr_realpow)
  finally have "log 2 \<bar>x\<bar> < of_int (int p + k)"
    using x0 by (simp add: log_less_iff)
  moreover have "of_int \<lfloor>log 2 \<bar>x\<bar>\<rfloor> \<le> log 2 \<bar>x\<bar>" by simp
  ultimately have "real_of_int \<lfloor>log 2 \<bar>x\<bar>\<rfloor> < of_int (int p + k)" by linarith
  then have "\<lfloor>log 2 \<bar>x\<bar>\<rfloor> < int p + k" by (simp only: of_int_less_iff)
  with assms(3) have d: "0 \<le> k - (?e - int p + 1)" by simp
  define d where "d = nat (k - (?e - int p + 1))"
  have k: "k = (?e - int p + 1) + int d" using d by (simp add: d_def)
  have u: "ulp p emin x = 2 powr of_int (?e - int p + 1)" by (simp add: ulp_def)
  have "(2::real) powr of_int k = 2 powr of_int (?e - int p + 1) * 2 ^ d"
    by (subst k) (simp add: powr_add powr_realpow)
  then have pw: "(2::real) powr of_int k = ulp p emin x * 2 ^ d"
    by (simp only: u)
  have "x = of_int n * 2 powr of_int k" by (fact assms(1))
  also have "\<dots> = of_int n * (ulp p emin x * 2 ^ d)" by (simp only: pw)
  also have "\<dots> = of_int (n * 2 ^ d) * ulp p emin x" by simp
  finally have xu: "x = of_int (n * 2 ^ d) * ulp p emin x" .
  then have "x / ulp p emin x = of_int (n * 2 ^ d)"
    using ulp_positive [of p emin x] by (simp add: field_simps)
  then have "rne (x / ulp p emin x) = n * 2 ^ d" by (simp only: rne_of_int)
  with x0 xu show ?thesis by (simp add: round_to_def)
qed

lemma round_to_quotient_bound:
  assumes "x \<noteq> 0"
  shows "\<bar>x / ulp p emin x\<bar> < 2 ^ p"
proof -
  let ?l = "\<lfloor>log 2 \<bar>x\<bar>\<rfloor>"
  let ?e = "max ?l emin"
  from assms have x0: "0 < \<bar>x\<bar>" by simp
  have l: "log 2 \<bar>x\<bar> < of_int (?l + 1)" by simp
  from x0 have "log 2 \<bar>x\<bar> < of_int (?l + 1) \<longleftrightarrow> \<bar>x\<bar> < 2 powr of_int (?l + 1)"
    by (intro log_less_iff) simp_all
  with l have "\<bar>x\<bar> < 2 powr of_int (?l + 1)" by (rule iffD1 [rotated])
  also have "\<dots> \<le> 2 powr of_int (?e + 1)"
    by (intro powr_mono) simp_all
  also have "\<dots> = 2 powr of_int (int p) * 2 powr of_int (?e - int p + 1)"
    by (simp add: powr_add [symmetric])
  also have "\<dots> = 2 ^ p * ulp p emin x"
    by (simp add: ulp_def powr_realpow)
  finally show ?thesis
    using ulp_positive [of p emin x] by (simp add: field_simps abs_mult)
qed

text \<open>Rounding twice is rounding once.\<close>

lemma round_to_idem:
  assumes "0 < p"
  shows "round_to p emin (round_to p emin x) = round_to p emin x"
proof (cases "x = 0")
  case True
  then show ?thesis by (simp add: round_to_def)
next
  case False
  let ?e = "max \<lfloor>log 2 \<bar>x\<bar>\<rfloor> emin"
  let ?k = "?e - int p + 1"
  let ?n = "rne (x / ulp p emin x)"
  have u: "ulp p emin x = 2 powr of_int ?k" by (simp add: ulp_def)
  from False have y: "round_to p emin x = of_int ?n * 2 powr of_int ?k"
    by (simp add: round_to_def u)
  have ab: "\<bar>x / ulp p emin x\<bar> < 2 ^ p"
    using False by (rule round_to_quotient_bound)
  have "x / ulp p emin x \<le> 2 ^ p" "- (2 ^ p) \<le> x / ulp p emin x"
    using ab by linarith+
  then have "x / ulp p emin x \<le> of_int (2 ^ p)" "of_int (- (2 ^ p)) \<le> x / ulp p emin x"
    by simp_all
  then have b: "?n \<le> 2 ^ p" "- (2 ^ p) \<le> ?n"
    by (simp_all only: rne_upper rne_lower)
  have kmin: "emin - int p + 1 \<le> ?k" by simp
  show ?thesis
  proof (cases "\<bar>?n\<bar> < 2 ^ p")
    case True
    from y True kmin show ?thesis by (rule round_to_fixed)
  next
    case big: False
    obtain q where p: "p = Suc q" using assms by (cases p) simp_all
    from big b have "?n = 2 ^ p \<or> ?n = - (2 ^ p)" by linarith
    then have "\<exists>m. \<bar>m\<bar> < 2 ^ p \<and> real_of_int ?n = of_int m * 2"
    proof
      assume "?n = 2 ^ p"
      then have "real_of_int ?n = of_int (2 ^ q) * 2" by (simp add: p)
      moreover have "\<bar>(2::int) ^ q\<bar> < 2 ^ p" by (simp add: p)
      ultimately show ?thesis by blast
    next
      assume "?n = - (2 ^ p)"
      then have "real_of_int ?n = of_int (- (2 ^ q)) * 2" by (simp add: p)
      moreover have "\<bar>- ((2::int) ^ q)\<bar> < 2 ^ p" by (simp add: p)
      ultimately show ?thesis by blast
    qed
    then obtain m where m: "\<bar>m\<bar> < 2 ^ p" "real_of_int ?n = of_int m * 2" by blast
    have "(2::real) powr of_int (?k + 1) = 2 * 2 powr of_int ?k"
      by (simp add: powr_add)
    with y m(2) have "round_to p emin x = of_int m * 2 powr of_int (?k + 1)"
      by simp
    moreover from kmin have "emin - int p + 1 \<le> ?k + 1" by simp
    ultimately show ?thesis using m(1) by (intro round_to_fixed [where n = m and k = "?k + 1"])
  qed
qed

lemma fround_idem: "fround (fround x) = fround x"
  by (simp add: fround_def round_to_idem)

lemma froundV_idem: "froundV (froundV v) = froundV v"
  by (simp add: froundV_def fround_idem)

lemma fround_zero: "fround 0 = 0"
  by (simp add: fround_def round_to_zero)

lemma binary64_zero: "binary64 0 = 0"
  by (simp add: binary64_def round_to_zero)

lemma binary64_idem: "binary64 (binary64 x) = binary64 x"
  by (simp add: binary64_def round_to_idem)

lemma binary64_int:
  assumes "\<bar>n\<bar> < 2 ^ 53"
  shows "binary64 (of_int n) = of_int n"
  unfolding binary64_def
  by (rule round_to_fixed [where n = n and k = 0]) (use assms in simp_all)

section \<open>Vectors and the force loop\<close>

lemma Vector3_zero: "Vector3 0 0 0 = 0"
  by (simp add: zero_vec3_def)

lemma exact_ops:
  "js_add exact a b = a + b" "js_sub exact a b = a - b" "js_mul exact a b = a * b"
  "js_sqrt exact a = sqrt a" "js_div exact a b = (if b = 0 then None else Some (a / b))"
  by (simp_all add: js_add_def js_sub_def js_mul_def js_sqrt_def js_div_def exact_def)

lemma addV_plus: "addV exact a b = a + b"
  by (simp add: addV_def plus_vec3_def exact_ops)

lemma subVectors_minus: "subVectors exact a b = a - b"
  by (simp add: subVectors_def minus_vec3_def exact_ops)

lemma multiplyScalar_exact:
  "multiplyScalar exact v s = Vector3 (vec_x v * s) (vec_y v * s) (vec_z v * s)"
  by (simp add: multiplyScalar_def exact_ops)

lemma lengthSq_exact:
  "lengthSq exact v = vec_x v * vec_x v + vec_y v * vec_y v + vec_z v * vec_z v"
  by (simp add: lengthSq_def exact_ops)

lemma lengthV_sqrt: "lengthV exact v = sqrt (lengthSq exact v)"
  by (simp add: lengthV_def lengthSq_def exact_ops)

lemma lengthSq_nonneg: "0 \<le> lengthSq exact v"
  by (simp add: lengthSq_exact)

lemma divideScalar_nonzero:
  "s \<noteq> 0 \<Longrightarrow> divideScalar rd v s = Some (multiplyScalar rd v (rd (1 / s)))"
  by (simp add: divideScalar_def js_div_def)

lemma normalizeV_defined:
  "normalizeV rd v =
     Some (multiplyScalar rd v (rd (1 / (if lengthV rd v = 0 then 1 else lengthV rd v))))"
  by (simp add: normalizeV_def divideScalar_nonzero)

text \<open>One iteration of the inner loop, by the three ways through it.\<close>

lemma forceLoop_self: "forceLoop rd bodies i (i # js) tf = forceLoop rd bodies i js tf"
  by simp

lemma forceLoop_near:
  assumes "lengthSq rd (subVectors rd (position (bodies ! j)) (position (bodies ! i))) < 1"
  shows "forceLoop rd bodies i (j # js) tf = forceLoop rd bodies i js tf"
  using assms by (simp add: Let_def)

lemma forceLoop_far:
  assumes "i \<noteq> j"
    and "\<not> lengthSq rd (subVectors rd (position (bodies ! j)) (position (bodies ! i))) < 1"
  shows "forceLoop rd bodies i (j # js) tf =
           forceLoop rd bodies i js
             (addV rd tf
                (multiplyScalar rd
                   (multiplyScalar rd (subVectors rd (position (bodies ! j)) (position (bodies ! i)))
                      (rd (1 / (if lengthV rd (subVectors rd (position (bodies ! j))
                                     (position (bodies ! i))) = 0 then 1
                                else lengthV rd (subVectors rd (position (bodies ! j))
                                     (position (bodies ! i)))))))
                   (rd (js_mul rd (js_mul rd (G rd) (mass (bodies ! i))) (mass (bodies ! j)) /
                        lengthSq rd (subVectors rd (position (bodies ! j))
                          (position (bodies ! i)))))))"
proof -
  from assms(2)
  have "lengthSq rd (subVectors rd (position (bodies ! j)) (position (bodies ! i))) \<noteq> 0"
    by auto
  with assms show ?thesis
    by (simp add: Let_def js_div_def normalizeV_defined)
qed

lemma forceLoop_defined: "\<exists>F. forceLoop rd bodies i js tf = Some F"
proof (induction js arbitrary: tf)
  case Nil
  show ?case by simp
next
  case (Cons j js)
  show ?case
  proof (cases "i = j")
    case True
    then show ?thesis using Cons.IH [of tf] by simp
  next
    case False
    show ?thesis
    proof (cases "lengthSq rd (subVectors rd (position (bodies ! j)) (position (bodies ! i))) < 1")
      case True
      then show ?thesis using Cons.IH [of tf] by (simp only: forceLoop_near)
    next
      case far: False
      show ?thesis by (simp only: forceLoop_far [OF False far] Cons.IH)
    qed
  qed
qed

lemma forceLoop_total:
  "forceLoop rd bodies i [0..<length bodies] (Vector3 0 0 0) = Some (totalForceOn rd bodies i)"
  using forceLoop_defined [of rd bodies i "[0..<length bodies]" "Vector3 0 0 0"]
  by (auto simp: totalForceOn_def)

lemma forceLoop_cong:
  assumes "sameGeometry bs bs0" and "i < length bs" and "\<forall>j\<in>set js. j < length bs"
  shows "forceLoop rd bs i js tf = forceLoop rd bs0 i js tf"
  using assms(3)
proof (induction js arbitrary: tf)
  case Nil
  show ?case by simp
next
  case (Cons j js)
  from Cons.prems assms(1,2)
  have e: "position (bs ! j) = position (bs0 ! j)" "mass (bs ! j) = mass (bs0 ! j)"
    "position (bs ! i) = position (bs0 ! i)" "mass (bs ! i) = mass (bs0 ! i)"
    by (simp_all add: sameGeometry_def)
  from Cons.prems have IH: "\<And>tf. forceLoop rd bs i js tf = forceLoop rd bs0 i js tf"
    by (simp add: Cons.IH)
  show ?case
  proof (cases "i = j")
    case True
    then show ?thesis using IH [of tf] by auto
  next
    case False
    then show ?thesis by (simp add: Let_def e IH)
  qed
qed

lemma totalForceOn_cong:
  assumes "sameGeometry bs bs0" and "i < length bs"
  shows "totalForceOn rd bs i = totalForceOn rd bs0 i"
proof -
  from assms(1) have len: "length bs = length bs0" by (simp add: sameGeometry_def)
  have "forceLoop rd bs i [0..<length bs] (Vector3 0 0 0) =
        forceLoop rd bs0 i [0..<length bs] (Vector3 0 0 0)"
    using assms by (intro forceLoop_cong) simp_all
  then show ?thesis by (simp add: totalForceOn_def len)
qed

lemma sameGeometry_velocity:
  assumes "sameGeometry bs bs0"
  shows "sameGeometry (bs[i := (bs ! i)\<lparr>velocity := v\<rparr>]) bs0"
  using assms by (cases "i < length bs") (auto simp: sameGeometry_def nth_list_update)

lemma velocityLoop_gen:
  assumes "sameGeometry bs bs0" and "distinct is"
    and "\<forall>i\<in>set is. i < length bs0 \<and> mass (bs0 ! i) \<noteq> 0"
  shows "\<exists>bs'. velocityLoop rd is bs = Some bs' \<and> length bs' = length bs0 \<and>
           (\<forall>i<length bs0. bs' ! i =
              (if i \<in> set is
               then (bs ! i)\<lparr>velocity := addV rd (velocity (bs ! i))
                      (multiplyScalar rd
                         (multiplyScalar rd (totalForceOn rd bs0 i) (rd (1 / mass (bs0 ! i))))
                         (dt rd))\<rparr>
               else bs ! i))"
  using assms
proof (induction "is" arbitrary: bs)
  case Nil
  then show ?case by (simp add: sameGeometry_def)
next
  case (Cons i "is")
  from Cons.prems have len: "length bs = length bs0" and i: "i < length bs0"
    and m0: "mass (bs0 ! i) \<noteq> 0" and fresh: "i \<notin> set is"
    by (simp_all add: sameGeometry_def)
  from Cons.prems len i have m: "mass (bs ! i) = mass (bs0 ! i)"
    by (simp add: sameGeometry_def)
  let ?F = "totalForceOn rd bs0 i"
  let ?v = "addV rd (velocity (bs ! i))
              (multiplyScalar rd (multiplyScalar rd ?F (rd (1 / mass (bs0 ! i)))) (dt rd))"
  let ?bs1 = "bs[i := (bs ! i)\<lparr>velocity := ?v\<rparr>]"
  have F: "forceLoop rd bs i [0..<length bs] (Vector3 0 0 0) = Some ?F"
    using forceLoop_total [of rd bs i] totalForceOn_cong [OF Cons.prems(1), of i rd] i len
    by simp
  have step: "velocityLoop rd (i # is) bs = velocityLoop rd is ?bs1"
    using F m m0 by (simp add: divideScalar_nonzero)
  have "sameGeometry ?bs1 bs0"
    using Cons.prems(1) by (rule sameGeometry_velocity)
  moreover have "distinct is" and "\<forall>i\<in>set is. i < length bs0 \<and> mass (bs0 ! i) \<noteq> 0"
    using Cons.prems by simp_all
  ultimately obtain bs' where r: "velocityLoop rd is ?bs1 = Some bs'" "length bs' = length bs0"
    and each: "\<forall>k<length bs0. bs' ! k =
              (if k \<in> set is
               then (?bs1 ! k)\<lparr>velocity := addV rd (velocity (?bs1 ! k))
                      (multiplyScalar rd
                         (multiplyScalar rd (totalForceOn rd bs0 k) (rd (1 / mass (bs0 ! k))))
                         (dt rd))\<rparr>
               else ?bs1 ! k)"
    using Cons.IH [of ?bs1] by blast
  have "bs' ! k =
              (if k \<in> set (i # is)
               then (bs ! k)\<lparr>velocity := addV rd (velocity (bs ! k))
                      (multiplyScalar rd
                         (multiplyScalar rd (totalForceOn rd bs0 k) (rd (1 / mass (bs0 ! k))))
                         (dt rd))\<rparr>
               else bs ! k)" if "k < length bs0" for k
    using each that fresh len by (cases "k = i") (auto simp: nth_list_update)
  with r step show ?case by auto
qed

lemma velocityLoop_all:
  assumes "bodies_ok bs"
  shows "\<exists>bs1. velocityLoop rd [0..<length bs] bs = Some bs1 \<and> length bs1 = length bs \<and>
           (\<forall>i<length bs. bs1 ! i = (bs ! i)\<lparr>velocity := newVelocity rd bs i\<rparr>)"
proof -
  have geo: "sameGeometry bs bs" by (simp add: sameGeometry_def)
  have "\<forall>i\<in>set [0..<length bs]. i < length bs \<and> mass (bs ! i) \<noteq> 0"
    using assms by (simp add: bodies_ok_def)
  from velocityLoop_gen [OF geo _ this, of rd] show ?thesis
    by (auto simp: newVelocity_def)
qed

section \<open>The copy loop and the ring buffer\<close>

lemma triple_update_nth:
  assumes "n < length a"
  shows "a[k * 3 := p, k * 3 + 1 := q, k * 3 + 2 := r] ! n =
           (if n div 3 = k then [p, q, r] ! (n mod 3) else a ! n)"
proof (cases "n div 3 = k")
  case True
  then have "(n = k * 3 \<and> n mod 3 = 0) \<or> (n = k * 3 + 1 \<and> n mod 3 = 1) \<or>
             (n = k * 3 + 2 \<and> n mod 3 = 2)"
    by presburger
  then show ?thesis
    using assms True by (elim disjE conjE) (simp_all add: nth_list_update)
next
  case False
  then have "n \<noteq> k * 3" "n \<noteq> k * 3 + 1" "n \<noteq> k * 3 + 2"
    by presburger+
  with False show ?thesis by simp
qed

lemma copyLoop_result:
  assumes "length (trailPoints b) = default_trail_length * 3"
    and "\<forall>k\<in>set ks. sourceIdx b k < default_trail_length"
  shows "\<exists>d. copyLoop b ks a = Some d \<and> length d = length a \<and>
           (\<forall>n<length a. d ! n =
              (if n div 3 \<in> set ks
               then fround (trailPoints b ! (sourceIdx b (n div 3) * 3 + n mod 3))
               else a ! n))"
  using assms(2)
proof (induction ks arbitrary: a)
  case Nil
  show ?case by simp
next
  case (Cons k ks)
  let ?t = "trailPoints b"
  let ?s = "sourceIdx b k"
  let ?a1 = "a[k * 3 := fround (?t ! (?s * 3)), k * 3 + 1 := fround (?t ! (?s * 3 + 1)),
               k * 3 + 2 := fround (?t ! (?s * 3 + 2))]"
  from Cons.prems have s: "?s < default_trail_length" by simp
  with assms(1) have g: "f32_get ?t (?s * 3) = Some (?t ! (?s * 3))"
    "f32_get ?t (?s * 3 + 1) = Some (?t ! (?s * 3 + 1))"
    "f32_get ?t (?s * 3 + 2) = Some (?t ! (?s * 3 + 2))"
    by (simp_all add: f32_get_def)
  have step: "copyLoop b (k # ks) a = copyLoop b ks ?a1"
    using g by (simp add: sourceIdx_def Let_def f32_set_def)
  from Cons.prems have "\<forall>k\<in>set ks. sourceIdx b k < default_trail_length" by simp
  then obtain d where d: "copyLoop b ks ?a1 = Some d" "length d = length ?a1"
    and each: "\<forall>n<length ?a1. d ! n =
              (if n div 3 \<in> set ks then fround (?t ! (sourceIdx b (n div 3) * 3 + n mod 3))
               else ?a1 ! n)"
    using Cons.IH [of ?a1] by blast
  have "d ! n = (if n div 3 \<in> set (k # ks)
                 then fround (?t ! (sourceIdx b (n div 3) * 3 + n mod 3))
               else a ! n)" if n: "n < length a" for n
  proof (cases "n div 3 \<in> set ks")
    case True
    with each n show ?thesis by simp
  next
    case False
    have m: "n mod 3 = 0 \<or> n mod 3 = 1 \<or> n mod 3 = 2" by presburger
    from False each n have "d ! n = ?a1 ! n" by simp
    also have "\<dots> = (if n div 3 = k
                      then [fround (?t ! (?s * 3)), fround (?t ! (?s * 3 + 1)),
                            fround (?t ! (?s * 3 + 2))] ! (n mod 3)
                      else a ! n)"
      using n by (rule triple_update_nth)
    finally show ?thesis using False m by auto
  qed
  with d step show ?case by auto
qed

lemma updateBody_recordPoint:
  "updateBody rd b =
     do { d \<leftarrow> copyLoop (recordPoint rd b) [0..<trailPointsCount (recordPoint rd b)] (displayPositions b);
          Some ((recordPoint rd b)\<lparr>displayPositions := d\<rparr>) }"
  by (simp add: updateBody_def recordPoint_def Let_def f32_set_def)

lemma trail_ok_recordPoint:
  assumes "trail_ok b"
  shows "trail_ok (recordPoint rd b)"
  using assms by (simp add: trail_ok_def recordPoint_def default_trail_length_def)

lemma sourceIdx_bound:
  assumes "trail_ok b" and "k < trailPointsCount b"
  shows "sourceIdx b k < default_trail_length"
  using assms by (simp add: trail_ok_def sourceIdx_def default_trail_length_def)

lemma copyLoop_trail:
  assumes "trail_ok b"
  shows "\<exists>d. copyLoop b [0..<trailPointsCount b] (displayPositions b) = Some d \<and>
           length d = default_trail_length * 3 \<and>
           (\<forall>n<default_trail_length * 3. d ! n =
              (if n div 3 < trailPointsCount b
               then fround (trailPoints b ! (sourceIdx b (n div 3) * 3 + n mod 3))
               else displayPositions b ! n))"
proof -
  have "length (trailPoints b) = default_trail_length * 3"
    and len: "length (displayPositions b) = default_trail_length * 3"
    using assms by (simp_all add: trail_ok_def)
  moreover have "\<forall>k\<in>set [0..<trailPointsCount b]. sourceIdx b k < default_trail_length"
    using assms by (simp add: sourceIdx_bound)
  ultimately show ?thesis
    using copyLoop_result [of b "[0..<trailPointsCount b]" "displayPositions b"] by simp
qed

lemma updateBody_ok:
  assumes "trail_ok b"
  shows "\<exists>d. updateBody rd b = Some ((recordPoint rd b)\<lparr>displayPositions := d\<rparr>) \<and>
           copyLoop (recordPoint rd b) [0..<trailPointsCount (recordPoint rd b)]
             (displayPositions (recordPoint rd b)) = Some d \<and>
           length d = default_trail_length * 3"
proof -
  have eq: "displayPositions (recordPoint rd b) = displayPositions b"
    by (simp add: recordPoint_def)
  from copyLoop_trail [OF trail_ok_recordPoint [OF assms, of rd]] show ?thesis
    by (auto simp: updateBody_recordPoint eq)
qed

lemma slot_update:
  assumes "j * 3 + 2 < length a"
  shows "slot (a[k * 3 := p, k * 3 + 1 := q, k * 3 + 2 := r]) j =
           (if j = k then Vector3 p q r else slot a j)"
proof -
  have d: "j * 3 div 3 = j" "(j * 3 + 1) div 3 = j" "(j * 3 + 2) div 3 = j"
    and m: "j * 3 mod 3 = 0" "(j * 3 + 1) mod 3 = 1" "(j * 3 + 2) mod 3 = 2"
    by presburger+
  from assms have l: "j * 3 < length a" "j * 3 + 1 < length a" by simp_all
  show ?thesis
    unfolding slot_def
    by (simp only: triple_update_nth [OF assms] triple_update_nth [OF l(1)]
        triple_update_nth [OF l(2)] d m) simp
qed

lemma mod_differs:
  fixes s n c :: nat
  assumes "s < n" and "n < s + c"
  shows "s mod c \<noteq> n mod c"
proof
  assume "s mod c = n mod c"
  moreover from assms(1) have "s \<le> n" by simp
  ultimately obtain k where k: "n = s + c * k"
    by (rule mod_eq_nat2E)
  with assms(1) have "k \<noteq> 0" by (cases k) simp_all
  then have "c \<le> c * k" by simp
  with k assms(2) show False by simp
qed

lemma recorded_recordPoint:
  assumes "recorded b hist"
  shows "recorded (recordPoint rd b) (hist @ [froundV (position (recordPoint rd b))])"
proof -
  let ?C = default_trail_length
  let ?n = "length hist"
  let ?p = "addV rd (position b) (multiplyScalar rd (velocity b) (dt rd))"
  let ?q = "froundV ?p"
  from assms have ok: "trail_ok b" and idx: "trailIndex b = ?n mod ?C"
    and cnt: "trailPointsCount b = min ?n ?C"
    and old: "\<And>s. s < ?n \<Longrightarrow> ?n \<le> s + ?C \<Longrightarrow> slot (trailPoints b) (s mod ?C) = hist ! s"
    by (simp_all add: recorded_def)
  have C: "0 < ?C" by (simp add: default_trail_length_def)
  from ok have len: "length (trailPoints b) = ?C * 3" by (simp add: trail_ok_def)
  have pos: "position (recordPoint rd b) = ?p" by (simp add: recordPoint_def)
  have i': "trailIndex (recordPoint rd b) = length (hist @ [?q]) mod ?C"
    by (simp add: recordPoint_def idx mod_Suc_eq)
  have c': "trailPointsCount (recordPoint rd b) = min (length (hist @ [?q])) ?C"
    by (simp add: recordPoint_def cnt)
  have inrange: "j * 3 + 2 < length (trailPoints b)" if "j < ?C" for j
    using that len by simp
  have sl: "slot (trailPoints (recordPoint rd b)) j =
              (if j = ?n mod ?C then ?q else slot (trailPoints b) j)" if "j < ?C" for j
    using slot_update [OF inrange [OF that]] by (simp add: recordPoint_def idx froundV_def)
  have s': "slot (trailPoints (recordPoint rd b)) (s mod ?C) = (hist @ [?q]) ! s"
    if "s < length (hist @ [?q])" and "length (hist @ [?q]) \<le> s + ?C" for s
  proof (cases "s = ?n")
    case True
    then show ?thesis using sl [of "?n mod ?C"] C by simp
  next
    case False
    with that have lt: "s < ?n" and near: "?n < s + ?C" by simp_all
    then have "s mod ?C \<noteq> ?n mod ?C" by (rule mod_differs)
    then have "slot (trailPoints (recordPoint rd b)) (s mod ?C) = slot (trailPoints b) (s mod ?C)"
      using sl [of "s mod ?C"] C by simp
    also have "\<dots> = hist ! s" using lt near by (simp add: old)
    finally show ?thesis using lt by (simp add: nth_append)
  qed
  show ?thesis
    unfolding recorded_def pos
    using trail_ok_recordPoint [OF ok] i' c' s' by simp
qed

section \<open>Reading the trail, one step, many steps\<close>

lemma those_map_Some:
  "(\<forall>x\<in>set xs. f x = Some (g x)) \<Longrightarrow> those (map f xs) = Some (map g xs)"
  by (induction xs) simp_all

lemma readTrail_slots:
  assumes "trail_ok b"
  shows "readTrail b =
           Some (map (\<lambda>k. froundV (slot (trailPoints b) (sourceIdx b k)))
                   [0..<trailPointsCount b])"
proof -
  let ?C = default_trail_length
  obtain d where d: "copyLoop b [0..<trailPointsCount b] (displayPositions b) = Some d"
    and len: "length d = ?C * 3"
    and each: "\<And>n. n < ?C * 3 \<Longrightarrow> d ! n =
              (if n div 3 < trailPointsCount b
               then fround (trailPoints b ! (sourceIdx b (n div 3) * 3 + n mod 3))
               else displayPositions b ! n)"
    using copyLoop_trail [OF assms] by blast
  from assms have cnt: "trailPointsCount b \<le> ?C" by (simp add: trail_ok_def)
  have "pointAt d k = Some (froundV (slot (trailPoints b) (sourceIdx b k)))"
    if "k < trailPointsCount b" for k
  proof -
    from that cnt have r: "k * 3 < ?C * 3" "k * 3 + 1 < ?C * 3" "k * 3 + 2 < ?C * 3"
      by simp_all
    have dm: "k * 3 div 3 = k" "(k * 3 + 1) div 3 = k" "(k * 3 + 2) div 3 = k"
      "k * 3 mod 3 = 0" "(k * 3 + 1) mod 3 = 1" "(k * 3 + 2) mod 3 = 2"
      by presburger+
    have "d ! (k * 3) = fround (trailPoints b ! (sourceIdx b k * 3))"
      "d ! (k * 3 + 1) = fround (trailPoints b ! (sourceIdx b k * 3 + 1))"
      "d ! (k * 3 + 2) = fround (trailPoints b ! (sourceIdx b k * 3 + 2))"
      using each [OF r(1)] each [OF r(2)] each [OF r(3)] that by (simp_all only: dm if_True add_0_right)
    with r len show ?thesis
      by (simp add: pointAt_def f32_get_def slot_def froundV_def)
  qed
  then have "those (map (pointAt d) [0..<trailPointsCount b]) =
             Some (map (\<lambda>k. froundV (slot (trailPoints b) (sourceIdx b k)))
                     [0..<trailPointsCount b])"
    by (intro those_map_Some) simp
  with d show ?thesis by (simp add: readTrail_def)
qed

lemma recorded_slot:
  assumes "recorded b hist" and "k < trailPointsCount b"
  shows "slot (trailPoints b) (sourceIdx b k) = hist ! (length hist - default_trail_length + k)"
proof -
  let ?C = default_trail_length
  let ?n = "length hist"
  from assms(1) have idx: "trailIndex b = ?n mod ?C"
    and cnt: "trailPointsCount b = min ?n ?C"
    and old: "\<And>s. s < ?n \<Longrightarrow> ?n \<le> s + ?C \<Longrightarrow> slot (trailPoints b) (s mod ?C) = hist ! s"
    by (simp_all add: recorded_def)
  show ?thesis
  proof (cases "?C \<le> ?n")
    case True
    let ?s = "?n - ?C + k"
    from True cnt assms(2) have k: "k < ?C" by simp
    from True have "?n + k = ?s + ?C" by simp
    then have "(?n + k) mod ?C = ?s mod ?C" by (metis mod_add_self2)
    with True cnt have "sourceIdx b k = ?s mod ?C"
      by (simp add: sourceIdx_def idx mod_add_left_eq)
    moreover from True k have "?s < ?n" "?n \<le> ?s + ?C" by simp_all
    ultimately show ?thesis by (simp add: old)
  next
    case False
    with cnt assms(2) have k: "k < ?n" "?n < ?C" "trailPointsCount b \<noteq> ?C" by simp_all
    then have "sourceIdx b k = k" by (simp add: sourceIdx_def)
    moreover from k have "slot (trailPoints b) (k mod ?C) = hist ! k"
      by (intro old) simp_all
    moreover from k have "k mod ?C = k" "length hist - ?C = 0" by simp_all
    ultimately show ?thesis by simp
  qed
qed

lemma readTrail_recorded:
  assumes "recorded b hist"
  shows "readTrail b = Some (map froundV (drop (length hist - default_trail_length) hist))"
proof -
  let ?C = default_trail_length
  from assms have ok: "trail_ok b" and cnt: "trailPointsCount b = min (length hist) ?C"
    by (simp_all add: recorded_def)
  have "map (\<lambda>k. froundV (slot (trailPoints b) (sourceIdx b k))) [0..<trailPointsCount b] =
        map froundV (drop (length hist - ?C) hist)"
  proof (rule nth_equalityI)
    show "length (map (\<lambda>k. froundV (slot (trailPoints b) (sourceIdx b k)))
                    [0..<trailPointsCount b]) =
          length (map froundV (drop (length hist - ?C) hist))"
      using cnt by simp
  next
    fix k
    assume "k < length (map (\<lambda>k. froundV (slot (trailPoints b) (sourceIdx b k)))
                         [0..<trailPointsCount b])"
    then have k: "k < trailPointsCount b" by simp
    with cnt have "length hist - ?C + k < length hist" by arith
    with k cnt
    show "map (\<lambda>k. froundV (slot (trailPoints b) (sourceIdx b k))) [0..<trailPointsCount b] ! k =
          map froundV (drop (length hist - ?C) hist) ! k"
      by (simp add: recorded_slot [OF assms k])
  qed
  with readTrail_slots [OF ok] show ?thesis by simp
qed

lemma forEachBody_ok:
  assumes "\<forall>b\<in>set bs. trail_ok b"
  shows "\<exists>bs'. forEachBody rd bs = Some bs' \<and> length bs' = length bs \<and>
           (\<forall>i<length bs. updateBody rd (bs ! i) = Some (bs' ! i))"
  using assms
proof (induction bs)
  case Nil
  show ?case by simp
next
  case (Cons b bs)
  from Cons.prems obtain d where b: "updateBody rd b = Some ((recordPoint rd b)\<lparr>displayPositions := d\<rparr>)"
    using updateBody_ok [of b] by auto
  from Cons obtain bs' where bs': "forEachBody rd bs = Some bs'" "length bs' = length bs"
    "\<forall>i<length bs. updateBody rd (bs ! i) = Some (bs' ! i)"
    by auto
  have "updateBody rd ((b # bs) ! i) = Some (((recordPoint rd b)\<lparr>displayPositions := d\<rparr> # bs') ! i)"
    if "i < length (b # bs)" for i
    using that b bs' by (cases i) simp_all
  with b bs' show ?case by simp
qed

lemma updatePhysics_ok:
  assumes "bodies_ok bs"
  shows "\<exists>bs'. updatePhysics rd bs = Some bs' \<and> length bs' = length bs \<and>
           (\<forall>i<length bs.
              updateBody rd ((bs ! i)\<lparr>velocity := newVelocity rd bs i\<rparr>) = Some (bs' ! i))"
proof -
  obtain bs1 where v: "velocityLoop rd [0..<length bs] bs = Some bs1"
    and len1: "length bs1 = length bs"
    and each: "\<And>i. i < length bs \<Longrightarrow> bs1 ! i = (bs ! i)\<lparr>velocity := newVelocity rd bs i\<rparr>"
    using velocityLoop_all [OF assms, of rd] by blast
  have "trail_ok b" if "b \<in> set bs1" for b
  proof -
    from that len1 obtain i where i: "i < length bs" "b = bs1 ! i"
      by (auto simp: in_set_conv_nth)
    with assms have "trail_ok (bs ! i)" by (simp add: bodies_ok_def)
    with i each show ?thesis by (simp add: trail_ok_def)
  qed
  then obtain bs' where f: "forEachBody rd bs1 = Some bs'" "length bs' = length bs1"
    "\<forall>i<length bs1. updateBody rd (bs1 ! i) = Some (bs' ! i)"
    using forEachBody_ok [of bs1] by blast
  with v len1 each show ?thesis by (simp add: updatePhysics_def)
qed

lemma recorded_trail_ok: "recorded b hist \<Longrightarrow> trail_ok b"
  by (simp add: recorded_def)

lemma recorded_velocity: "recorded (b\<lparr>velocity := v\<rparr>) hist = recorded b hist"
  by (simp add: recorded_def trail_ok_def)

lemma recorded_display:
  "recorded b hist \<Longrightarrow> length d = default_trail_length * 3 \<Longrightarrow>
   recorded (b\<lparr>displayPositions := d\<rparr>) hist"
  by (simp add: recorded_def trail_ok_def)

lemma updateBody_recorded:
  assumes "recorded b hist" and "updateBody rd b = Some b'"
  shows "recorded b' (hist @ [froundV (position b')])"
    and "position b' = addV rd (position b) (multiplyScalar rd (velocity b) (dt rd))"
    and "velocity b' = velocity b"
    and "mass b' = mass b"
proof -
  from updateBody_ok [OF recorded_trail_ok [OF assms(1)], of rd] assms(2)
  obtain d where b': "b' = (recordPoint rd b)\<lparr>displayPositions := d\<rparr>"
    and len: "length d = default_trail_length * 3"
    by auto
  have "recorded ((recordPoint rd b)\<lparr>displayPositions := d\<rparr>)
          (hist @ [froundV (position (recordPoint rd b))])"
    using recorded_recordPoint [OF assms(1)] len by (rule recorded_display)
  then show "recorded b' (hist @ [froundV (position b')])" by (simp add: b')
  show "position b' = addV rd (position b) (multiplyScalar rd (velocity b) (dt rd))"
    and "velocity b' = velocity b" and "mass b' = mass b"
    by (simp_all add: b' recordPoint_def)
qed

text \<open>After \<open>n\<close> steps from bodies with empty trails, the ring buffer of each body holds
  the roundings to binary32 of its \<open>n\<close> positions.\<close>

lemma steps_recorded:
  assumes "\<forall>b\<in>set bs. mass b \<noteq> 0 \<and> recorded b []"
  shows "\<exists>bs'. steps rd n bs = Some bs' \<and> length bs' = length bs \<and>
           (\<forall>i<length bs. mass (bs' ! i) \<noteq> 0 \<and>
              (\<exists>hist. length hist = n \<and> recorded (bs' ! i) hist \<and>
                 (\<forall>s<n. map_option froundV (positionAfter rd (Suc s) bs i) = Some (hist ! s))))"
proof (induction n)
  case 0
  from assms show ?case by simp
next
  case (Suc n)
  then obtain bs1 where s: "steps rd n bs = Some bs1" and len: "length bs1 = length bs"
    and each: "\<And>i. i < length bs \<Longrightarrow> mass (bs1 ! i) \<noteq> 0 \<and>
              (\<exists>hist. length hist = n \<and> recorded (bs1 ! i) hist \<and>
                 (\<forall>s<n. map_option froundV (positionAfter rd (Suc s) bs i) = Some (hist ! s)))"
    by blast
  have "bodies_ok bs1"
    unfolding bodies_ok_def
  proof
    fix b assume "b \<in> set bs1"
    with len obtain i where "i < length bs" "b = bs1 ! i"
      by (auto simp: in_set_conv_nth)
    with each [of i] show "mass b \<noteq> 0 \<and> trail_ok b"
      by (auto dest: recorded_trail_ok)
  qed
  then obtain bs2 where u: "updatePhysics rd bs1 = Some bs2" and len2: "length bs2 = length bs1"
    and upd: "\<And>i. i < length bs1 \<Longrightarrow>
                updateBody rd ((bs1 ! i)\<lparr>velocity := newVelocity rd bs1 i\<rparr>) = Some (bs2 ! i)"
    using updatePhysics_ok [of bs1 rd] by blast
  from s u have s2: "steps rd (Suc n) bs = Some bs2" by simp
  have "mass (bs2 ! i) \<noteq> 0 \<and>
              (\<exists>hist. length hist = Suc n \<and> recorded (bs2 ! i) hist \<and>
                 (\<forall>s<Suc n. map_option froundV (positionAfter rd (Suc s) bs i) = Some (hist ! s)))"
    if i: "i < length bs" for i
  proof -
    from each [OF i] obtain hist where m: "mass (bs1 ! i) \<noteq> 0" and h: "length hist = n"
      "recorded (bs1 ! i) hist"
      "\<forall>s<n. map_option froundV (positionAfter rd (Suc s) bs i) = Some (hist ! s)"
      by blast
    let ?b = "(bs1 ! i)\<lparr>velocity := newVelocity rd bs1 i\<rparr>"
    from h(2) have r: "recorded ?b hist" by (simp add: recorded_velocity)
    from i len have u1: "updateBody rd ?b = Some (bs2 ! i)" by (simp add: upd)
    let ?h = "hist @ [froundV (position (bs2 ! i))]"
    have "recorded (bs2 ! i) ?h" using r u1 by (rule updateBody_recorded(1))
    moreover have "mass (bs2 ! i) \<noteq> 0"
      using updateBody_recorded(4) [OF r u1] m by simp
    moreover have "map_option froundV (positionAfter rd (Suc s) bs i) = Some (?h ! s)"
      if "s < Suc n" for s
    proof (cases "s = n")
      case True
      then show ?thesis using s2 h(1) by (simp add: positionAfter_def nth_append del: steps.simps)
    next
      case False
      with that have "s < n" by simp
      with h show ?thesis by (simp add: nth_append)
    qed
    ultimately show ?thesis using h(1) by (intro conjI exI [of _ ?h]) simp_all
  qed
  with s2 len len2 show ?case by (simp del: steps.simps)
qed

lemma createBody_trail:
  "recorded (fst (createBody rd ctl rnd i k)) []"
  by (simp add: createBody_def Let_def split_beta recorded_def trail_ok_def
      default_trail_length_def)

lemma js_or_const:
  "fst (js_or a (\<lambda>k. (d, k)) k) = (case a of NaN \<Rightarrow> d | Num v \<Rightarrow> if v = 0 then d else v)"
  by (simp add: js_or_def split: jsnum.splits)

lemma createBody_mass:
  "mass (fst (createBody rd ctl rnd i k)) =
     (case b_mass (ctl i) of NaN \<Rightarrow> default_mass
      | Num v \<Rightarrow> if v = 0 then default_mass else v)"
  by (simp add: createBody_def Let_def split_beta js_or_const)

lemma createBody_mass_nonzero: "mass (fst (createBody rd ctl rnd i k)) \<noteq> 0"
  by (simp add: createBody_mass default_mass_def split: jsnum.splits)

lemma createBodies_list:
  "\<exists>k1 k2. fst (createBodiesFromControls rd ctl rnd k) =
     [fst (createBody rd ctl rnd 1 k), fst (createBody rd ctl rnd 2 k1), fst (createBody rd ctl rnd 3 k2)]"
  by (auto simp add: createBodiesFromControls_def split_beta Let_def)

section \<open>The bodies that createBodiesFromControls builds\<close>

lemma createBodies_nth:
  assumes "i < 3"
  shows "\<exists>k'. fst (createBodiesFromControls rd ctl rnd k) ! i =
               fst (createBody rd ctl rnd (Suc i) k')"
proof -
  obtain k1 k2 where l: "fst (createBodiesFromControls rd ctl rnd k) =
     [fst (createBody rd ctl rnd 1 k), fst (createBody rd ctl rnd 2 k1),
      fst (createBody rd ctl rnd 3 k2)]"
    using createBodies_list by blast
  from assms have "i = 0 \<or> i = 1 \<or> i = 2" by arith
  then show ?thesis
  proof (elim disjE)
    assume "i = 0"
    then show ?thesis using l by (intro exI [of _ k]) simp
  next
    assume "i = 1"
    then show ?thesis using l by (intro exI [of _ k1]) (simp add: numeral_2_eq_2)
  next
    assume "i = 2"
    then show ?thesis using l by (intro exI [of _ k2]) (simp add: numeral_3_eq_3)
  qed
qed

lemma createBodies_length: "length (fst (createBodiesFromControls rd ctl rnd k)) = 3"
  using createBodies_list [of rd ctl rnd k] by auto

lemma createBodies_fresh:
  assumes "b \<in> set (fst (createBodiesFromControls rd ctl rnd k))"
  shows "mass b \<noteq> 0 \<and> recorded b []"
proof -
  from assms obtain i where "i < 3" "b = fst (createBodiesFromControls rd ctl rnd k) ! i"
    by (auto simp: in_set_conv_nth createBodies_length)
  with createBodies_nth [of i rd ctl rnd k] show ?thesis
    by (auto simp: createBody_mass_nonzero createBody_trail)
qed

lemma createBodies_mass:
  assumes "i < 3"
  shows "mass (fst (createBodiesFromControls rd ctl rnd k) ! i) =
           (case b_mass (ctl (Suc i)) of NaN \<Rightarrow> 300 | Num v \<Rightarrow> if v = 0 then 300 else v)"
  using createBodies_nth [OF assms, of rd ctl rnd k]
  by (auto simp: createBody_mass default_mass_def split: jsnum.splits)

text \<open>
  Claim C10. The mass of a constructed body is the default 300 when the mass field parses
  to \<open>NaN\<close> (an unparseable field) or to \<open>0\<close>, and the parsed value itself otherwise, a
  negative one included; the function is total and always builds its three bodies, so no
  error is raised.
\<close>

theorem createBodies_mass_default:
  assumes "i < 3"
  shows "length (fst (createBodiesFromControls rd ctl rnd k)) = 3 \<and>
         mass (fst (createBodiesFromControls rd ctl rnd k) ! i) =
           (case b_mass (ctl (Suc i)) of NaN \<Rightarrow> 300 | Num v \<Rightarrow> if v = 0 then 300 else v)"
  using createBodies_mass [OF assms] by (simp add: createBodies_length)

theorem createBodies_mass_default_witness:
  "(0::nat) < 3 \<and> length (fst (createBodiesFromControls binary64 controlsA rnd0 0)) = 3 \<and>
   mass (fst (createBodiesFromControls binary64 controlsA rnd0 0) ! 0) = - 5 \<and>
   mass (fst (createBodiesFromControls binary64 controlsA rnd0 0) ! 1) = 300"
  using createBodies_mass_default [of 0 binary64 controlsA rnd0 0]
    createBodies_mass_default [of 1 binary64 controlsA rnd0 0]
  by (simp add: controlsA_def)

text \<open>
  Claim C1 asks \<^verbatim>\<open>createBodiesFromControls\<close> to reject a mass \<open>\<le> 0\<close>. The source has no
  such check: with the mass field of body 1 reading \<open>-5\<close>, three bodies are built and the
  first has mass \<open>-5\<close>.
\<close>

theorem negative_mass_constructed:
  "b_mass (controlsA 1) = Num (- 5) \<and>
   map mass (fst (createBodiesFromControls binary64 controlsA rnd0 0)) = [- 5, 300, 300]"
proof -
  obtain k1 k2 where l: "fst (createBodiesFromControls binary64 controlsA rnd0 0) =
     [fst (createBody binary64 controlsA rnd0 1 0), fst (createBody binary64 controlsA rnd0 2 k1),
      fst (createBody binary64 controlsA rnd0 3 k2)]"
    using createBodies_list by blast
  show ?thesis
    by (simp add: l createBody_mass controlsA_def default_mass_def)
qed

text \<open>
  Claim C1, as the code has it: \<^verbatim>\<open>createBodiesFromControls\<close> never fails; for every input
  it builds exactly three bodies. A mass field that parses to \<open>NaN\<close> or to \<open>0\<close> is replaced
  by the default 300, so no body has mass \<open>0\<close>; a negative mass is not rejected but becomes
  the mass of the body.
\<close>

theorem createBodies_never_rejects:
  "length (fst (createBodiesFromControls rd ctl rnd k)) = 3 \<and>
   (\<forall>b\<in>set (fst (createBodiesFromControls rd ctl rnd k)). mass b \<noteq> 0) \<and>
   (\<forall>i<3.
      (b_mass (ctl (Suc i)) = NaN \<or> b_mass (ctl (Suc i)) = Num 0 \<longrightarrow>
         mass (fst (createBodiesFromControls rd ctl rnd k) ! i) = 300) \<and>
      (\<forall>v. b_mass (ctl (Suc i)) = Num v \<longrightarrow> v < 0 \<longrightarrow>
         mass (fst (createBodiesFromControls rd ctl rnd k) ! i) = v))"
proof (intro conjI allI impI ballI)
  show "length (fst (createBodiesFromControls rd ctl rnd k)) = 3"
    by (rule createBodies_length)
next
  fix b assume "b \<in> set (fst (createBodiesFromControls rd ctl rnd k))"
  then show "mass b \<noteq> 0" by (simp add: createBodies_fresh)
next
  fix i assume "i < 3" and "b_mass (ctl (Suc i)) = NaN \<or> b_mass (ctl (Suc i)) = Num 0"
  then show "mass (fst (createBodiesFromControls rd ctl rnd k) ! i) = 300"
    by (auto simp: createBodies_mass)
next
  fix i v assume "i < 3" and "b_mass (ctl (Suc i)) = Num v" and "v < 0"
  then show "mass (fst (createBodiesFromControls rd ctl rnd k) ! i) = v"
    by (simp add: createBodies_mass)
qed

theorem createBodies_never_rejects_witness:
  "length (fst (createBodiesFromControls binary64 controlsA rnd0 7)) = 3 \<and>
   b_mass (controlsA 1) = Num (- 5) \<and>
   mass (fst (createBodiesFromControls binary64 controlsA rnd0 7) ! 0) = - 5 \<and>
   b_mass (controlsA 2) = Num 0 \<and>
   mass (fst (createBodiesFromControls binary64 controlsA rnd0 7) ! 1) = 300 \<and>
   b_mass (controlsA 3) = NaN \<and>
   mass (fst (createBodiesFromControls binary64 controlsA rnd0 7) ! 2) = 300 \<and>
   mass (fst (createBodiesFromControls binary64 controlsA rnd0 7) ! 2) \<noteq> 0"
proof -
  let ?bs = "fst (createBodiesFromControls binary64 controlsA rnd0 7)"
  note t = createBodies_never_rejects [of binary64 controlsA rnd0 7]
  from t have len: "length ?bs = 3" by blast
  then have "?bs ! 2 \<in> set ?bs" by simp
  with t have nz: "mass (?bs ! 2) \<noteq> 0" by blast
  have c: "b_mass (controlsA (Suc 0)) = Num (- 5)" "b_mass (controlsA (Suc 1)) = Num 0"
    "b_mass (controlsA (Suc 2)) = NaN"
    by (simp_all add: controlsA_def)
  from t c(1) have m0: "mass (?bs ! 0) = - 5" by force
  from t c(2) have m1: "mass (?bs ! 1) = 300" by force
  from t c(3) have m2: "mass (?bs ! 2) = 300" by force
  from c have "b_mass (controlsA 1) = Num (- 5)" "b_mass (controlsA 2) = Num 0"
    "b_mass (controlsA 3) = NaN"
    by (simp_all add: numeral_2_eq_2 numeral_3_eq_3)
  with len nz m0 m1 m2 show ?thesis by simp
qed

section \<open>The trail of a created body\<close>

lemma steps_created:
  assumes "i < 3"
  shows "\<exists>bs' hist. steps rd n (fst (createBodiesFromControls rd ctl rnd r)) = Some bs' \<and>
           length bs' = 3 \<and> mass (bs' ! i) \<noteq> 0 \<and> length hist = n \<and> recorded (bs' ! i) hist \<and>
           map froundV hist = hist \<and>
           (\<forall>s<n. map_option froundV
                     (positionAfter rd (Suc s) (fst (createBodiesFromControls rd ctl rnd r)) i) =
                   Some (hist ! s))"
proof -
  let ?bs = "fst (createBodiesFromControls rd ctl rnd r)"
  have "\<forall>b\<in>set ?bs. mass b \<noteq> 0 \<and> recorded b []"
    using createBodies_fresh by blast
  from steps_recorded [OF this, of rd n] assms
  obtain bs' hist where s: "steps rd n ?bs = Some bs'" "length bs' = 3" "mass (bs' ! i) \<noteq> 0"
    "length hist = n" "recorded (bs' ! i) hist"
    and p: "\<forall>s<n. map_option froundV (positionAfter rd (Suc s) ?bs i) = Some (hist ! s)"
    by (simp only: createBodies_length) blast
  have "map froundV hist = hist"
  proof (rule nth_equalityI)
    show "length (map froundV hist) = length hist" by simp
  next
    fix k assume "k < length (map froundV hist)"
    with s(4) have k: "k < n" by simp
    with p have "map_option froundV (positionAfter rd (Suc k) ?bs i) = Some (hist ! k)"
      by blast
    then obtain q where "froundV q = hist ! k"
      by (cases "positionAfter rd (Suc k) ?bs i") auto
    then have "hist ! k = froundV q" by simp
    with k s(4) show "map froundV hist ! k = hist ! k" by (simp add: froundV_idem)
  qed
  with s p show ?thesis by blast
qed

text \<open>
  Claim C5, as the code has it. For every \<open>k \<le> 800\<close> and each of the three freshly created
  bodies, \<open>k\<close> calls of \<^verbatim>\<open>updatePhysics\<close> succeed and the trail reader then returns exactly
  \<open>k\<close> points in the order of the steps; the \<open>s\<close>-th of them (from 0) is the position the
  body had at the end of step \<open>s + 1\<close>, each coordinate rounded to binary32 as the
  \<^verbatim>\<open>Float32Array\<close> of the trail stores it.
\<close>

theorem trail_roundtrip:
  assumes "k \<le> default_trail_length" and "i < 3"
  shows "\<exists>bs' ps. steps rd k (fst (createBodiesFromControls rd ctl rnd r)) = Some bs' \<and>
           readTrail (bs' ! i) = Some ps \<and> length ps = k \<and>
           (\<forall>s<k. map_option froundV
                     (positionAfter rd (Suc s) (fst (createBodiesFromControls rd ctl rnd r)) i) =
                   Some (ps ! s))"
proof -
  let ?bs = "fst (createBodiesFromControls rd ctl rnd r)"
  obtain bs' hist where s: "steps rd k ?bs = Some bs'" and h: "length hist = k"
    and r: "recorded (bs' ! i) hist" and f: "map froundV hist = hist"
    and p: "\<forall>s<k. map_option froundV (positionAfter rd (Suc s) ?bs i) = Some (hist ! s)"
    using steps_created [OF assms(2), of rd k ctl rnd r] by blast
  from readTrail_recorded [OF r] h assms(1) f have "readTrail (bs' ! i) = Some hist"
    by simp
  with s h p show ?thesis by blast
qed

theorem trail_roundtrip_witness:
  "(2::nat) \<le> default_trail_length \<and> (0::nat) < 3 \<and>
   (\<exists>bs' ps. steps binary64 2 (fst (createBodiesFromControls binary64 controlsA rnd0 0)) = Some bs' \<and>
      readTrail (bs' ! 0) = Some ps \<and> length ps = 2 \<and>
      map_option froundV
        (positionAfter binary64 1 (fst (createBodiesFromControls binary64 controlsA rnd0 0)) 0) =
        Some (ps ! 0) \<and>
      map_option froundV
        (positionAfter binary64 2 (fst (createBodiesFromControls binary64 controlsA rnd0 0)) 0) =
        Some (ps ! 1))"
proof -
  let ?bs = "fst (createBodiesFromControls binary64 controlsA rnd0 0)"
  have k: "(2::nat) \<le> default_trail_length" by (simp add: default_trail_length_def)
  have i: "(0::nat) < 3" by simp
  from trail_roundtrip [OF k i, of binary64 controlsA rnd0 0]
  obtain bs' ps where "steps binary64 2 ?bs = Some bs'"
    "readTrail (bs' ! 0) = Some ps" "length ps = 2"
    and p: "\<forall>s<2. map_option froundV (positionAfter binary64 (Suc s) ?bs 0) = Some (ps ! s)"
    by blast
  moreover from p have "map_option froundV (positionAfter binary64 (Suc 0) ?bs 0) = Some (ps ! 0)"
    "map_option froundV (positionAfter binary64 (Suc 1) ?bs 0) = Some (ps ! 1)"
    by simp_all
  ultimately show ?thesis using k i by (auto simp: numeral_2_eq_2)
qed

text \<open>
  Claim C6, as the code has it. After \<open>800 + m\<close> calls of \<^verbatim>\<open>updatePhysics\<close> the trail reader
  returns exactly 800 points; the \<open>s\<close>-th of them is read from slot
  \<open>(trailIndex + s) mod 800\<close> and is the position the body had at the end of step
  \<open>m + 1 + s\<close>, each coordinate rounded to binary32 as the \<^verbatim>\<open>Float32Array\<close> of the trail
  stores it: the oldest is that of step \<open>m + 1\<close>, the newest that of step \<open>800 + m\<close>. (It
  holds for \<open>m = 0\<close> as well.)
\<close>

theorem trail_wrap:
  assumes "i < 3"
  shows "\<exists>bs' ps. steps rd (default_trail_length + m) (fst (createBodiesFromControls rd ctl rnd r)) =
             Some bs' \<and>
           readTrail (bs' ! i) = Some ps \<and> length ps = default_trail_length \<and>
           (\<forall>s<default_trail_length.
              map_option froundV
                (positionAfter rd (m + 1 + s) (fst (createBodiesFromControls rd ctl rnd r)) i) =
                Some (ps ! s) \<and>
              ps ! s = slot (trailPoints (bs' ! i))
                         ((trailIndex (bs' ! i) + s) mod default_trail_length))"
proof -
  let ?C = default_trail_length
  let ?bs = "fst (createBodiesFromControls rd ctl rnd r)"
  obtain bs' hist where s: "steps rd (?C + m) ?bs = Some bs'" and h: "length hist = ?C + m"
    and r: "recorded (bs' ! i) hist" and f: "map froundV hist = hist"
    and p: "\<forall>s<?C + m. map_option froundV (positionAfter rd (Suc s) ?bs i) = Some (hist ! s)"
    using steps_created [OF assms, of rd "?C + m" ctl rnd r] by blast
  let ?ps = "drop m hist"
  have "map froundV (drop m hist) = drop m (map froundV hist)" by (simp add: drop_map)
  with f have "map froundV ?ps = ?ps" by simp
  with readTrail_recorded [OF r] h have rd: "readTrail (bs' ! i) = Some ?ps"
    by simp
  from h have len: "length ?ps = ?C" by simp
  from r h have cnt: "trailPointsCount (bs' ! i) = ?C" by (simp add: recorded_def)
  have "map_option froundV (positionAfter rd (m + 1 + s) ?bs i) = Some (?ps ! s) \<and>
        ?ps ! s = slot (trailPoints (bs' ! i)) ((trailIndex (bs' ! i) + s) mod ?C)"
    if "s < ?C" for s
  proof
    from that have "m + s < ?C + m" by simp
    with p have "map_option froundV (positionAfter rd (Suc (m + s)) ?bs i) = Some (hist ! (m + s))"
      by blast
    with h that show "map_option froundV (positionAfter rd (m + 1 + s) ?bs i) = Some (?ps ! s)"
      by simp
  next
    from that cnt have k: "s < trailPointsCount (bs' ! i)" by simp
    from recorded_slot [OF r k] h cnt that
    show "?ps ! s = slot (trailPoints (bs' ! i)) ((trailIndex (bs' ! i) + s) mod ?C)"
      by (simp add: sourceIdx_def)
  qed
  with s rd len show ?thesis by blast
qed

theorem trail_wrap_witness:
  "(1::nat) < 3 \<and>
   (\<exists>bs' ps. steps binary64 (default_trail_length + 1)
                (fst (createBodiesFromControls binary64 controlsA rnd0 0)) = Some bs' \<and>
      readTrail (bs' ! 1) = Some ps \<and> length ps = default_trail_length \<and>
      map_option froundV
        (positionAfter binary64 2 (fst (createBodiesFromControls binary64 controlsA rnd0 0)) 1) =
        Some (ps ! 0) \<and>
      map_option froundV
        (positionAfter binary64 (default_trail_length + 1)
           (fst (createBodiesFromControls binary64 controlsA rnd0 0)) 1) =
        Some (ps ! (default_trail_length - 1)))"
proof -
  let ?C = default_trail_length
  let ?bs = "fst (createBodiesFromControls binary64 controlsA rnd0 0)"
  have i: "(1::nat) < 3" by simp
  have C: "0 < ?C" by (simp add: default_trail_length_def)
  from trail_wrap [OF i, of binary64 1 controlsA rnd0 0]
  obtain bs' ps where f: "steps binary64 (?C + 1) ?bs = Some bs'"
    "readTrail (bs' ! 1) = Some ps" "length ps = ?C"
    and p: "\<And>s. s < ?C \<Longrightarrow>
      map_option froundV (positionAfter binary64 (1 + 1 + s) ?bs 1) = Some (ps ! s)"
    by blast
  from p [of 0] C
  have "map_option froundV (positionAfter binary64 2 ?bs 1) = Some (ps ! 0)"
    by (simp add: numeral_2_eq_2)
  moreover from p [of "?C - 1"] C
  have "map_option froundV (positionAfter binary64 (?C + 1) ?bs 1) = Some (ps ! (?C - 1))"
    by (simp add: add.commute)
  ultimately show ?thesis using f i by blast
qed

section \<open>The trail invariant\<close>

lemma bodies_ok_nth:
  "bodies_ok bs \<Longrightarrow> i < length bs \<Longrightarrow> mass (bs ! i) \<noteq> 0 \<and> trail_ok (bs ! i)"
  by (simp add: bodies_ok_def)

lemma updatePhysics_body:
  assumes "bodies_ok bs"
  shows "\<exists>bs'. updatePhysics rd bs = Some bs' \<and> length bs' = length bs \<and>
           (\<forall>i<length bs. \<exists>d. length d = default_trail_length * 3 \<and>
              bs' ! i = (recordPoint rd ((bs ! i)\<lparr>velocity := newVelocity rd bs i\<rparr>))
                          \<lparr>displayPositions := d\<rparr>)"
proof -
  obtain bs' where u: "updatePhysics rd bs = Some bs'" "length bs' = length bs"
    and each: "\<And>i. i < length bs \<Longrightarrow>
              updateBody rd ((bs ! i)\<lparr>velocity := newVelocity rd bs i\<rparr>) = Some (bs' ! i)"
    using updatePhysics_ok [OF assms, of rd] by blast
  have "\<exists>d. length d = default_trail_length * 3 \<and>
              bs' ! i = (recordPoint rd ((bs ! i)\<lparr>velocity := newVelocity rd bs i\<rparr>))
                          \<lparr>displayPositions := d\<rparr>"
    if i: "i < length bs" for i
  proof -
    from bodies_ok_nth [OF assms i] have "trail_ok ((bs ! i)\<lparr>velocity := newVelocity rd bs i\<rparr>)"
      by (simp add: trail_ok_def)
    from updateBody_ok [OF this, of rd] each [OF i] show ?thesis by auto
  qed
  with u show ?thesis by blast
qed

text \<open>
  Claim C7. The bodies that \<^verbatim>\<open>createBodiesFromControls\<close> builds have \<open>trailPointsCount = 0\<close>
  and \<open>trailIndex = 0\<close>. After any number \<open>n\<close> of steps from there (none included) every
  body has \<open>trailPointsCount \<le> 800\<close> and \<open>trailIndex < 800\<close>, and the next step succeeds and
  appends exactly one entry to each trail: it writes the body's new position (rounded to
  binary32) at \<open>trailIndex\<close>, advances \<open>trailIndex\<close> by one modulo 800 and increments
  \<open>trailPointsCount\<close> only while it is below 800.
\<close>

theorem trail_invariant:
  "(\<forall>b\<in>set (fst (createBodiesFromControls rd ctl rnd r)).
      trailPointsCount b = 0 \<and> trailIndex b = 0) \<and>
   (\<exists>bs. steps rd n (fst (createBodiesFromControls rd ctl rnd r)) = Some bs \<and> length bs = 3 \<and>
      (\<forall>b\<in>set bs. trailPointsCount b \<le> default_trail_length \<and>
                  trailIndex b < default_trail_length) \<and>
      (\<exists>bs'. updatePhysics rd bs = Some bs' \<and> length bs' = length bs \<and>
         (\<forall>i<length bs.
            trailIndex (bs' ! i) = (trailIndex (bs ! i) + 1) mod default_trail_length \<and>
            trailPointsCount (bs' ! i) =
              (if trailPointsCount (bs ! i) < default_trail_length
               then trailPointsCount (bs ! i) + 1 else trailPointsCount (bs ! i)) \<and>
            trailPoints (bs' ! i) = (trailPoints (bs ! i))
              [trailIndex (bs ! i) * 3 := fround (vec_x (position (bs' ! i))),
               trailIndex (bs ! i) * 3 + 1 := fround (vec_y (position (bs' ! i))),
               trailIndex (bs ! i) * 3 + 2 := fround (vec_z (position (bs' ! i)))])))"
proof
  let ?bs0 = "fst (createBodiesFromControls rd ctl rnd r)"
  show "\<forall>b\<in>set ?bs0. trailPointsCount b = 0 \<and> trailIndex b = 0"
    using createBodies_fresh [of _ rd ctl rnd r] by (auto simp: recorded_def)
  have fresh: "\<forall>b\<in>set ?bs0. mass b \<noteq> 0 \<and> recorded b []"
    using createBodies_fresh by blast
  obtain bs where s: "steps rd n ?bs0 = Some bs" and len: "length bs = 3"
    and each: "\<And>i. i < 3 \<Longrightarrow> mass (bs ! i) \<noteq> 0 \<and> (\<exists>hist. recorded (bs ! i) hist)"
    using steps_recorded [OF fresh, of rd n] by (simp only: createBodies_length) blast
  have ok: "mass b \<noteq> 0 \<and> trail_ok b" if "b \<in> set bs" for b
  proof -
    from that len obtain i where "i < 3" "b = bs ! i" by (auto simp: in_set_conv_nth)
    with each [of i] show ?thesis by (auto dest: recorded_trail_ok)
  qed
  then have inv: "\<forall>b\<in>set bs. trailPointsCount b \<le> default_trail_length \<and>
                    trailIndex b < default_trail_length"
    by (simp add: trail_ok_def)
  from ok have "bodies_ok bs" by (simp add: bodies_ok_def)
  then obtain bs' where u: "updatePhysics rd bs = Some bs'" "length bs' = length bs"
    and b': "\<And>i. i < length bs \<Longrightarrow> \<exists>d.
              bs' ! i = (recordPoint rd ((bs ! i)\<lparr>velocity := newVelocity rd bs i\<rparr>))
                          \<lparr>displayPositions := d\<rparr>"
    using updatePhysics_body [of bs rd] by blast
  have "trailIndex (bs' ! i) = (trailIndex (bs ! i) + 1) mod default_trail_length \<and>
            trailPointsCount (bs' ! i) =
              (if trailPointsCount (bs ! i) < default_trail_length
               then trailPointsCount (bs ! i) + 1 else trailPointsCount (bs ! i)) \<and>
            trailPoints (bs' ! i) = (trailPoints (bs ! i))
              [trailIndex (bs ! i) * 3 := fround (vec_x (position (bs' ! i))),
               trailIndex (bs ! i) * 3 + 1 := fround (vec_y (position (bs' ! i))),
               trailIndex (bs ! i) * 3 + 2 := fround (vec_z (position (bs' ! i)))]"
    if "i < length bs" for i
    using b' [OF that] by (auto simp: recordPoint_def)
  with s len inv u
  show "\<exists>bs. steps rd n ?bs0 = Some bs \<and> length bs = 3 \<and>
      (\<forall>b\<in>set bs. trailPointsCount b \<le> default_trail_length \<and>
                  trailIndex b < default_trail_length) \<and>
      (\<exists>bs'. updatePhysics rd bs = Some bs' \<and> length bs' = length bs \<and>
         (\<forall>i<length bs.
            trailIndex (bs' ! i) = (trailIndex (bs ! i) + 1) mod default_trail_length \<and>
            trailPointsCount (bs' ! i) =
              (if trailPointsCount (bs ! i) < default_trail_length
               then trailPointsCount (bs ! i) + 1 else trailPointsCount (bs ! i)) \<and>
            trailPoints (bs' ! i) = (trailPoints (bs ! i))
              [trailIndex (bs ! i) * 3 := fround (vec_x (position (bs' ! i))),
               trailIndex (bs ! i) * 3 + 1 := fround (vec_y (position (bs' ! i))),
               trailIndex (bs ! i) * 3 + 2 := fround (vec_z (position (bs' ! i)))]))"
    by blast
qed

theorem trail_invariant_witness:
  "trailPointsCount (fst (createBodiesFromControls binary64 controlsA rnd0 0) ! 0) = 0 \<and>
   trailIndex (fst (createBodiesFromControls binary64 controlsA rnd0 0) ! 0) = 0 \<and>
   (\<exists>bs. steps binary64 5 (fst (createBodiesFromControls binary64 controlsA rnd0 0)) = Some bs \<and>
      trailPointsCount (bs ! 0) \<le> default_trail_length \<and>
      trailIndex (bs ! 0) < default_trail_length \<and>
      (\<exists>bs'. updatePhysics binary64 bs = Some bs' \<and>
         trailIndex (bs' ! 0) = (trailIndex (bs ! 0) + 1) mod default_trail_length))"
proof -
  let ?bs0 = "fst (createBodiesFromControls binary64 controlsA rnd0 0)"
  note t = trail_invariant [of binary64 controlsA rnd0 0 5]
  have "length ?bs0 = 3" by (rule createBodies_length)
  then have "?bs0 ! 0 \<in> set ?bs0" by simp
  with t have a: "trailPointsCount (?bs0 ! 0) = 0 \<and> trailIndex (?bs0 ! 0) = 0" by blast
  from t obtain bs bs' where s: "steps binary64 5 ?bs0 = Some bs" "length bs = 3"
    and inv: "\<forall>b\<in>set bs. trailPointsCount b \<le> default_trail_length \<and>
                 trailIndex b < default_trail_length"
    and u: "updatePhysics binary64 bs = Some bs'"
    and n: "\<forall>i<length bs.
              trailIndex (bs' ! i) = (trailIndex (bs ! i) + 1) mod default_trail_length"
    by blast
  from s have "bs ! 0 \<in> set bs" by simp
  with inv have "trailPointsCount (bs ! 0) \<le> default_trail_length \<and>
                 trailIndex (bs ! 0) < default_trail_length"
    by blast
  moreover from n s
  have "trailIndex (bs' ! 0) = (trailIndex (bs ! 0) + 1) mod default_trail_length"
    by simp
  ultimately show ?thesis using a s u by blast
qed

section \<open>The order of the two phases of a step\<close>

text \<open>
  Claim C2. In one \<^verbatim>\<open>updatePhysics\<close> (masses not zero, trail buffers well formed) the
  velocity loop runs first and changes no position; the velocity it gives body \<open>i\<close> is the
  old one plus \<open>dt\<close> times the force, divided by the mass, that the force loop computes on
  the list as it was at the start of the step. Only then \<^verbatim>\<open>forEach\<close> runs: it leaves the
  velocities alone and sets each position to the old position plus the new velocity
  times \<open>dt\<close>. This holds in the arithmetic of the program as in any other.
\<close>

theorem semi_implicit_euler_order:
  assumes "bodies_ok bodies" and "i < length bodies"
  shows "\<exists>bodies1 bodies2 F.
           velocityLoop rd [0..<length bodies] bodies = Some bodies1 \<and>
           forEachBody rd bodies1 = Some bodies2 \<and>
           updatePhysics rd bodies = Some bodies2 \<and>
           map position bodies1 = map position bodies \<and>
           forceLoop rd bodies i [0..<length bodies] (Vector3 0 0 0) = Some F \<and>
           velocity (bodies1 ! i) =
             addV rd (velocity (bodies ! i))
               (multiplyScalar rd (multiplyScalar rd F (rd (1 / mass (bodies ! i)))) (dt rd)) \<and>
           velocity (bodies2 ! i) = velocity (bodies1 ! i) \<and>
           position (bodies2 ! i) =
             addV rd (position (bodies ! i)) (multiplyScalar rd (velocity (bodies2 ! i)) (dt rd))"
proof -
  obtain bs1 where v: "velocityLoop rd [0..<length bodies] bodies = Some bs1"
    and len1: "length bs1 = length bodies"
    and each: "\<And>k. k < length bodies \<Longrightarrow>
                 bs1 ! k = (bodies ! k)\<lparr>velocity := newVelocity rd bodies k\<rparr>"
    using velocityLoop_all [OF assms(1), of rd] by blast
  have pos: "map position bs1 = map position bodies"
    using len1 each by (intro nth_equalityI) simp_all
  have ok1: "\<forall>b\<in>set bs1. trail_ok b"
  proof
    fix b assume "b \<in> set bs1"
    with len1 obtain k where k: "k < length bodies" "b = bs1 ! k"
      by (auto simp: in_set_conv_nth)
    with assms(1) have "trail_ok (bodies ! k)" by (simp add: bodies_ok_def)
    with k each show "trail_ok b" by (simp add: trail_ok_def)
  qed
  then obtain bs2 where f: "forEachBody rd bs1 = Some bs2"
    and upd: "\<And>k. k < length bs1 \<Longrightarrow> updateBody rd (bs1 ! k) = Some (bs2 ! k)"
    using forEachBody_ok [of bs1 rd] by blast
  from v f have u: "updatePhysics rd bodies = Some bs2" by (simp add: updatePhysics_def)
  from assms(2) len1 ok1 have t: "trail_ok (bs1 ! i)" by simp
  from updateBody_ok [OF t, of rd] upd [of i] assms(2) len1
  obtain d where b2: "bs2 ! i = (recordPoint rd (bs1 ! i))\<lparr>displayPositions := d\<rparr>" by auto
  have v1: "velocity (bs1 ! i) =
     addV rd (velocity (bodies ! i))
       (multiplyScalar rd
          (multiplyScalar rd (totalForceOn rd bodies i) (rd (1 / mass (bodies ! i)))) (dt rd))"
    using each [OF assms(2)] by (simp add: newVelocity_def)
  have v2: "velocity (bs2 ! i) = velocity (bs1 ! i)"
    by (simp add: b2 recordPoint_def)
  have p2: "position (bs2 ! i) =
      addV rd (position (bodies ! i)) (multiplyScalar rd (velocity (bs2 ! i)) (dt rd))"
    using each [OF assms(2)] by (simp add: b2 recordPoint_def)
  from v f u pos forceLoop_total [of rd bodies i] v1 v2 p2 show ?thesis by blast
qed

lemma restingBody_ok: "m \<noteq> 0 \<Longrightarrow> mass (restingBody p m) \<noteq> 0 \<and> trail_ok (restingBody p m)"
  by (simp add: restingBody_def trail_ok_def default_trail_length_def)

lemma threeBodies_ok: "bodies_ok threeBodies"
  by (simp add: bodies_ok_def threeBodies_def restingBody_ok)

lemma twoBodyScenario_ok: "bodies_ok twoBodyScenario"
  by (simp add: bodies_ok_def twoBodyScenario_def restingBody_ok)

lemma coincident_ok: "bodies_ok coincident"
  by (simp add: bodies_ok_def coincident_def restingBody_ok)

theorem semi_implicit_euler_order_witness:
  "bodies_ok threeBodies \<and> (1::nat) < length threeBodies \<and>
   (\<exists>bodies1 bodies2.
           velocityLoop binary64 [0..<length threeBodies] threeBodies = Some bodies1 \<and>
           forEachBody binary64 bodies1 = Some bodies2 \<and>
           updatePhysics binary64 threeBodies = Some bodies2 \<and>
           map position bodies1 = map position threeBodies \<and>
           velocity (bodies2 ! 1) = velocity (bodies1 ! 1) \<and>
           position (bodies2 ! 1) =
             addV binary64 (Vector3 50 0 0)
               (multiplyScalar binary64 (velocity (bodies2 ! 1)) (dt binary64)))"
proof -
  have i: "(1::nat) < length threeBodies" by (simp add: threeBodies_def)
  have p: "position (threeBodies ! 1) = Vector3 50 0 0"
    by (simp add: threeBodies_def restingBody_def)
  from semi_implicit_euler_order [OF threeBodies_ok i, of binary64]
  obtain bodies1 bodies2
    where "velocityLoop binary64 [0..<length threeBodies] threeBodies = Some bodies1"
    "forEachBody binary64 bodies1 = Some bodies2" "updatePhysics binary64 threeBodies = Some bodies2"
    "map position bodies1 = map position threeBodies"
    "velocity (bodies2 ! 1) = velocity (bodies1 ! 1)"
    "position (bodies2 ! 1) =
       addV binary64 (position (threeBodies ! 1))
         (multiplyScalar binary64 (velocity (bodies2 ! 1)) (dt binary64))"
    by blast
  with p threeBodies_ok i show ?thesis by (simp del: One_nat_def)
qed

section \<open>The force on a body\<close>

text \<open>In exact arithmetic the inner loop adds up the pulls of the specification.\<close>

lemma normalizeV_exact:
  assumes "1 \<le> lengthSq exact v"
  shows "normalizeV exact v = Some (multiplyScalar exact v (1 / lengthV exact v))"
proof -
  have "1 \<le> lengthV exact v"
    using assms by (simp add: lengthV_sqrt)
  then have "lengthV exact v \<noteq> 0" by simp
  then show ?thesis
    by (simp add: normalizeV_defined exact_def)
qed

lemma forceLoop_exact:
  "forceLoop exact bodies i js tf =
     Some (tf + (\<Sum>j\<leftarrow>js. if i = j then 0 else pairForce (bodies ! i) (bodies ! j)))"
proof (induction js arbitrary: tf)
  case Nil
  show ?case by simp
next
  case (Cons j js)
  show ?case
  proof (cases "i = j")
    case True
    then show ?thesis using Cons.IH [of tf] by auto
  next
    case False
    let ?d = "position (bodies ! j) - position (bodies ! i)"
    show ?thesis
    proof (cases "lengthSq exact ?d < 1")
      case True
      with False show ?thesis
        by (simp add: Cons.IH subVectors_minus pairForce_def Let_def)
    next
      case far: False
      then have d0: "lengthSq exact ?d \<noteq> 0" by auto
      from far have n: "normalizeV exact ?d = Some (multiplyScalar exact ?d (1 / lengthV exact ?d))"
        by (simp add: normalizeV_exact)
      from False far d0 n show ?thesis
        by (simp add: Cons.IH subVectors_minus pairForce_def attraction_def Let_def exact_ops
            addV_plus add.assoc)
    qed
  qed
qed

lemma totalForceOn_exact:
  "totalForceOn exact bodies i =
     (\<Sum>j\<leftarrow>[0..<length bodies]. if i = j then 0 else pairForce (bodies ! i) (bodies ! j))"
  by (simp add: totalForceOn_def forceLoop_exact Vector3_zero)

lemma newVelocity_exact:
  "newVelocity exact bodies i =
     velocity (bodies ! i) +
     multiplyScalar exact
       (multiplyScalar exact (totalForceOn exact bodies i) (1 / mass (bodies ! i))) (dt exact)"
  by (simp add: newVelocity_def addV_plus exact_def)

lemma totalForceOn_sum:
  "totalForceOn exact bodies i =
     (\<Sum>j | j < length bodies \<and> j \<noteq> i \<and>
            1 \<le> lengthSq exact (position (bodies ! j) - position (bodies ! i)).
        attraction (bodies ! i) (bodies ! j))"
proof -
  let ?P = "\<lambda>j. j \<noteq> i \<and> 1 \<le> lengthSq exact (position (bodies ! j) - position (bodies ! i))"
  have "totalForceOn exact bodies i =
        (\<Sum>j\<in>{0..<length bodies}. if i = j then 0 else pairForce (bodies ! i) (bodies ! j))"
    by (simp add: totalForceOn_exact interv_sum_list_conv_sum_set_nat)
  also have "\<dots> = (\<Sum>j\<in>{0..<length bodies}. if ?P j then attraction (bodies ! i) (bodies ! j) else 0)"
    by (intro sum.cong refl) (auto simp: pairForce_def)
  also have "\<dots> = (\<Sum>j\<in>{j \<in> {0..<length bodies}. ?P j}. attraction (bodies ! i) (bodies ! j))"
    by (rule sum.inter_filter [symmetric]) simp
  also have "{j \<in> {0..<length bodies}. ?P j} =
             {j. j < length bodies \<and> j \<noteq> i \<and>
                 1 \<le> lengthSq exact (position (bodies ! j) - position (bodies ! i))}"
    by auto
  finally show ?thesis .
qed

lemma updatePhysics_velocity:
  assumes "bodies_ok bodies" and "i < length bodies"
  shows "\<exists>bs'. updatePhysics exact bodies = Some bs' \<and> velocity (bs' ! i) = newVelocity exact bodies i"
proof -
  from updatePhysics_body [OF assms(1), of exact] assms(2)
  obtain bs' d where "updatePhysics exact bodies = Some bs'"
    "bs' ! i = (recordPoint exact ((bodies ! i)\<lparr>velocity := newVelocity exact bodies i\<rparr>))\<lparr>displayPositions := d\<rparr>"
    by blast
  then show ?thesis by (simp add: recordPoint_def)
qed

text \<open>In the arithmetic of any rounding the loop adds, in the order of \<open>j\<close>, the terms of
  the pairs it does not skip.\<close>

lemma forceLoop_fold:
  "forceLoop rd bodies i js tf =
     Some (foldl (addV rd) tf
             (map (\<lambda>j. forceTerm rd (bodies ! i) (bodies ! j))
                (filter (\<lambda>j. j \<noteq> i \<and>
                     1 \<le> lengthSq rd (subVectors rd (position (bodies ! j)) (position (bodies ! i))))
                   js)))"
proof (induction js arbitrary: tf)
  case Nil
  show ?case by simp
next
  case (Cons j js)
  show ?case
  proof (cases "i = j")
    case True
    then show ?thesis using Cons.IH [of tf] by auto
  next
    case False
    show ?thesis
    proof (cases "lengthSq rd (subVectors rd (position (bodies ! j)) (position (bodies ! i))) < 1")
      case True
      then have "forceLoop rd bodies i (j # js) tf = forceLoop rd bodies i js tf"
        by (rule forceLoop_near)
      with True Cons.IH [of tf] show ?thesis by (simp del: forceLoop.simps)
    next
      case far: False
      from False far show ?thesis
        by (simp only: forceLoop_far [OF False far] Cons.IH)
          (simp add: forceTerm_def Let_def)
    qed
  qed
qed

text \<open>
  Claim C3. In a step, the force loop for body \<open>i\<close> ends with the sum, over the other
  indices \<open>j\<close> whose squared distance from \<open>i\<close> is at least 1, of
  \<open>G * mass i * mass j / distanceSq\<close> times the unit vector from \<open>i\<close> to \<open>j\<close> (each ordered
  pair on its own), and the step adds to the velocity of \<open>i\<close> that total force times
  \<open>1 / mass i\<close> times \<open>dt\<close>. In the arithmetic of the program (of any rounding \<open>rd\<close>) the
  sum is the one the loop builds, the terms added to \<open>totalForce\<close> in the order of \<open>j\<close>,
  each operation rounded; in exact arithmetic it is the sum of the specification.
\<close>

theorem velocity_increment:
  assumes "bodies_ok bodies" and "i < length bodies"
  shows "forceLoop rd bodies i [0..<length bodies] (Vector3 0 0 0) =
           Some (foldl (addV rd) (Vector3 0 0 0)
                   (map (\<lambda>j. forceTerm rd (bodies ! i) (bodies ! j))
                      (filter (\<lambda>j. j \<noteq> i \<and>
                           1 \<le> lengthSq rd (subVectors rd (position (bodies ! j))
                                  (position (bodies ! i))))
                         [0..<length bodies]))) \<and>
         (\<exists>bs' F. updatePhysics rd bodies = Some bs' \<and>
            forceLoop rd bodies i [0..<length bodies] (Vector3 0 0 0) = Some F \<and>
            velocity (bs' ! i) =
              addV rd (velocity (bodies ! i))
                (multiplyScalar rd (multiplyScalar rd F (rd (1 / mass (bodies ! i)))) (dt rd))) \<and>
         forceLoop exact bodies i [0..<length bodies] (Vector3 0 0 0) =
           Some (\<Sum>j | j < length bodies \<and> j \<noteq> i \<and>
                        1 \<le> lengthSq exact (position (bodies ! j) - position (bodies ! i)).
                   multiplyScalar exact
                     (multiplyScalar exact (position (bodies ! j) - position (bodies ! i))
                        (1 / lengthV exact (position (bodies ! j) - position (bodies ! i))))
                     (G exact * mass (bodies ! i) * mass (bodies ! j) /
                        lengthSq exact (position (bodies ! j) - position (bodies ! i)))) \<and>
         (\<exists>bs'. updatePhysics exact bodies = Some bs' \<and>
            velocity (bs' ! i) = velocity (bodies ! i) +
              multiplyScalar exact
                (multiplyScalar exact
                   (\<Sum>j | j < length bodies \<and> j \<noteq> i \<and>
                          1 \<le> lengthSq exact (position (bodies ! j) - position (bodies ! i)).
                      attraction (bodies ! i) (bodies ! j))
                   (1 / mass (bodies ! i))) (dt exact))"
proof (intro conjI)
  show "forceLoop rd bodies i [0..<length bodies] (Vector3 0 0 0) =
           Some (foldl (addV rd) (Vector3 0 0 0)
                   (map (\<lambda>j. forceTerm rd (bodies ! i) (bodies ! j))
                      (filter (\<lambda>j. j \<noteq> i \<and>
                           1 \<le> lengthSq rd (subVectors rd (position (bodies ! j))
                                  (position (bodies ! i))))
                         [0..<length bodies])))"
    by (rule forceLoop_fold)
  from updatePhysics_body [OF assms(1), of rd] assms(2)
  obtain bs' d where "updatePhysics rd bodies = Some bs'"
    "bs' ! i = (recordPoint rd ((bodies ! i)\<lparr>velocity := newVelocity rd bodies i\<rparr>))
                 \<lparr>displayPositions := d\<rparr>"
    by blast
  then show "\<exists>bs' F. updatePhysics rd bodies = Some bs' \<and>
            forceLoop rd bodies i [0..<length bodies] (Vector3 0 0 0) = Some F \<and>
            velocity (bs' ! i) =
              addV rd (velocity (bodies ! i))
                (multiplyScalar rd (multiplyScalar rd F (rd (1 / mass (bodies ! i)))) (dt rd))"
    by (simp add: recordPoint_def forceLoop_total newVelocity_def)
  show "forceLoop exact bodies i [0..<length bodies] (Vector3 0 0 0) =
           Some (\<Sum>j | j < length bodies \<and> j \<noteq> i \<and>
                        1 \<le> lengthSq exact (position (bodies ! j) - position (bodies ! i)).
                   multiplyScalar exact
                     (multiplyScalar exact (position (bodies ! j) - position (bodies ! i))
                        (1 / lengthV exact (position (bodies ! j) - position (bodies ! i))))
                     (G exact * mass (bodies ! i) * mass (bodies ! j) /
                        lengthSq exact (position (bodies ! j) - position (bodies ! i))))"
    using totalForceOn_sum [of bodies i] by (simp add: forceLoop_total attraction_def)
  from updatePhysics_velocity [OF assms]
  show "\<exists>bs'. updatePhysics exact bodies = Some bs' \<and>
            velocity (bs' ! i) = velocity (bodies ! i) +
              multiplyScalar exact
                (multiplyScalar exact
                   (\<Sum>j | j < length bodies \<and> j \<noteq> i \<and>
                          1 \<le> lengthSq exact (position (bodies ! j) - position (bodies ! i)).
                      attraction (bodies ! i) (bodies ! j))
                   (1 / mass (bodies ! i))) (dt exact)"
    by (simp add: newVelocity_exact totalForceOn_sum)
qed

theorem velocity_increment_witness:
  "bodies_ok threeBodies \<and> (2::nat) < length threeBodies \<and>
   (\<exists>bs'. updatePhysics exact threeBodies = Some bs' \<and>
      velocity (bs' ! 2) = velocity (threeBodies ! 2) +
        multiplyScalar exact
          (multiplyScalar exact
             (\<Sum>j | j < length threeBodies \<and> j \<noteq> 2 \<and>
                    1 \<le> lengthSq exact (position (threeBodies ! j) - position (threeBodies ! 2)).
                attraction (threeBodies ! 2) (threeBodies ! j))
             (1 / mass (threeBodies ! 2))) (dt exact))"
proof -
  have i: "(2::nat) < length threeBodies" by (simp add: threeBodies_def)
  from velocity_increment [OF threeBodies_ok i] threeBodies_ok i show ?thesis by blast
qed

section \<open>Momentum\<close>

lemma vec_sel_plus:
  "vec_x (a + b) = vec_x a + vec_x b" "vec_y (a + b) = vec_y a + vec_y b"
  "vec_z (a + b) = vec_z a + vec_z b"
  by (simp_all add: plus_vec3_def)

lemma vec_sel_zero: "vec_x 0 = 0" "vec_y 0 = 0" "vec_z 0 = 0"
  by (simp_all add: zero_vec3_def)

lemma vec_sel_uminus: "vec_x (- a) = - vec_x a" "vec_y (- a) = - vec_y a" "vec_z (- a) = - vec_z a"
  by (simp_all add: uminus_vec3_def)

lemma vec_sel_minus:
  "vec_x (a - b) = vec_x a - vec_x b" "vec_y (a - b) = vec_y a - vec_y b"
  "vec_z (a - b) = vec_z a - vec_z b"
  by (simp_all add: minus_vec3_def)

lemma vec_sel_scale:
  "vec_x (multiplyScalar exact v s) = vec_x v * s" "vec_y (multiplyScalar exact v s) = vec_y v * s"
  "vec_z (multiplyScalar exact v s) = vec_z v * s"
  by (simp_all add: multiplyScalar_exact)

lemmas vec_sel = vec_sel_plus vec_sel_zero vec_sel_uminus vec_sel_minus vec_sel_scale

lemma multiplyScalar_add: "multiplyScalar exact (a + b) s = multiplyScalar exact a s + multiplyScalar exact b s"
  by (rule vec3.expand) (simp add: vec_sel algebra_simps)

lemma multiplyScalar_zero: "multiplyScalar exact 0 s = 0"
  by (rule vec3.expand) (simp add: vec_sel)

lemma multiplyScalar_sum: "multiplyScalar exact (sum f A) s = (\<Sum>i\<in>A. multiplyScalar exact (f i) s)"
  by (induction A rule: infinite_finite_induct)
    (simp_all add: multiplyScalar_zero multiplyScalar_add)

lemma lengthSq_swap: "lengthSq exact (a - b) = lengthSq exact (b - a)"
  by (simp add: lengthSq_exact vec_sel algebra_simps)

lemma opposite_terms:
  fixes p q r g m1 m2 d :: real
  shows "(p - q) * r * (g * m1 * m2 / d) = - ((q - p) * r * (g * m2 * m1 / d))"
proof -
  have "g * m1 * m2 / d = g * m2 * m1 / d" by (simp add: mult.commute mult.left_commute)
  moreover have "(p - q) * r * c = - ((q - p) * r * c)" for c
    by (simp add: algebra_simps)
  ultimately show ?thesis by simp
qed

lemma attraction_swap: "attraction a b = - attraction b a"
proof -
  have l: "lengthV exact (position b - position a) = lengthV exact (position a - position b)"
    by (simp add: lengthV_sqrt lengthSq_swap [of "position b"])
  show ?thesis
    unfolding attraction_def
    by (rule vec3.expand)
      (simp only: vec_sel l lengthSq_swap [of "position b"], intro conjI opposite_terms)
qed

lemma pairForce_swap: "pairForce a b = - pairForce b a"
  using attraction_swap [of a b] by (simp add: pairForce_def lengthSq_swap [of "position b"])

lemma vec_self_negative:
  fixes a :: vec3
  assumes "a = - a"
  shows "a = 0"
proof (rule vec3.expand)
  from assms have "vec_x a = - vec_x a" "vec_y a = - vec_y a" "vec_z a = - vec_z a"
    by (metis vec_sel_uminus(1), metis vec_sel_uminus(2), metis vec_sel_uminus(3))
  then show "vec_x a = vec_x 0 \<and> vec_y a = vec_y 0 \<and> vec_z a = vec_z 0"
    by (simp add: vec_sel_zero)
qed

lemma forces_cancel: "(\<Sum>i = 0..<length bodies. totalForceOn exact bodies i) = 0"
proof -
  let ?n = "length bodies"
  let ?g = "\<lambda>i j. if i = j then 0 else pairForce (bodies ! i) (bodies ! j)"
  have anti: "?g j i = - ?g i j" for i j
    using pairForce_swap [of "bodies ! j" "bodies ! i"] by simp
  have "(\<Sum>i = 0..<?n. totalForceOn exact bodies i) = (\<Sum>i = 0..<?n. \<Sum>j = 0..<?n. ?g i j)"
    by (simp add: totalForceOn_exact interv_sum_list_conv_sum_set_nat)
  also have "\<dots> = (\<Sum>j = 0..<?n. \<Sum>i = 0..<?n. ?g i j)"
    by (rule sum.swap)
  also have "\<dots> = (\<Sum>j = 0..<?n. \<Sum>i = 0..<?n. - ?g j i)"
    by (intro sum.cong refl) (simp only: anti [symmetric])
  also have "\<dots> = - (\<Sum>j = 0..<?n. \<Sum>i = 0..<?n. ?g j i)"
    by (simp only: sum_negf)
  also have "(\<Sum>j = 0..<?n. \<Sum>i = 0..<?n. ?g j i) = (\<Sum>i = 0..<?n. totalForceOn exact bodies i)"
    by (simp add: totalForceOn_exact interv_sum_list_conv_sum_set_nat)
  finally show ?thesis by (rule vec_self_negative)
qed

lemma momentum_nth:
  "momentum bs = (\<Sum>i = 0..<length bs. multiplyScalar exact (velocity (bs ! i)) (mass (bs ! i)))"
proof -
  have "map (\<lambda>b. multiplyScalar exact (velocity b) (mass b)) bs =
        map (\<lambda>i. multiplyScalar exact (velocity (bs ! i)) (mass (bs ! i))) [0..<length bs]"
    by (rule nth_equalityI) simp_all
  then show ?thesis
    by (simp only: momentum_def interv_sum_list_conv_sum_set_nat) simp
qed

lemma momentum_kept:
  assumes "bodies_ok bs" and "length bs' = length bs"
    and "\<forall>i<length bs. velocity (bs' ! i) = newVelocity exact bs i \<and> mass (bs' ! i) = mass (bs ! i)"
  shows "momentum bs' = momentum bs"
proof -
  let ?n = "length bs"
  have tm: "multiplyScalar exact (velocity (bs' ! i)) (mass (bs' ! i)) =
        multiplyScalar exact (velocity (bs ! i)) (mass (bs ! i)) + multiplyScalar exact (totalForceOn exact bs i) (dt exact)"
    if "i \<in> {0..<?n}" for i
  proof -
    from that assms(1) have m: "mass (bs ! i) \<noteq> 0" by (simp add: bodies_ok_def)
    from that assms(3) have "velocity (bs' ! i) = newVelocity exact bs i" "mass (bs' ! i) = mass (bs ! i)"
      by simp_all
    then show ?thesis
      using m by (intro vec3.expand) (simp add: newVelocity_exact vec_sel field_simps)
  qed
  have "momentum bs' = (\<Sum>i = 0..<?n. multiplyScalar exact (velocity (bs' ! i)) (mass (bs' ! i)))"
    by (simp add: momentum_nth assms(2))
  also have "\<dots> = (\<Sum>i = 0..<?n. multiplyScalar exact (velocity (bs ! i)) (mass (bs ! i)) +
                         multiplyScalar exact (totalForceOn exact bs i) (dt exact))"
    by (rule sum.cong [OF refl tm])
  also have "\<dots> = momentum bs + multiplyScalar exact (\<Sum>i = 0..<?n. totalForceOn exact bs i) (dt exact)"
    by (simp add: sum.distrib momentum_nth multiplyScalar_sum)
  finally show ?thesis by (simp add: forces_cancel multiplyScalar_zero)
qed

text \<open>
  Claim C9. In exact arithmetic the pairwise forces are equal and opposite, so the total
  momentum (the sum of mass times velocity) is the same after the velocity loop as before
  it, and the same after the whole step, whose second phase changes no velocity and no
  mass. Stated for three bodies with nonzero masses; the proof does not depend on their
  number.
\<close>

theorem momentum_conserved:
  assumes "bodies_ok bodies" and "length bodies = 3"
  shows "\<exists>bodies1 bodies2.
           velocityLoop exact [0..<length bodies] bodies = Some bodies1 \<and>
           momentum bodies1 = momentum bodies \<and>
           updatePhysics exact bodies = Some bodies2 \<and>
           momentum bodies2 = momentum bodies"
proof -
  obtain bs1 where v: "velocityLoop exact [0..<length bodies] bodies = Some bs1"
    and len1: "length bs1 = length bodies"
    and each1: "\<And>k. k < length bodies \<Longrightarrow> bs1 ! k = (bodies ! k)\<lparr>velocity := newVelocity exact bodies k\<rparr>"
    using velocityLoop_all [OF assms(1), of exact] by blast
  have m1: "momentum bs1 = momentum bodies"
    using assms(1) len1 by (rule momentum_kept) (simp add: each1)
  obtain bs2 where u: "updatePhysics exact bodies = Some bs2" and len2: "length bs2 = length bodies"
    and each2: "\<And>k. k < length bodies \<Longrightarrow> \<exists>d.
        bs2 ! k = (recordPoint exact ((bodies ! k)\<lparr>velocity := newVelocity exact bodies k\<rparr>))\<lparr>displayPositions := d\<rparr>"
    using updatePhysics_body [OF assms(1), of exact] by blast
  have "velocity (bs2 ! k) = newVelocity exact bodies k \<and> mass (bs2 ! k) = mass (bodies ! k)"
    if "k < length bodies" for k
    using each2 [OF that] by (auto simp: recordPoint_def)
  with assms(1) len2 have m2: "momentum bs2 = momentum bodies"
    by (intro momentum_kept) simp_all
  from v m1 u m2 show ?thesis by blast
qed

theorem momentum_conserved_witness:
  "bodies_ok threeBodies \<and> length threeBodies = 3 \<and>
   (\<exists>bodies2. updatePhysics exact threeBodies = Some bodies2 \<and> momentum bodies2 = Vector3 0 0 0)"
proof -
  have l: "length threeBodies = 3" by (simp add: threeBodies_def)
  have "momentum threeBodies = Vector3 0 0 0"
    by (simp add: momentum_def threeBodies_def restingBody_def multiplyScalar_exact
        plus_vec3_def zero_vec3_def)
  with momentum_conserved [OF threeBodies_ok l] threeBodies_ok l show ?thesis by auto
qed

section \<open>A pair closer than one unit\<close>

lemma forceLoop_removeAll:
  assumes "i = j \<or>
           lengthSq rd (subVectors rd (position (bodies ! j)) (position (bodies ! i))) < 1"
  shows "forceLoop rd bodies i js tf = forceLoop rd bodies i (removeAll j js) tf"
proof (induction js arbitrary: tf)
  case Nil
  show ?case by simp
next
  case (Cons k js)
  show ?case
  proof (cases "k = j")
    case True
    from assms have "forceLoop rd bodies i (j # js) tf = forceLoop rd bodies i js tf"
      by (auto simp: forceLoop_near)
    with True Cons.IH [of tf] show ?thesis by simp
  next
    case False
    then have r: "removeAll j (k # js) = k # removeAll j js" by simp
    show ?thesis
    proof (cases "i = k")
      case True
      then show ?thesis using Cons.IH [of tf] by (simp only: r forceLoop_self)
    next
      case ik: False
      show ?thesis
      proof (cases "lengthSq rd (subVectors rd (position (bodies ! k)) (position (bodies ! i))) < 1")
        case True
        then show ?thesis using Cons.IH [of tf] by (simp only: r forceLoop_near)
      next
        case far: False
        show ?thesis by (simp only: r forceLoop_far [OF ik far] Cons.IH)
      qed
    qed
  qed
qed

lemma updatePhysics_newVelocity:
  assumes "bodies_ok bodies" and "i < length bodies"
  shows "\<exists>bs'. updatePhysics rd bodies = Some bs' \<and> velocity (bs' ! i) = newVelocity rd bodies i"
proof -
  from updatePhysics_body [OF assms(1), of rd] assms(2)
  obtain bs' d where "updatePhysics rd bodies = Some bs'"
    "bs' ! i = (recordPoint rd ((bodies ! i)\<lparr>velocity := newVelocity rd bodies i\<rparr>))
                 \<lparr>displayPositions := d\<rparr>"
    by blast
  then show ?thesis by (simp add: recordPoint_def)
qed

lemma same_place_near:
  assumes "rd 0 = 0"
  shows "lengthSq rd (subVectors rd p p) = 0"
  using assms by (simp add: lengthSq_def subVectors_def js_sub_def js_mul_def js_add_def)

text \<open>
  Claim C4, as the code has it. When the squared distance of body \<open>j\<close> from body \<open>i\<close>, as
  the program computes it, is below 1, or the two bodies are at the same position (the
  computed squared distance is then 0, the rounding leaving 0 as it is, as binary64
  does), the iteration for \<open>j\<close> of the force loop of \<open>i\<close> leaves \<open>totalForce\<close> as it is and
  divides by nothing: the loop ends with the vector it ends with when \<open>j\<close> is left out.
  The step succeeds, and the velocity it gives \<open>i\<close> is the one computed from the force
  of the loop that leaves \<open>j\<close> out, a vector of numbers.
\<close>

theorem close_pair_skipped:
  assumes "bodies_ok bodies" and "i < length bodies" and "j < length bodies" and "i \<noteq> j"
    and "lengthSq rd (subVectors rd (position (bodies ! j)) (position (bodies ! i))) < 1 \<or>
         (position (bodies ! j) = position (bodies ! i) \<and> rd 0 = 0)"
  shows "(\<exists>F. forceLoop rd bodies i (j # js) totalForce = Some F \<and>
              forceLoop rd bodies i js totalForce = Some F) \<and>
         (\<exists>bs' F. updatePhysics rd bodies = Some bs' \<and>
            forceLoop rd bodies i (removeAll j [0..<length bodies]) (Vector3 0 0 0) = Some F \<and>
            velocity (bs' ! i) =
              addV rd (velocity (bodies ! i))
                (multiplyScalar rd (multiplyScalar rd F (rd (1 / mass (bodies ! i)))) (dt rd)))"
proof
  from assms(5)
  have near: "lengthSq rd (subVectors rd (position (bodies ! j)) (position (bodies ! i))) < 1"
    by (auto simp: same_place_near)
  then have "forceLoop rd bodies i (j # js) totalForce = forceLoop rd bodies i js totalForce"
    by (rule forceLoop_near)
  with forceLoop_defined [of rd bodies i js totalForce]
  show "\<exists>F. forceLoop rd bodies i (j # js) totalForce = Some F \<and>
              forceLoop rd bodies i js totalForce = Some F"
    by auto
  from near
  have "forceLoop rd bodies i (removeAll j [0..<length bodies]) (Vector3 0 0 0) =
        forceLoop rd bodies i [0..<length bodies] (Vector3 0 0 0)"
    by (intro forceLoop_removeAll [symmetric]) simp
  then have "forceLoop rd bodies i (removeAll j [0..<length bodies]) (Vector3 0 0 0) =
             Some (totalForceOn rd bodies i)"
    by (simp only: forceLoop_total)
  with updatePhysics_newVelocity [OF assms(1,2), of rd]
  show "\<exists>bs' F. updatePhysics rd bodies = Some bs' \<and>
            forceLoop rd bodies i (removeAll j [0..<length bodies]) (Vector3 0 0 0) = Some F \<and>
            velocity (bs' ! i) =
              addV rd (velocity (bodies ! i))
                (multiplyScalar rd (multiplyScalar rd F (rd (1 / mass (bodies ! i)))) (dt rd))"
    by (auto simp: newVelocity_def)
qed

theorem close_pair_skipped_witness:
  "bodies_ok coincident \<and> (0::nat) < length coincident \<and> (1::nat) < length coincident \<and>
   (0::nat) \<noteq> 1 \<and>
   position (coincident ! 1) = position (coincident ! 0) \<and> binary64 0 = 0 \<and>
   forceLoop binary64 coincident 0 [1] (Vector3 0 0 0) = Some (Vector3 0 0 0) \<and>
   (\<exists>bs'. updatePhysics binary64 coincident = Some bs' \<and> velocity (bs' ! 0) = Vector3 0 0 0)"
proof -
  have l: "(0::nat) < length coincident" "(1::nat) < length coincident" "(0::nat) \<noteq> 1"
    by (simp_all add: coincident_def)
  have p: "position (coincident ! 1) = position (coincident ! 0)"
    by (simp add: coincident_def restingBody_def)
  with binary64_zero
  have d: "lengthSq binary64
             (subVectors binary64 (position (coincident ! 1)) (position (coincident ! 0))) < 1 \<or>
           (position (coincident ! 1) = position (coincident ! 0) \<and> binary64 0 = 0)"
    by blast
  note t = close_pair_skipped [OF coincident_ok l d, of "[]" "Vector3 0 0 0"]
  from t have f: "forceLoop binary64 coincident 0 [1] (Vector3 0 0 0) = Some (Vector3 0 0 0)"
    by auto
  have "removeAll (1::nat) [0..<length coincident] = [0]"
    by (simp add: coincident_def upt_rec)
  with t obtain bs' where u: "updatePhysics binary64 coincident = Some bs'"
    and v: "velocity (bs' ! 0) =
              addV binary64 (velocity (coincident ! 0))
                (multiplyScalar binary64
                   (multiplyScalar binary64 (Vector3 0 0 0) (binary64 (1 / mass (coincident ! 0))))
                   (dt binary64))"
    by auto
  have "velocity (coincident ! 0) = Vector3 0 0 0"
    by (simp add: coincident_def restingBody_def)
  with v have "velocity (bs' ! 0) = Vector3 0 0 0"
    by (simp add: addV_def multiplyScalar_def js_add_def js_mul_def binary64_zero)
  with u f p l coincident_ok binary64_zero show ?thesis by blast
qed

section \<open>The display array after a step\<close>

text \<open>After the callback of \<^verbatim>\<open>forEach\<close> the display array of the body already holds what
  the trail reader returns: running the copy loop again changes nothing.\<close>

lemma display_holds_trail:
  assumes "trail_ok b" and "updateBody rd b = Some b'"
  shows "readTrail b' = those (map (pointAt (displayPositions b')) [0..<trailPointsCount b'])"
proof -
  let ?C = default_trail_length
  let ?r = "recordPoint rd b"
  from updateBody_ok [OF assms(1), of rd] assms(2)
  obtain d where b': "b' = ?r\<lparr>displayPositions := d\<rparr>"
    and c: "copyLoop ?r [0..<trailPointsCount ?r] (displayPositions ?r) = Some d"
    and len: "length d = ?C * 3"
    by auto
  have okr: "trail_ok ?r" using assms(1) by (rule trail_ok_recordPoint)
  with len have ok': "trail_ok b'" by (simp add: b' trail_ok_def)
  have same: "trailPoints b' = trailPoints ?r" "trailPointsCount b' = trailPointsCount ?r"
    "sourceIdx b' k = sourceIdx ?r k" "displayPositions b' = d" for k
    by (simp_all add: b' sourceIdx_def)
  from copyLoop_trail [OF okr] c
  have old: "\<And>n. n < ?C * 3 \<Longrightarrow> d ! n =
              (if n div 3 < trailPointsCount ?r
               then fround (trailPoints ?r ! (sourceIdx ?r (n div 3) * 3 + n mod 3))
               else displayPositions ?r ! n)"
    by auto
  from copyLoop_trail [OF ok']
  obtain d' where c': "copyLoop b' [0..<trailPointsCount b'] (displayPositions b') = Some d'"
    and len': "length d' = ?C * 3"
    and new: "\<And>n. n < ?C * 3 \<Longrightarrow> d' ! n =
              (if n div 3 < trailPointsCount ?r
               then fround (trailPoints ?r ! (sourceIdx ?r (n div 3) * 3 + n mod 3))
               else d ! n)"
    unfolding same by blast
  have "d' = d"
    using len len' by (intro nth_equalityI) (simp_all add: old new)
  with c' show ?thesis by (simp add: readTrail_def same)
qed

section \<open>Bodies that share a position\<close>

lemma forceLoop_same_place:
  assumes "rd 0 = 0" and "allAt p v bs" and "i < length bs" and "\<forall>j\<in>set js. j < length bs"
  shows "forceLoop rd bs i js tf = Some tf"
  using assms(4)
proof (induction js)
  case Nil
  show ?case by simp
next
  case (Cons j js)
  from Cons.prems assms(2,3) have "position (bs ! j) = p" "position (bs ! i) = p"
    by (simp_all add: allAt_def)
  with assms(1)
  have "lengthSq rd (subVectors rd (position (bs ! j)) (position (bs ! i))) < 1"
    by (simp add: same_place_near)
  then have "forceLoop rd bs i (j # js) tf = forceLoop rd bs i js tf"
    by (rule forceLoop_near)
  with Cons show ?case by simp
qed

lemma same_place_step:
  assumes "rd 0 = 0" and "bodies_ok bs" and "allAt p v bs"
    and "rd (vec_x v) = vec_x v" and "rd (vec_y v) = vec_y v" and "rd (vec_z v) = vec_z v"
  shows "\<exists>bs'. updatePhysics rd bs = Some bs' \<and> length bs' = length bs \<and> bodies_ok bs' \<and>
           allAt (addV rd p (multiplyScalar rd v (dt rd))) v bs'"
proof -
  obtain bs' where u: "updatePhysics rd bs = Some bs'" and len: "length bs' = length bs"
    and each: "\<And>i. i < length bs \<Longrightarrow> \<exists>d. length d = default_trail_length * 3 \<and>
              bs' ! i = (recordPoint rd ((bs ! i)\<lparr>velocity := newVelocity rd bs i\<rparr>))
                          \<lparr>displayPositions := d\<rparr>"
    using updatePhysics_body [OF assms(2), of rd] by blast
  have nv: "newVelocity rd bs i = v" if i: "i < length bs" for i
  proof -
    have "forceLoop rd bs i [0..<length bs] (Vector3 0 0 0) = Some (Vector3 0 0 0)"
      using assms(1,3) i by (intro forceLoop_same_place) simp_all
    then have "totalForceOn rd bs i = Vector3 0 0 0"
      by (simp add: totalForceOn_def)
    moreover from assms(3) i have "velocity (bs ! i) = v" by (simp add: allAt_def)
    ultimately show ?thesis
      using assms(1,4,5,6)
      by (simp add: newVelocity_def addV_def multiplyScalar_def js_add_def js_mul_def)
  qed
  have props: "mass (bs' ! i) \<noteq> 0 \<and> trail_ok (bs' ! i) \<and>
               position (bs' ! i) = addV rd p (multiplyScalar rd v (dt rd)) \<and>
               velocity (bs' ! i) = v" if i: "i < length bs" for i
  proof -
    from each [OF i] obtain d where d: "length d = default_trail_length * 3"
      "bs' ! i = (recordPoint rd ((bs ! i)\<lparr>velocity := newVelocity rd bs i\<rparr>))
                   \<lparr>displayPositions := d\<rparr>"
      by blast
    from bodies_ok_nth [OF assms(2) i] have m: "mass (bs ! i) \<noteq> 0" and t: "trail_ok (bs ! i)"
      by simp_all
    from t have "trail_ok ((bs ! i)\<lparr>velocity := newVelocity rd bs i\<rparr>)"
      by (simp add: trail_ok_def)
    then have "trail_ok (recordPoint rd ((bs ! i)\<lparr>velocity := newVelocity rd bs i\<rparr>))"
      by (rule trail_ok_recordPoint)
    with d have "trail_ok (bs' ! i)" by (simp add: trail_ok_def)
    moreover from assms(3) i have "position (bs ! i) = p" by (simp add: allAt_def)
    ultimately show ?thesis using d(2) m nv [OF i] by (simp add: recordPoint_def)
  qed
  have "bodies_ok bs'"
    unfolding bodies_ok_def
  proof
    fix b assume "b \<in> set bs'"
    with len obtain i where "i < length bs" "b = bs' ! i" by (auto simp: in_set_conv_nth)
    with props [of i] show "mass b \<noteq> 0 \<and> trail_ok b" by simp
  qed
  moreover have "allAt (addV rd p (multiplyScalar rd v (dt rd))) v bs'"
    unfolding allAt_def
  proof
    fix b assume "b \<in> set bs'"
    with len obtain i where "i < length bs" "b = bs' ! i" by (auto simp: in_set_conv_nth)
    with props [of i]
    show "position b = addV rd p (multiplyScalar rd v (dt rd)) \<and> velocity b = v" by simp
  qed
  ultimately show ?thesis using u len by blast
qed

lemma js_or_Num: "x \<noteq> 0 \<Longrightarrow> js_or (Num x) f k = (x, k)"
  by (simp add: js_or_def)

lemma createBody_given:
  assumes "b_posX (ctl i) = Num px" and "px \<noteq> 0" and "b_posY (ctl i) = Num py" and "py \<noteq> 0"
    and "b_posZ (ctl i) = Num pz" and "pz \<noteq> 0"
    and "b_velX (ctl i) = Num vx" and "vx \<noteq> 0" and "b_velY (ctl i) = Num vy" and "vy \<noteq> 0"
    and "b_velZ (ctl i) = Num vz" and "vz \<noteq> 0"
  shows "position (fst (createBody rd ctl rnd i k)) = Vector3 px py pz"
    and "velocity (fst (createBody rd ctl rnd i k)) = Vector3 vx vy vz"
  using assms by (simp_all add: createBody_def Let_def split_beta js_or_Num)

lemma step_of_body:
  assumes "bodies_ok bs"
  shows "\<exists>bs'. updatePhysics rd bs = Some bs' \<and> length bs' = length bs \<and>
           (\<forall>i<length bs. velocity (bs' ! i) = newVelocity rd bs i \<and>
              position (bs' ! i) =
                addV rd (position (bs ! i)) (multiplyScalar rd (newVelocity rd bs i) (dt rd)))"
proof -
  from updatePhysics_body [OF assms, of rd]
  obtain bs' where u: "updatePhysics rd bs = Some bs'" "length bs' = length bs"
    and each: "\<And>i. i < length bs \<Longrightarrow> \<exists>d.
              bs' ! i = (recordPoint rd ((bs ! i)\<lparr>velocity := newVelocity rd bs i\<rparr>))
                          \<lparr>displayPositions := d\<rparr>"
    by blast
  have "velocity (bs' ! i) = newVelocity rd bs i \<and>
        position (bs' ! i) =
          addV rd (position (bs ! i)) (multiplyScalar rd (newVelocity rd bs i) (dt rd))"
    if "i < length bs" for i
    using each [OF that] by (auto simp: recordPoint_def)
  with u show ?thesis by blast
qed

text \<open>One iteration of the inner loop for a pair that is not skipped, from the values of
  its intermediate results.\<close>

lemma forceLoop_far_value:
  assumes "i \<noteq> j"
    and "subVectors rd (position (bodies ! j)) (position (bodies ! i)) = d"
    and "lengthSq rd d = q" and "\<not> q < 1"
    and "lengthV rd d = l" and "l \<noteq> 0"
    and "multiplyScalar rd (multiplyScalar rd d (rd (1 / l)))
           (rd (js_mul rd (js_mul rd (G rd) (mass (bodies ! i))) (mass (bodies ! j)) / q)) = f"
  shows "forceLoop rd bodies i (j # js) tf = forceLoop rd bodies i js (addV rd tf f)"
proof -
  from assms(2,3,4)
  have far: "\<not> lengthSq rd (subVectors rd (position (bodies ! j)) (position (bodies ! i))) < 1"
    by simp
  show ?thesis
    by (simp only: forceLoop_far [OF assms(1) far] assms(2,3,5) if_not_P [OF assms(6)] assms(7))
qed

section \<open>Roundings of the scenarios\<close>

text \<open>The single operations of the concrete runs below, each the exact result rounded to
  binary64 (or to binary32 by \<open>fround\<close>), computed by \<open>round_to_eval\<close>.\<close>

lemma two_body_eval_1: "js_sub binary64 50 (- 50) = 100"
  unfolding js_sub_def binary64_def
  by (rule round_to_eval [where a = 0 and b = 46 and n = "7036874417766400", THEN trans])
    (simp_all add: rne_def)

lemma two_body_eval_2: "js_sub binary64 0 0 = 0"
  by (simp add: js_sub_def binary64_zero)

lemma two_body_eval_3: "js_mul binary64 100 100 = 10000"
  unfolding js_mul_def binary64_def
  by (rule round_to_eval [where a = 0 and b = 39 and n = "5497558138880000", THEN trans])
    (simp_all add: rne_def)

lemma two_body_eval_4: "js_mul binary64 0 0 = 0"
  by (simp add: js_mul_def binary64_zero)

lemma two_body_eval_5: "js_add binary64 10000 0 = 10000"
  unfolding js_add_def binary64_def
  by (rule round_to_eval [where a = 0 and b = 39 and n = "5497558138880000", THEN trans])
    (simp_all add: rne_def)

lemma two_body_eval_6: "js_sqrt binary64 10000 = 100"
proof -
  have "sqrt 10000 = (100::real)"
    by (rule real_sqrt_unique) simp_all
  then show ?thesis
    unfolding js_sqrt_def binary64_def
    by (simp only:) (rule round_to_eval [where a = 0 and b = 46 and n = "7036874417766400", THEN trans],
      simp_all add: rne_def)
qed

lemma two_body_eval_7: "binary64 (1 / 100) = (5764607523034235 / 576460752303423488)"
  unfolding binary64_def
  by (rule round_to_eval [where a = 0 and b = 59 and n = "5764607523034235", THEN trans])
    (simp_all add: rne_def)

lemma two_body_eval_8: "G binary64 = (2758454771764429 / 281474976710656)"
  unfolding G_def binary64_def
  by (rule round_to_eval [where a = 0 and b = 49 and n = "5516909543528858", THEN trans])
    (simp_all add: rne_def)

lemma two_body_eval_9: "js_mul binary64 (2758454771764429 / 281474976710656) 300 = 2940"
  unfolding js_mul_def binary64_def
  by (rule round_to_eval [where a = 0 and b = 41 and n = "6465128371322880", THEN trans])
    (simp_all add: rne_def)

lemma two_body_eval_10: "js_mul binary64 2940 300 = 882000"
  unfolding js_mul_def binary64_def
  by (rule round_to_eval [where a = 0 and b = 33 and n = "7576322310144000", THEN trans])
    (simp_all add: rne_def)

lemma two_body_eval_11: "binary64 (882000 / 10000) = (6206523236469965 / 70368744177664)"
  unfolding binary64_def
  by (rule round_to_eval [where a = 0 and b = 46 and n = "6206523236469965", THEN trans])
    (simp_all add: rne_def)

lemma two_body_eval_12: "js_mul binary64 100 (5764607523034235 / 576460752303423488) = 1"
  unfolding js_mul_def binary64_def
  by (rule round_to_eval [where a = 0 and b = 52 and n = "4503599627370496", THEN trans])
    (simp_all add: rne_def)

lemma two_body_eval_13: "js_mul binary64 0 (5764607523034235 / 576460752303423488) = 0"
  by (simp add: js_mul_def binary64_zero)

lemma two_body_eval_14: "js_mul binary64 1 (6206523236469965 / 70368744177664) = (6206523236469965 / 70368744177664)"
  unfolding js_mul_def binary64_def
  by (rule round_to_eval [where a = 0 and b = 46 and n = "6206523236469965", THEN trans])
    (simp_all add: rne_def)

lemma two_body_eval_15: "js_mul binary64 0 (6206523236469965 / 70368744177664) = 0"
  by (simp add: js_mul_def binary64_zero)

lemma two_body_eval_16: "js_add binary64 0 (6206523236469965 / 70368744177664) = (6206523236469965 / 70368744177664)"
  unfolding js_add_def binary64_def
  by (rule round_to_eval [where a = 0 and b = 46 and n = "6206523236469965", THEN trans])
    (simp_all add: rne_def)

lemma two_body_eval_17: "js_add binary64 0 0 = 0"
  by (simp add: js_add_def binary64_zero)

lemma two_body_eval_18: "js_sub binary64 (- 50) 50 = (- 100)"
  unfolding js_sub_def binary64_def
  by (rule round_to_eval [where a = 0 and b = 46 and n = "- 7036874417766400", THEN trans])
    (simp_all add: rne_def)

lemma two_body_eval_19: "js_mul binary64 (- 100) (- 100) = 10000"
  unfolding js_mul_def binary64_def
  by (rule round_to_eval [where a = 0 and b = 39 and n = "5497558138880000", THEN trans])
    (simp_all add: rne_def)

lemma two_body_eval_20: "js_mul binary64 (- 100) (5764607523034235 / 576460752303423488) = (- 1)"
  unfolding js_mul_def binary64_def
  by (rule round_to_eval [where a = 0 and b = 52 and n = "- 4503599627370496", THEN trans])
    (simp_all add: rne_def)

lemma two_body_eval_21: "js_mul binary64 (- 1) (6206523236469965 / 70368744177664) = (- (6206523236469965 / 70368744177664))"
  unfolding js_mul_def binary64_def
  by (rule round_to_eval [where a = 0 and b = 46 and n = "- 6206523236469965", THEN trans])
    (simp_all add: rne_def)

lemma two_body_eval_22: "js_add binary64 0 (- (6206523236469965 / 70368744177664)) = (- (6206523236469965 / 70368744177664))"
  unfolding js_add_def binary64_def
  by (rule round_to_eval [where a = 0 and b = 46 and n = "- 6206523236469965", THEN trans])
    (simp_all add: rne_def)

lemma two_body_eval_23: "binary64 (1 / 300) = (7686143364045647 / 2305843009213693952)"
  unfolding binary64_def
  by (rule round_to_eval [where a = 0 and b = 61 and n = "7686143364045647", THEN trans])
    (simp_all add: rne_def)

lemma two_body_eval_24: "js_mul binary64 (6206523236469965 / 70368744177664) (7686143364045647 / 2305843009213693952) = (662029145223463 / 2251799813685248)"
  unfolding js_mul_def binary64_def
  by (rule round_to_eval [where a = 0 and b = 54 and n = "5296233161787704", THEN trans])
    (simp_all add: rne_def)

lemma two_body_eval_25: "js_mul binary64 0 (7686143364045647 / 2305843009213693952) = 0"
  by (simp add: js_mul_def binary64_zero)

lemma two_body_eval_26: "dt binary64 = (3602879701896397 / 36028797018963968)"
  unfolding dt_def binary64_def
  by (rule round_to_eval [where a = 0 and b = 56 and n = "7205759403792794", THEN trans])
    (simp_all add: rne_def)

lemma two_body_eval_27: "js_mul binary64 (662029145223463 / 2251799813685248) (3602879701896397 / 36028797018963968) = (8473973058860327 / 288230376151711744)"
  unfolding js_mul_def binary64_def
  by (rule round_to_eval [where a = 0 and b = 58 and n = "8473973058860327", THEN trans])
    (simp_all add: rne_def)

lemma two_body_eval_28: "js_mul binary64 0 (3602879701896397 / 36028797018963968) = 0"
  by (simp add: js_mul_def binary64_zero)

lemma two_body_eval_29: "js_add binary64 0 (8473973058860327 / 288230376151711744) = (8473973058860327 / 288230376151711744)"
  unfolding js_add_def binary64_def
  by (rule round_to_eval [where a = 0 and b = 58 and n = "8473973058860327", THEN trans])
    (simp_all add: rne_def)

lemma two_body_eval_30: "js_mul binary64 (- (6206523236469965 / 70368744177664)) (7686143364045647 / 2305843009213693952) = (- (662029145223463 / 2251799813685248))"
  unfolding js_mul_def binary64_def
  by (rule round_to_eval [where a = 0 and b = 54 and n = "- 5296233161787704", THEN trans])
    (simp_all add: rne_def)

lemma two_body_eval_31: "js_mul binary64 (- (662029145223463 / 2251799813685248)) (3602879701896397 / 36028797018963968) = (- (8473973058860327 / 288230376151711744))"
  unfolding js_mul_def binary64_def
  by (rule round_to_eval [where a = 0 and b = 58 and n = "- 8473973058860327", THEN trans])
    (simp_all add: rne_def)

lemma two_body_eval_32: "js_add binary64 0 (- (8473973058860327 / 288230376151711744)) = (- (8473973058860327 / 288230376151711744))"
  unfolding js_add_def binary64_def
  by (rule round_to_eval [where a = 0 and b = 58 and n = "- 8473973058860327", THEN trans])
    (simp_all add: rne_def)

lemma two_body_eval_33: "js_mul binary64 (8473973058860327 / 288230376151711744) (3602879701896397 / 36028797018963968) = (3389589223544131 / 1152921504606846976)"
  unfolding js_mul_def binary64_def
  by (rule round_to_eval [where a = 0 and b = 61 and n = "6779178447088262", THEN trans])
    (simp_all add: rne_def)

lemma two_body_eval_34: "js_add binary64 (- 50) (3389589223544131 / 1152921504606846976) = (- (7036460649550635 / 140737488355328))"
  unfolding js_add_def binary64_def
  by (rule round_to_eval [where a = 0 and b = 47 and n = "- 7036460649550635", THEN trans])
    (simp_all add: rne_def)

lemma two_body_eval_35: "js_mul binary64 (- (8473973058860327 / 288230376151711744)) (3602879701896397 / 36028797018963968) = (- (3389589223544131 / 1152921504606846976))"
  unfolding js_mul_def binary64_def
  by (rule round_to_eval [where a = 0 and b = 61 and n = "- 6779178447088262", THEN trans])
    (simp_all add: rne_def)

lemma two_body_eval_36: "js_add binary64 50 (- (3389589223544131 / 1152921504606846976)) = (7036460649550635 / 140737488355328)"
  unfolding js_add_def binary64_def
  by (rule round_to_eval [where a = 0 and b = 47 and n = "7036460649550635", THEN trans])
    (simp_all add: rne_def)

lemmas two_body_eval = two_body_eval_1 two_body_eval_2 two_body_eval_3 two_body_eval_4 two_body_eval_5 two_body_eval_6 two_body_eval_7 two_body_eval_8 two_body_eval_9 two_body_eval_10 two_body_eval_11 two_body_eval_12 two_body_eval_13 two_body_eval_14 two_body_eval_15 two_body_eval_16 two_body_eval_17 two_body_eval_18 two_body_eval_19 two_body_eval_20 two_body_eval_21 two_body_eval_22 two_body_eval_23 two_body_eval_24 two_body_eval_25 two_body_eval_26 two_body_eval_27 two_body_eval_28 two_body_eval_29 two_body_eval_30 two_body_eval_31 two_body_eval_32 two_body_eval_33 two_body_eval_34 two_body_eval_35 two_body_eval_36

lemma near_eval_1: "js_sub binary64 (4503599627370495 / 9007199254740992) (- (1 / 2)) = (9007199254740991 / 9007199254740992)"
  unfolding js_sub_def binary64_def
  by (rule round_to_eval [where a = 0 and b = 53 and n = "9007199254740991", THEN trans])
    (simp_all add: rne_def)

lemma near_eval_2: "js_sub binary64 (1 / 67108864) (1 / 536870912) = (7 / 536870912)"
  unfolding js_sub_def binary64_def
  by (rule round_to_eval [where a = 0 and b = 79 and n = "7881299347898368", THEN trans])
    (simp_all add: rne_def)

lemma near_eval_3: "js_sub binary64 1 1 = 0"
  by (simp add: js_sub_def binary64_zero)

lemma near_eval_4: "js_mul binary64 (9007199254740991 / 9007199254740992) (9007199254740991 / 9007199254740992) = (4503599627370495 / 4503599627370496)"
  unfolding js_mul_def binary64_def
  by (rule round_to_eval [where a = 0 and b = 53 and n = "9007199254740990", THEN trans])
    (simp_all add: rne_def)

lemma near_eval_5: "js_mul binary64 (7 / 536870912) (7 / 536870912) = (49 / 288230376151711744)"
  unfolding js_mul_def binary64_def
  by (rule round_to_eval [where a = 0 and b = 105 and n = "6896136929411072", THEN trans])
    (simp_all add: rne_def)

lemma near_eval_6: "js_add binary64 (4503599627370495 / 4503599627370496) (49 / 288230376151711744) = 1"
  unfolding js_add_def binary64_def
  by (rule round_to_eval [where a = 0 and b = 53 and n = "9007199254740992", THEN trans])
    (simp_all add: rne_def)

lemma near_eval_7: "js_mul binary64 0 0 = 0"
  by (simp add: js_mul_def binary64_zero)

lemma near_eval_8: "js_add binary64 1 0 = 1"
  unfolding js_add_def binary64_def
  by (rule round_to_eval [where a = 0 and b = 52 and n = "4503599627370496", THEN trans])
    (simp_all add: rne_def)

lemma near_eval_9: "js_sqrt binary64 1 = 1"
proof -
  have "sqrt 1 = (1::real)"
    by (rule real_sqrt_unique) simp_all
  then show ?thesis
    unfolding js_sqrt_def binary64_def
    by (simp only:) (rule round_to_eval [where a = 0 and b = 52 and n = "4503599627370496", THEN trans],
      simp_all add: rne_def)
qed

lemma near_eval_10: "binary64 (1 / 1) = 1"
  unfolding binary64_def
  by (rule round_to_eval [where a = 0 and b = 52 and n = "4503599627370496", THEN trans])
    (simp_all add: rne_def)

lemma near_eval_11: "G binary64 = (2758454771764429 / 281474976710656)"
  unfolding G_def binary64_def
  by (rule round_to_eval [where a = 0 and b = 49 and n = "5516909543528858", THEN trans])
    (simp_all add: rne_def)

lemma near_eval_12: "js_mul binary64 (2758454771764429 / 281474976710656) 300 = 2940"
  unfolding js_mul_def binary64_def
  by (rule round_to_eval [where a = 0 and b = 41 and n = "6465128371322880", THEN trans])
    (simp_all add: rne_def)

lemma near_eval_13: "js_mul binary64 2940 300 = 882000"
  unfolding js_mul_def binary64_def
  by (rule round_to_eval [where a = 0 and b = 33 and n = "7576322310144000", THEN trans])
    (simp_all add: rne_def)

lemma near_eval_14: "binary64 (882000 / 1) = 882000"
  unfolding binary64_def
  by (rule round_to_eval [where a = 0 and b = 33 and n = "7576322310144000", THEN trans])
    (simp_all add: rne_def)

lemma near_eval_15: "js_mul binary64 (9007199254740991 / 9007199254740992) 1 = (9007199254740991 / 9007199254740992)"
  unfolding js_mul_def binary64_def
  by (rule round_to_eval [where a = 0 and b = 53 and n = "9007199254740991", THEN trans])
    (simp_all add: rne_def)

lemma near_eval_16: "js_mul binary64 (7 / 536870912) 1 = (7 / 536870912)"
  unfolding js_mul_def binary64_def
  by (rule round_to_eval [where a = 0 and b = 79 and n = "7881299347898368", THEN trans])
    (simp_all add: rne_def)

lemma near_eval_17: "js_mul binary64 0 1 = 0"
  by (simp add: js_mul_def binary64_zero)

lemma near_eval_18: "js_mul binary64 (9007199254740991 / 9007199254740992) 882000 = (7576322310143999 / 8589934592)"
  unfolding js_mul_def binary64_def
  by (rule round_to_eval [where a = 0 and b = 33 and n = "7576322310143999", THEN trans])
    (simp_all add: rne_def)

lemma near_eval_19: "js_mul binary64 (7 / 536870912) 882000 = (385875 / 33554432)"
  unfolding js_mul_def binary64_def
  by (rule round_to_eval [where a = 0 and b = 59 and n = "6629282021376000", THEN trans])
    (simp_all add: rne_def)

lemma near_eval_20: "js_mul binary64 0 882000 = 0"
  by (simp add: js_mul_def binary64_zero)

lemma near_eval_21: "js_add binary64 0 (7576322310143999 / 8589934592) = (7576322310143999 / 8589934592)"
  unfolding js_add_def binary64_def
  by (rule round_to_eval [where a = 0 and b = 33 and n = "7576322310143999", THEN trans])
    (simp_all add: rne_def)

lemma near_eval_22: "js_add binary64 0 (385875 / 33554432) = (385875 / 33554432)"
  unfolding js_add_def binary64_def
  by (rule round_to_eval [where a = 0 and b = 59 and n = "6629282021376000", THEN trans])
    (simp_all add: rne_def)

lemma near_eval_23: "js_add binary64 0 0 = 0"
  by (simp add: js_add_def binary64_zero)

lemma near_eval_24: "binary64 (1 / 300) = (7686143364045647 / 2305843009213693952)"
  unfolding binary64_def
  by (rule round_to_eval [where a = 0 and b = 61 and n = "7686143364045647", THEN trans])
    (simp_all add: rne_def)

lemma near_eval_25: "js_mul binary64 (7576322310143999 / 8589934592) (7686143364045647 / 2305843009213693952) = 2940"
  unfolding js_mul_def binary64_def
  by (rule round_to_eval [where a = 0 and b = 41 and n = "6465128371322880", THEN trans])
    (simp_all add: rne_def)

lemma near_eval_26: "js_mul binary64 (385875 / 33554432) (7686143364045647 / 2305843009213693952) = (5145 / 134217728)"
  unfolding js_mul_def binary64_def
  by (rule round_to_eval [where a = 0 and b = 67 and n = "5656987324907520", THEN trans])
    (simp_all add: rne_def)

lemma near_eval_27: "js_mul binary64 0 (7686143364045647 / 2305843009213693952) = 0"
  by (simp add: js_mul_def binary64_zero)

lemma near_eval_28: "dt binary64 = (3602879701896397 / 36028797018963968)"
  unfolding dt_def binary64_def
  by (rule round_to_eval [where a = 0 and b = 56 and n = "7205759403792794", THEN trans])
    (simp_all add: rne_def)

lemma near_eval_29: "js_mul binary64 2940 (3602879701896397 / 36028797018963968) = 294"
  unfolding js_mul_def binary64_def
  by (rule round_to_eval [where a = 0 and b = 44 and n = "5172102697058304", THEN trans])
    (simp_all add: rne_def)

lemma near_eval_30: "js_mul binary64 (5145 / 134217728) (3602879701896397 / 36028797018963968) = (1029 / 268435456)"
  unfolding js_mul_def binary64_def
  by (rule round_to_eval [where a = 0 and b = 70 and n = "4525589859926016", THEN trans])
    (simp_all add: rne_def)

lemma near_eval_31: "js_mul binary64 0 (3602879701896397 / 36028797018963968) = 0"
  by (simp add: js_mul_def binary64_zero)

lemma near_eval_32: "js_add binary64 1 294 = 295"
  unfolding js_add_def binary64_def
  by (rule round_to_eval [where a = 0 and b = 44 and n = "5189694883102720", THEN trans])
    (simp_all add: rne_def)

lemma near_eval_33: "js_add binary64 1 (1029 / 268435456) = (268436485 / 268435456)"
  unfolding js_add_def binary64_def
  by (rule round_to_eval [where a = 0 and b = 52 and n = "4503616891125760", THEN trans])
    (simp_all add: rne_def)

lemmas near_eval = near_eval_1 near_eval_2 near_eval_3 near_eval_4 near_eval_5 near_eval_6 near_eval_7 near_eval_8 near_eval_9 near_eval_10 near_eval_11 near_eval_12 near_eval_13 near_eval_14 near_eval_15 near_eval_16 near_eval_17 near_eval_18 near_eval_19 near_eval_20 near_eval_21 near_eval_22 near_eval_23 near_eval_24 near_eval_25 near_eval_26 near_eval_27 near_eval_28 near_eval_29 near_eval_30 near_eval_31 near_eval_32 near_eval_33

lemma drift_eval_1: "dt binary64 = (3602879701896397 / 36028797018963968)"
  unfolding dt_def binary64_def
  by (rule round_to_eval [where a = 0 and b = 56 and n = "7205759403792794", THEN trans])
    (simp_all add: rne_def)

lemma drift_eval_2: "js_mul binary64 1 (3602879701896397 / 36028797018963968) = (3602879701896397 / 36028797018963968)"
  unfolding js_mul_def binary64_def
  by (rule round_to_eval [where a = 0 and b = 56 and n = "7205759403792794", THEN trans])
    (simp_all add: rne_def)

lemma drift_eval_3: "js_mul binary64 2 (3602879701896397 / 36028797018963968) = (3602879701896397 / 18014398509481984)"
  unfolding js_mul_def binary64_def
  by (rule round_to_eval [where a = 0 and b = 55 and n = "7205759403792794", THEN trans])
    (simp_all add: rne_def)

lemma drift_eval_4: "js_mul binary64 3 (3602879701896397 / 36028797018963968) = (1351079888211149 / 4503599627370496)"
  unfolding js_mul_def binary64_def
  by (rule round_to_eval [where a = 0 and b = 54 and n = "5404319552844596", THEN trans])
    (simp_all add: rne_def)

lemma drift_eval_5: "js_add binary64 10 (3602879701896397 / 36028797018963968) = (5685794529555251 / 562949953421312)"
  unfolding js_add_def binary64_def
  by (rule round_to_eval [where a = 0 and b = 49 and n = "5685794529555251", THEN trans])
    (simp_all add: rne_def)

lemma drift_eval_6: "js_add binary64 20 (3602879701896397 / 18014398509481984) = (5685794529555251 / 281474976710656)"
  unfolding js_add_def binary64_def
  by (rule round_to_eval [where a = 0 and b = 48 and n = "5685794529555251", THEN trans])
    (simp_all add: rne_def)

lemma drift_eval_7: "js_add binary64 30 (1351079888211149 / 4503599627370496) = (8528691794332877 / 281474976710656)"
  unfolding js_add_def binary64_def
  by (rule round_to_eval [where a = 0 and b = 48 and n = "8528691794332877", THEN trans])
    (simp_all add: rne_def)

lemma drift_eval_8: "js_add binary64 (5685794529555251 / 562949953421312) (3602879701896397 / 36028797018963968) = (2871044762448691 / 281474976710656)"
  unfolding js_add_def binary64_def
  by (rule round_to_eval [where a = 0 and b = 49 and n = "5742089524897382", THEN trans])
    (simp_all add: rne_def)

lemma drift_eval_9: "js_add binary64 (5685794529555251 / 281474976710656) (3602879701896397 / 18014398509481984) = (2871044762448691 / 140737488355328)"
  unfolding js_add_def binary64_def
  by (rule round_to_eval [where a = 0 and b = 48 and n = "5742089524897382", THEN trans])
    (simp_all add: rne_def)

lemma drift_eval_10: "js_add binary64 (8528691794332877 / 281474976710656) (1351079888211149 / 4503599627370496) = (4306567143673037 / 140737488355328)"
  unfolding js_add_def binary64_def
  by (rule round_to_eval [where a = 0 and b = 48 and n = "8613134287346074", THEN trans])
    (simp_all add: rne_def)

lemma drift_eval_11: "fround (5685794529555251 / 562949953421312) = (5295309 / 524288)"
  unfolding fround_def
  by (rule round_to_eval [where a = 0 and b = 20 and n = "10590618", THEN trans])
    (simp_all add: rne_def)

lemma drift_eval_12: "fround (5685794529555251 / 281474976710656) = (5295309 / 262144)"
  unfolding fround_def
  by (rule round_to_eval [where a = 0 and b = 19 and n = "10590618", THEN trans])
    (simp_all add: rne_def)

lemma drift_eval_13: "fround (8528691794332877 / 281474976710656) = (7942963 / 262144)"
  unfolding fround_def
  by (rule round_to_eval [where a = 0 and b = 19 and n = "15885926", THEN trans])
    (simp_all add: rne_def)

lemma drift_eval_14: "fround (2871044762448691 / 281474976710656) = (10695475 / 1048576)"
  unfolding fround_def
  by (rule round_to_eval [where a = 0 and b = 20 and n = "10695475", THEN trans])
    (simp_all add: rne_def)

lemma drift_eval_15: "fround (2871044762448691 / 140737488355328) = (10695475 / 524288)"
  unfolding fround_def
  by (rule round_to_eval [where a = 0 and b = 19 and n = "10695475", THEN trans])
    (simp_all add: rne_def)

lemma drift_eval_16: "fround (4306567143673037 / 140737488355328) = (16043213 / 524288)"
  unfolding fround_def
  by (rule round_to_eval [where a = 0 and b = 19 and n = "16043213", THEN trans])
    (simp_all add: rne_def)

lemmas drift_eval = drift_eval_1 drift_eval_2 drift_eval_3 drift_eval_4 drift_eval_5 drift_eval_6 drift_eval_7 drift_eval_8 drift_eval_9 drift_eval_10 drift_eval_11 drift_eval_12 drift_eval_13 drift_eval_14 drift_eval_15 drift_eval_16

section \<open>The two-body scenario\<close>

lemma twoBody_data:
  "position (twoBodyScenario ! 0) = Vector3 (- 50) 0 0"
  "position (twoBodyScenario ! 1) = Vector3 50 0 0"
  "velocity (twoBodyScenario ! 0) = Vector3 0 0 0"
  "velocity (twoBodyScenario ! 1) = Vector3 0 0 0"
  "mass (twoBodyScenario ! 0) = 300"
  "mass (twoBodyScenario ! 1) = 300"
  "[0..<length twoBodyScenario] = [0, 1]"
  by (simp_all add: twoBodyScenario_def restingBody_def upt_rec)

lemma twoBody_force_0:
  "totalForceOn binary64 twoBodyScenario 0 = Vector3 (6206523236469965 / 70368744177664) 0 0"
proof -
  have d: "subVectors binary64 (position (twoBodyScenario ! 1))
             (position (twoBodyScenario ! 0)) = Vector3 100 0 0"
    by (simp only: twoBody_data subVectors_def vec3.sel two_body_eval)
  have q: "lengthSq binary64 (Vector3 100 0 0) = 10000"
    by (simp only: lengthSq_def vec3.sel two_body_eval)
  have l: "lengthV binary64 (Vector3 100 0 0) = 100"
    by (simp only: lengthV_def vec3.sel two_body_eval)
  have f: "multiplyScalar binary64
             (multiplyScalar binary64 (Vector3 100 0 0) (binary64 (1 / 100)))
             (binary64
                (js_mul binary64 (js_mul binary64 (G binary64) (mass (twoBodyScenario ! 0)))
                   (mass (twoBodyScenario ! 1)) / 10000)) =
           Vector3 (6206523236469965 / 70368744177664) 0 0"
    by (simp only: twoBody_data multiplyScalar_def vec3.sel two_body_eval)
  have "forceLoop binary64 twoBodyScenario 0 [0, 1] (Vector3 0 0 0) =
        forceLoop binary64 twoBodyScenario 0 [1] (Vector3 0 0 0)"
    by (rule forceLoop_self)
  also have "\<dots> = forceLoop binary64 twoBodyScenario 0 []
                     (addV binary64 (Vector3 0 0 0)
                        (Vector3 (6206523236469965 / 70368744177664) 0 0))"
    by (rule forceLoop_far_value [OF _ d q _ l _ f]) simp_all
  also have "\<dots> = Some (Vector3 (6206523236469965 / 70368744177664) 0 0)"
    by (simp only: forceLoop.simps addV_def vec3.sel two_body_eval)
  finally show ?thesis
    by (simp only: totalForceOn_def twoBody_data option.sel)
qed

lemma twoBody_force_1:
  "totalForceOn binary64 twoBodyScenario 1 =
     Vector3 (- (6206523236469965 / 70368744177664)) 0 0"
proof -
  have d: "subVectors binary64 (position (twoBodyScenario ! 0))
             (position (twoBodyScenario ! 1)) = Vector3 (- 100) 0 0"
    by (simp only: twoBody_data subVectors_def vec3.sel two_body_eval)
  have q: "lengthSq binary64 (Vector3 (- 100) 0 0) = 10000"
    by (simp only: lengthSq_def vec3.sel two_body_eval)
  have l: "lengthV binary64 (Vector3 (- 100) 0 0) = 100"
    by (simp only: lengthV_def vec3.sel two_body_eval)
  have f: "multiplyScalar binary64
             (multiplyScalar binary64 (Vector3 (- 100) 0 0) (binary64 (1 / 100)))
             (binary64
                (js_mul binary64 (js_mul binary64 (G binary64) (mass (twoBodyScenario ! 1)))
                   (mass (twoBodyScenario ! 0)) / 10000)) =
           Vector3 (- (6206523236469965 / 70368744177664)) 0 0"
    by (simp only: twoBody_data multiplyScalar_def vec3.sel two_body_eval)
  have "forceLoop binary64 twoBodyScenario 1 [0, 1] (Vector3 0 0 0) =
        forceLoop binary64 twoBodyScenario 1 [1]
          (addV binary64 (Vector3 0 0 0)
             (Vector3 (- (6206523236469965 / 70368744177664)) 0 0))"
    by (rule forceLoop_far_value [OF _ d q _ l _ f]) simp_all
  also have "\<dots> = forceLoop binary64 twoBodyScenario 1 []
                     (addV binary64 (Vector3 0 0 0)
                        (Vector3 (- (6206523236469965 / 70368744177664)) 0 0))"
    by (rule forceLoop_self)
  also have "\<dots> = Some (Vector3 (- (6206523236469965 / 70368744177664)) 0 0)"
    by (simp only: forceLoop.simps addV_def vec3.sel two_body_eval)
  finally show ?thesis
    by (simp only: totalForceOn_def twoBody_data option.sel)
qed

lemma twoBody_velocity:
  "newVelocity binary64 twoBodyScenario 0 =
     Vector3 (8473973058860327 / 288230376151711744) 0 0"
  "newVelocity binary64 twoBodyScenario 1 =
     Vector3 (- (8473973058860327 / 288230376151711744)) 0 0"
  by (simp_all only: newVelocity_def twoBody_force_0 twoBody_force_1 twoBody_data
        multiplyScalar_def addV_def vec3.sel two_body_eval)

lemma twoBody_position:
  "addV binary64 (position (twoBodyScenario ! 0))
     (multiplyScalar binary64 (Vector3 (8473973058860327 / 288230376151711744) 0 0)
        (dt binary64)) =
   Vector3 (- (7036460649550635 / 140737488355328)) 0 0"
  "addV binary64 (position (twoBodyScenario ! 1))
     (multiplyScalar binary64 (Vector3 (- (8473973058860327 / 288230376151711744)) 0 0)
        (dt binary64)) =
   Vector3 (7036460649550635 / 140737488355328) 0 0"
  by (simp_all only: twoBody_data multiplyScalar_def addV_def vec3.sel two_body_eval)

lemma twoBody_step:
  "\<exists>bs'. updatePhysics binary64 twoBodyScenario = Some bs' \<and>
     velocity (bs' ! 0) = Vector3 (8473973058860327 / 288230376151711744) 0 0 \<and>
     velocity (bs' ! 1) = Vector3 (- (8473973058860327 / 288230376151711744)) 0 0 \<and>
     position (bs' ! 0) = Vector3 (- (7036460649550635 / 140737488355328)) 0 0 \<and>
     position (bs' ! 1) = Vector3 (7036460649550635 / 140737488355328) 0 0"
proof -
  from step_of_body [OF twoBodyScenario_ok, of binary64]
  obtain bs' where u: "updatePhysics binary64 twoBodyScenario = Some bs'"
    and each: "\<And>i. i < length twoBodyScenario \<Longrightarrow>
      velocity (bs' ! i) = newVelocity binary64 twoBodyScenario i \<and>
      position (bs' ! i) =
        addV binary64 (position (twoBodyScenario ! i))
          (multiplyScalar binary64 (newVelocity binary64 twoBodyScenario i) (dt binary64))"
    by blast
  have l: "(0::nat) < length twoBodyScenario" "(1::nat) < length twoBodyScenario"
    by (simp_all add: twoBodyScenario_def)
  from each [OF l(1)] each [OF l(2)] u show ?thesis
    by (simp only: twoBody_velocity twoBody_position) blast
qed

text \<open>
  Claim C8 says that the two positions are unchanged by the single step. They are not:
  \<^verbatim>\<open>updatePhysics\<close> moves each body by its new velocity times \<open>dt\<close> in the same call, and
  the bodies end at \<open>x = -49.99706\<close> and \<open>x = 49.99706\<close> (the binary64 numbers nearest to
  these), each about 0.00294 closer to the other.
\<close>

theorem two_body_positions_move:
  "\<exists>bs'. updatePhysics binary64 twoBodyScenario = Some bs' \<and>
     position (bs' ! 0) = Vector3 (- (7036460649550635 / 140737488355328)) 0 0 \<and>
     position (bs' ! 1) = Vector3 (7036460649550635 / 140737488355328) 0 0 \<and>
     position (bs' ! 0) \<noteq> position (twoBodyScenario ! 0) \<and>
     position (bs' ! 1) \<noteq> position (twoBodyScenario ! 1)"
proof -
  from twoBody_step obtain bs' where "updatePhysics binary64 twoBodyScenario = Some bs'"
    and p: "position (bs' ! 0) = Vector3 (- (7036460649550635 / 140737488355328)) 0 0"
      "position (bs' ! 1) = Vector3 (7036460649550635 / 140737488355328) 0 0"
    by blast
  moreover have "position (bs' ! 0) \<noteq> position (twoBodyScenario ! 0)"
    "position (bs' ! 1) \<noteq> position (twoBodyScenario ! 1)"
    by (simp_all only: p twoBody_data) simp_all
  ultimately show ?thesis by blast
qed

text \<open>
  Claim C8, amended. For masses 300 and 300 at \<open>(-50, 0, 0)\<close> and \<open>(50, 0, 0)\<close> with zero
  velocities, one call of \<^verbatim>\<open>updatePhysics\<close> in the arithmetic of the program succeeds; the
  new velocities are \<open>(v, 0, 0)\<close> and \<open>(-v, 0, 0)\<close> for one \<open>v > 0\<close>: along the x-axis, toward
  each other, of equal magnitude. Each position has moved by the new velocity times \<open>dt\<close>,
  by the same distance \<open>e > 0\<close> toward the other body, to \<open>(-50 + e, 0, 0)\<close> and
  \<open>(50 - e, 0, 0)\<close>.
\<close>

theorem two_body_scenario_step:
  "\<exists>bs' v e. updatePhysics binary64 twoBodyScenario = Some bs' \<and> 0 < v \<and> 0 < e \<and>
     velocity (bs' ! 0) = Vector3 v 0 0 \<and> velocity (bs' ! 1) = Vector3 (- v) 0 0 \<and>
     position (bs' ! 0) =
       addV binary64 (position (twoBodyScenario ! 0))
         (multiplyScalar binary64 (velocity (bs' ! 0)) (dt binary64)) \<and>
     position (bs' ! 1) =
       addV binary64 (position (twoBodyScenario ! 1))
         (multiplyScalar binary64 (velocity (bs' ! 1)) (dt binary64)) \<and>
     position (bs' ! 0) = Vector3 (- 50 + e) 0 0 \<and>
     position (bs' ! 1) = Vector3 (50 - e) 0 0"
proof -
  from twoBody_step obtain bs' where u: "updatePhysics binary64 twoBodyScenario = Some bs'"
    and v: "velocity (bs' ! 0) = Vector3 (8473973058860327 / 288230376151711744) 0 0"
      "velocity (bs' ! 1) = Vector3 (- (8473973058860327 / 288230376151711744)) 0 0"
    and p: "position (bs' ! 0) = Vector3 (- (7036460649550635 / 140737488355328)) 0 0"
      "position (bs' ! 1) = Vector3 (7036460649550635 / 140737488355328) 0 0"
    by blast
  let ?v = "8473973058860327 / 288230376151711744 :: real"
  let ?e = "50 - 7036460649550635 / 140737488355328 :: real"
  have "0 < ?v" "0 < ?e" by simp_all
  moreover have "position (bs' ! 0) = Vector3 (- 50 + ?e) 0 0"
    "position (bs' ! 1) = Vector3 (50 - ?e) 0 0"
    by (simp_all only: p) simp_all
  moreover have "position (bs' ! 0) =
       addV binary64 (position (twoBodyScenario ! 0))
         (multiplyScalar binary64 (velocity (bs' ! 0)) (dt binary64))"
    "position (bs' ! 1) =
       addV binary64 (position (twoBodyScenario ! 1))
         (multiplyScalar binary64 (velocity (bs' ! 1)) (dt binary64))"
    by (simp_all only: v p twoBody_position)
  ultimately show ?thesis using u v by blast
qed

section \<open>Two bodies a little less than one unit apart\<close>

lemma createBodies_ok: "bodies_ok (fst (createBodiesFromControls rd ctl rnd k))"
  unfolding bodies_ok_def using createBodies_fresh recorded_trail_ok by blast

lemma nearBodies_data:
  "position (nearBodies ! 0) = Vector3 (- (1 / 2)) (1 / 536870912) 1"
  "position (nearBodies ! 1) = Vector3 (4503599627370495 / 9007199254740992) (1 / 67108864) 1"
  "position (nearBodies ! 2) = Vector3 (- (1 / 2)) (1 / 536870912) 1"
  "velocity (nearBodies ! 0) = Vector3 1 1 1"
  "mass (nearBodies ! 0) = 300"
  "mass (nearBodies ! 1) = 300"
  "[0..<length nearBodies] = [0, 1, 2]"
proof -
  obtain k1 k2 where l: "nearBodies =
     [fst (createBody binary64 controlsNear rnd0 1 0),
      fst (createBody binary64 controlsNear rnd0 2 k1),
      fst (createBody binary64 controlsNear rnd0 3 k2)]"
    unfolding nearBodies_def using createBodies_list by blast
  have p1: "position (fst (createBody binary64 controlsNear rnd0 1 k)) =
              Vector3 (- (1 / 2)) (1 / 536870912) 1" for k
    by (rule createBody_given(1) [where vx = 1 and vy = 1 and vz = 1])
      (simp_all add: controlsNear_def)
  have p2: "position (fst (createBody binary64 controlsNear rnd0 2 k)) =
              Vector3 (4503599627370495 / 9007199254740992) (1 / 67108864) 1" for k
    by (rule createBody_given(1) [where vx = 1 and vy = 1 and vz = 1])
      (simp_all add: controlsNear_def)
  have p3: "position (fst (createBody binary64 controlsNear rnd0 3 k)) =
              Vector3 (- (1 / 2)) (1 / 536870912) 1" for k
    by (rule createBody_given(1) [where vx = 1 and vy = 1 and vz = 1])
      (simp_all add: controlsNear_def)
  have v1: "velocity (fst (createBody binary64 controlsNear rnd0 1 k)) = Vector3 1 1 1" for k
    by (rule createBody_given(2)
          [where px = "- (1 / 2)" and py = "1 / 536870912" and pz = 1])
      (simp_all add: controlsNear_def)
  show "position (nearBodies ! 0) = Vector3 (- (1 / 2)) (1 / 536870912) 1"
    "position (nearBodies ! 1) = Vector3 (4503599627370495 / 9007199254740992) (1 / 67108864) 1"
    "position (nearBodies ! 2) = Vector3 (- (1 / 2)) (1 / 536870912) 1"
    "velocity (nearBodies ! 0) = Vector3 1 1 1"
    "[0..<length nearBodies] = [0, 1, 2]"
    by (simp_all add: l p1 [unfolded One_nat_def] p2 p3 v1 [unfolded One_nat_def] upt_rec)
  show "mass (nearBodies ! 0) = 300" "mass (nearBodies ! 1) = 300"
    unfolding nearBodies_def by (simp_all add: createBodies_mass controlsNear_def)
qed

lemma nearBodies_pair:
  "lengthSq binary64
     (subVectors binary64 (position (nearBodies ! 1)) (position (nearBodies ! 0))) = 1"
  "forceLoop binary64 nearBodies 0 (1 # js) tf =
   forceLoop binary64 nearBodies 0 js
     (addV binary64 tf (Vector3 (7576322310143999 / 8589934592) (385875 / 33554432) 0))"
proof -
  have d: "subVectors binary64 (position (nearBodies ! 1)) (position (nearBodies ! 0)) =
           Vector3 (9007199254740991 / 9007199254740992) (7 / 536870912) 0"
    by (simp only: nearBodies_data subVectors_def vec3.sel near_eval)
  have q: "lengthSq binary64
             (Vector3 (9007199254740991 / 9007199254740992) (7 / 536870912) 0) = 1"
    by (simp only: lengthSq_def vec3.sel near_eval)
  have l: "lengthV binary64
             (Vector3 (9007199254740991 / 9007199254740992) (7 / 536870912) 0) = 1"
    by (simp only: lengthV_def vec3.sel near_eval)
  have f: "multiplyScalar binary64
             (multiplyScalar binary64
                (Vector3 (9007199254740991 / 9007199254740992) (7 / 536870912) 0)
                (binary64 (1 / 1)))
             (binary64
                (js_mul binary64 (js_mul binary64 (G binary64) (mass (nearBodies ! 0)))
                   (mass (nearBodies ! 1)) / 1)) =
           Vector3 (7576322310143999 / 8589934592) (385875 / 33554432) 0"
    by (simp only: nearBodies_data multiplyScalar_def vec3.sel near_eval)
  show "lengthSq binary64
     (subVectors binary64 (position (nearBodies ! 1)) (position (nearBodies ! 0))) = 1"
    by (simp only: d q)
  show "forceLoop binary64 nearBodies 0 (1 # js) tf =
   forceLoop binary64 nearBodies 0 js
     (addV binary64 tf (Vector3 (7576322310143999 / 8589934592) (385875 / 33554432) 0))"
    by (rule forceLoop_far_value [OF _ d q _ l _ f]) simp_all
qed

lemma nearBodies_force:
  "totalForceOn binary64 nearBodies 0 =
     Vector3 (7576322310143999 / 8589934592) (385875 / 33554432) 0"
proof -
  have n: "lengthSq binary64
             (subVectors binary64 (position (nearBodies ! 2)) (position (nearBodies ! 0))) < 1"
    by (simp only: nearBodies_data same_place_near [of binary64, OF binary64_zero] zero_less_one)
  have "forceLoop binary64 nearBodies 0 [0, 1, 2] (Vector3 0 0 0) =
        forceLoop binary64 nearBodies 0 [1, 2] (Vector3 0 0 0)"
    by (rule forceLoop_self)
  also have "\<dots> = forceLoop binary64 nearBodies 0 [2]
      (addV binary64 (Vector3 0 0 0)
         (Vector3 (7576322310143999 / 8589934592) (385875 / 33554432) 0))"
    by (rule nearBodies_pair(2))
  also have "\<dots> = forceLoop binary64 nearBodies 0 []
      (addV binary64 (Vector3 0 0 0)
         (Vector3 (7576322310143999 / 8589934592) (385875 / 33554432) 0))"
    using n by (rule forceLoop_near)
  also have "\<dots> = Some (Vector3 (7576322310143999 / 8589934592) (385875 / 33554432) 0)"
    by (simp only: forceLoop.simps addV_def vec3.sel near_eval)
  finally show ?thesis
    by (simp only: totalForceOn_def nearBodies_data option.sel)
qed

text \<open>
  Claim C4 speaks of every pair whose squared separation is below 1. The program compares
  the squared distance it has computed, which is rounded. The first two bodies built from
  \<open>controlsNear\<close> are at \<open>(-1/2, 1/2^29, 1)\<close> and \<open>(1/2 - 1/2^53, 1/2^26, 1)\<close>: their
  squared separation is below 1, the program's \<^verbatim>\<open>distanceSq\<close> is exactly 1, and the pair
  is not skipped. Its iteration adds a force of about 882000 to \<open>totalForce\<close>, and the step
  takes the velocity of the first body from \<open>(1, 1, 1)\<close> to about \<open>(295, 1.000004, 1)\<close>.
\<close>

theorem near_pair_attracts:
  "lengthSq exact (subVectors exact (position (nearBodies ! 1)) (position (nearBodies ! 0))) < 1 \<and>
   lengthSq binary64
     (subVectors binary64 (position (nearBodies ! 1)) (position (nearBodies ! 0))) = 1 \<and>
   forceLoop binary64 nearBodies 0 [1] (Vector3 0 0 0) =
     Some (Vector3 (7576322310143999 / 8589934592) (385875 / 33554432) 0) \<and>
   velocity (nearBodies ! 0) = Vector3 1 1 1 \<and>
   (\<exists>bs'. updatePhysics binary64 nearBodies = Some bs' \<and>
      velocity (bs' ! 0) = Vector3 295 (268436485 / 268435456) 1)"
proof -
  have "lengthSq exact (subVectors exact (position (nearBodies ! 1)) (position (nearBodies ! 0))) =
        (9007199254740991 / 9007199254740992)\<^sup>2 + (7 / 536870912)\<^sup>2"
    by (simp only: nearBodies_data)
      (simp add: lengthSq_def subVectors_def js_add_def js_sub_def js_mul_def exact_def
         power2_eq_square)
  then have a: "lengthSq exact
      (subVectors exact (position (nearBodies ! 1)) (position (nearBodies ! 0))) < 1"
    by (simp add: power2_eq_square)
  have "forceLoop binary64 nearBodies 0 [1] (Vector3 0 0 0) =
        forceLoop binary64 nearBodies 0 []
          (addV binary64 (Vector3 0 0 0)
             (Vector3 (7576322310143999 / 8589934592) (385875 / 33554432) 0))"
    by (rule nearBodies_pair(2))
  also have "\<dots> = Some (Vector3 (7576322310143999 / 8589934592) (385875 / 33554432) 0)"
    by (simp only: forceLoop.simps addV_def vec3.sel near_eval)
  finally have b: "forceLoop binary64 nearBodies 0 [1] (Vector3 0 0 0) =
     Some (Vector3 (7576322310143999 / 8589934592) (385875 / 33554432) 0)" .
  have nv: "newVelocity binary64 nearBodies 0 = Vector3 295 (268436485 / 268435456) 1"
    by (simp only: newVelocity_def nearBodies_force nearBodies_data multiplyScalar_def
          addV_def vec3.sel near_eval)
  have ok: "bodies_ok nearBodies"
    unfolding nearBodies_def by (rule createBodies_ok)
  have "(0::nat) < length nearBodies"
    by (simp add: nearBodies_def createBodies_length)
  with step_of_body [OF ok, of binary64] nv
  have "\<exists>bs'. updatePhysics binary64 nearBodies = Some bs' \<and>
      velocity (bs' ! 0) = Vector3 295 (268436485 / 268435456) 1"
    by auto
  with a b nearBodies_pair(1) nearBodies_data(4) show ?thesis by blast
qed

section \<open>What the trail holds\<close>

lemma sameBodies_data:
  "length sameBodies = 3" "bodies_ok sameBodies"
  "allAt (Vector3 10 20 30) (Vector3 1 2 3) sameBodies"
proof -
  obtain k1 k2 where l: "sameBodies =
     [fst (createBody binary64 controlsSame rnd0 1 0),
      fst (createBody binary64 controlsSame rnd0 2 k1),
      fst (createBody binary64 controlsSame rnd0 3 k2)]"
    unfolding sameBodies_def using createBodies_list by blast
  have p: "position (fst (createBody binary64 controlsSame rnd0 i k)) = Vector3 10 20 30"
    and v: "velocity (fst (createBody binary64 controlsSame rnd0 i k)) = Vector3 1 2 3"
    for i k
    by (rule createBody_given [where px = 10 and py = 20 and pz = 30
           and vx = 1 and vy = 2 and vz = 3]; simp add: controlsSame_def)+
  show "length sameBodies = 3" by (simp add: l)
  show "bodies_ok sameBodies" unfolding sameBodies_def by (rule createBodies_ok)
  show "allAt (Vector3 10 20 30) (Vector3 1 2 3) sameBodies"
    by (simp add: allAt_def l p v)
qed

lemma sameBodies_drift:
  assumes "i < 3"
  shows "positionAfter binary64 1 sameBodies i =
           Some (Vector3 (5685794529555251 / 562949953421312)
                   (5685794529555251 / 281474976710656) (8528691794332877 / 281474976710656))"
    and "positionAfter binary64 2 sameBodies i =
           Some (Vector3 (2871044762448691 / 281474976710656)
                   (2871044762448691 / 140737488355328) (4306567143673037 / 140737488355328))"
proof -
  let ?v = "Vector3 1 2 3"
  let ?q1 = "Vector3 (5685794529555251 / 562949953421312)
               (5685794529555251 / 281474976710656) (8528691794332877 / 281474976710656)"
  let ?q2 = "Vector3 (2871044762448691 / 281474976710656)
               (2871044762448691 / 140737488355328) (4306567143673037 / 140737488355328)"
  have fx: "binary64 (vec_x ?v) = vec_x ?v" "binary64 (vec_y ?v) = vec_y ?v"
    "binary64 (vec_z ?v) = vec_z ?v"
    using binary64_int [of 1] binary64_int [of 2] binary64_int [of 3] by simp_all
  have e1: "addV binary64 (Vector3 10 20 30) (multiplyScalar binary64 ?v (dt binary64)) = ?q1"
    by (simp only: addV_def multiplyScalar_def vec3.sel drift_eval)
  have e2: "addV binary64 ?q1 (multiplyScalar binary64 ?v (dt binary64)) = ?q2"
    by (simp only: addV_def multiplyScalar_def vec3.sel drift_eval)
  from same_place_step [of binary64, OF binary64_zero sameBodies_data(2,3) fx]
  obtain bs1 where u1: "updatePhysics binary64 sameBodies = Some bs1"
    and l1: "length bs1 = 3" and ok1: "bodies_ok bs1" and a1: "allAt ?q1 ?v bs1"
    by (simp only: e1 sameBodies_data(1)) blast
  from same_place_step [of binary64, OF binary64_zero ok1 a1 fx]
  obtain bs2 where u2: "updatePhysics binary64 bs1 = Some bs2"
    and l2: "length bs2 = 3" and a2: "allAt ?q2 ?v bs2"
    by (simp only: e2 l1) blast
  have s1: "steps binary64 1 sameBodies = Some bs1" using u1 by simp
  have s2: "steps binary64 2 sameBodies = Some bs2" using u1 u2 by (simp add: numeral_2_eq_2)
  from assms l1 a1 have "position (bs1 ! i) = ?q1" by (simp add: allAt_def)
  with s1 show "positionAfter binary64 1 sameBodies i = Some ?q1"
    by (simp only: positionAfter_def option.map)
  from assms l2 a2 have "position (bs2 ! i) = ?q2" by (simp add: allAt_def)
  with s2 show "positionAfter binary64 2 sameBodies i = Some ?q2"
    by (simp only: positionAfter_def option.map)
qed

lemma sameBodies_stored:
  "froundV (Vector3 (5685794529555251 / 562949953421312)
              (5685794529555251 / 281474976710656) (8528691794332877 / 281474976710656)) =
   Vector3 (5295309 / 524288) (5295309 / 262144) (7942963 / 262144)"
  "froundV (Vector3 (2871044762448691 / 281474976710656)
              (2871044762448691 / 140737488355328) (4306567143673037 / 140737488355328)) =
   Vector3 (10695475 / 1048576) (10695475 / 524288) (16043213 / 524288)"
  by (simp_all only: froundV_def vec3.sel drift_eval)

lemma sameBodies_trail:
  assumes "i < 3"
  shows "\<exists>bs' hist. steps binary64 n sameBodies = Some bs' \<and> length hist = n \<and>
           readTrail (bs' ! i) = Some (drop (n - default_trail_length) hist) \<and>
           (\<forall>s<n. map_option froundV (positionAfter binary64 (Suc s) sameBodies i) =
                    Some (hist ! s))"
proof -
  from steps_created [OF assms, of binary64 n controlsSame rnd0 0]
  obtain bs' hist where s: "steps binary64 n sameBodies = Some bs'" "length hist = n"
    and r: "recorded (bs' ! i) hist" and f: "map froundV hist = hist"
    and p: "\<forall>s<n. map_option froundV (positionAfter binary64 (Suc s) sameBodies i) =
                    Some (hist ! s)"
    unfolding sameBodies_def by blast
  have "map froundV (drop (n - default_trail_length) hist) =
        drop (n - default_trail_length) (map froundV hist)"
    by (simp add: drop_map)
  with readTrail_recorded [OF r] s(2) f
  have "readTrail (bs' ! i) = Some (drop (n - default_trail_length) hist)" by simp
  with s p show ?thesis by blast
qed

text \<open>
  Claim C5 says that the trail reader returns the positions the body held. The trail is a
  \<^verbatim>\<open>Float32Array\<close>, and what it returns is the position rounded to binary32. The three
  bodies built from \<open>controlsSame\<close> start at \<open>(10, 20, 30)\<close> with velocity \<open>(1, 2, 3)\<close> (they
  coincide, so no force acts). After one step the second body is at
  \<open>(10.1, 20.2, 30.3)\<close>, the binary64 numbers nearest to these, and the reader returns the
  one point \<open>(10.100000381469727, 20.200000762939453, 30.299999237060547)\<close>.
\<close>

theorem trail_point_rounded:
  "trailAfter binary64 1 sameBodies 1 =
     Some [Vector3 (5295309 / 524288) (5295309 / 262144) (7942963 / 262144)] \<and>
   positionAfter binary64 1 sameBodies 1 =
     Some (Vector3 (5685794529555251 / 562949953421312)
             (5685794529555251 / 281474976710656) (8528691794332877 / 281474976710656)) \<and>
   trailAfter binary64 1 sameBodies 1 \<noteq>
     map_option (\<lambda>p. [p]) (positionAfter binary64 1 sameBodies 1)"
proof -
  have i: "(1::nat) < 3" by simp
  from sameBodies_trail [OF i, of 1]
  obtain bs' hist where s: "steps binary64 1 sameBodies = Some bs'" and h: "length hist = 1"
    and r: "readTrail (bs' ! 1) = Some (drop (1 - default_trail_length) hist)"
    and p: "map_option froundV (positionAfter binary64 (Suc 0) sameBodies 1) = Some (hist ! 0)"
    by auto
  from p have "hist ! 0 = Vector3 (5295309 / 524288) (5295309 / 262144) (7942963 / 262144)"
    using sameBodies_drift(1) [OF i] sameBodies_stored(1) by simp
  with h have "hist = [Vector3 (5295309 / 524288) (5295309 / 262144) (7942963 / 262144)]"
    by (cases hist) simp_all
  with r have "readTrail (bs' ! 1) =
      Some [Vector3 (5295309 / 524288) (5295309 / 262144) (7942963 / 262144)]"
    by (simp add: default_trail_length_def)
  with s have t: "trailAfter binary64 1 sameBodies 1 =
      Some [Vector3 (5295309 / 524288) (5295309 / 262144) (7942963 / 262144)]"
    by (simp only: trailAfter_def bind.bind_lunit)
  show ?thesis
    by (simp only: t sameBodies_drift(1) [OF i]) simp
qed

text \<open>
  Claim C6 says that the oldest point returned after \<open>800 + m\<close> steps is the position
  recorded at step \<open>m + 1\<close>. For the same bodies and \<open>m = 1\<close>, the second body is at
  \<open>(10.2, 20.4, 30.6)\<close> (the binary64 numbers nearest to these) at the end of step 2, and
  the oldest of the 800 points the reader returns after 801 steps is
  \<open>(10.199999809265137, 20.399999618530273, 30.600000381469727)\<close>, that position rounded to
  binary32.
\<close>

theorem trail_oldest_rounded:
  "\<exists>ps. trailAfter binary64 (default_trail_length + 1) sameBodies 1 = Some ps \<and>
     length ps = default_trail_length \<and>
     ps ! 0 = Vector3 (10695475 / 1048576) (10695475 / 524288) (16043213 / 524288) \<and>
     positionAfter binary64 2 sameBodies 1 =
       Some (Vector3 (2871044762448691 / 281474976710656)
               (2871044762448691 / 140737488355328) (4306567143673037 / 140737488355328)) \<and>
     Some (ps ! 0) \<noteq> positionAfter binary64 2 sameBodies 1"
proof -
  let ?C = default_trail_length
  have i: "(1::nat) < 3" by simp
  from sameBodies_trail [OF i, of "?C + 1"]
  obtain bs' hist where s: "steps binary64 (?C + 1) sameBodies = Some bs'"
    and h: "length hist = ?C + 1"
    and r: "readTrail (bs' ! 1) = Some (drop (?C + 1 - ?C) hist)"
    and p: "\<And>s. s < ?C + 1 \<Longrightarrow>
      map_option froundV (positionAfter binary64 (Suc s) sameBodies 1) = Some (hist ! s)"
    by blast
  have "(1::nat) < ?C + 1" by (simp add: default_trail_length_def)
  from p [OF this]
  have "map_option froundV (positionAfter binary64 2 sameBodies 1) = Some (hist ! 1)"
    by (simp add: numeral_2_eq_2)
  then have h1: "hist ! 1 = Vector3 (10695475 / 1048576) (10695475 / 524288) (16043213 / 524288)"
    using sameBodies_drift(2) [OF i] sameBodies_stored(2) by simp
  let ?ps = "drop 1 hist"
  from r have "readTrail (bs' ! 1) = Some ?ps" by simp
  with s have t: "trailAfter binary64 (?C + 1) sameBodies 1 = Some ?ps"
    by (simp only: trailAfter_def bind.bind_lunit)
  from h have len: "length ?ps = ?C" by simp
  from h h1 have z: "?ps ! 0 = Vector3 (10695475 / 1048576) (10695475 / 524288) (16043213 / 524288)"
    by simp
  have "Some (?ps ! 0) \<noteq> positionAfter binary64 2 sameBodies 1"
    by (simp only: z sameBodies_drift(2) [OF i]) simp
  with t len z sameBodies_drift(2) [OF i] show ?thesis by blast
qed

end
